theory Spec2Isabelle
  imports Main "HOL-Library.Word"
begin

section \<open>C and N-API base types\<close>

text \<open>
  Addresses, \<^verbatim>\<open>size_t\<close> and \<^verbatim>\<open>int64_t\<close> are 64-bit words, \<^verbatim>\<open>int32_t\<close> and \<^verbatim>\<open>uint32_t\<close>
  are 32-bit words. The null pointer is the address 0. A \<^verbatim>\<open>char*\<close> that the code only
  reads is its characters (an option where the code tests it for null); a \<^verbatim>\<open>char*\<close>
  that the code only passes to \<^verbatim>\<open>free\<close> is its address; one that it both reads and
  frees is the pair of the two. A pointer to a native struct that may be null is an
  option of the struct. An array with its element count is a list. Where several C
  structs share a field name, the field is written with its record name in front
  (\<open>BucketOpData.deferred\<close>).
\<close>

type_synonym size_t = "64 word"
type_synonym int32_t = "32 word"
type_synonym uint32_t = "32 word"
type_synonym int64_t = "64 word"
type_synonym ptr = "64 word"
type_synonym napi_deferred = ptr
type_synonym napi_async_work = ptr
type_synonym c_string = "ptr \<times> string"

abbreviation NULL :: ptr where
  "NULL \<equiv> 0"

datatype napi_status =
    napi_ok
  | napi_invalid_arg
  | napi_object_expected
  | napi_generic_failure
  | napi_pending_exception
  | napi_cancelled

datatype napi_valuetype =
    napi_undefined
  | napi_null
  | napi_boolean
  | napi_number
  | napi_string
  | napi_object
  | napi_function
  | napi_external

text \<open>
  The JavaScript values the binding builds and inspects. \<open>JsFunction\<close> is an ordinary
  function known by name; \<open>JsFunction ''Error''\<close> and \<open>JsFunction ''Object''\<close> are the
  realm's built-in \<^verbatim>\<open>Error\<close> and \<^verbatim>\<open>Object\<close>. \<open>JsClass n super\<close> is a class declared by
  the embedded script, with its superclass; \<open>JsExternal p\<close> is an external whose data
  pointer is \<open>p\<close>; \<open>JsObject c props\<close> is an object constructed by \<open>c\<close> with the own
  properties that the binding or the script wrote, in insertion order. The own
  \<^verbatim>\<open>stack\<close> property that the engine gives an error object is not part of the model:
  no code of the binding reads or writes it.
\<close>

datatype js_value =
    JsUndefined
  | JsNull
  | JsBoolean bool
  | JsNumber int
  | JsString string
  | JsFunction string
  | JsClass string js_value
  | JsExternal ptr
  | JsObject js_value "(string \<times> js_value) list"

text \<open>A pending exception: the \<^verbatim>\<open>Error\<close> or \<^verbatim>\<open>TypeError\<close> that \<^verbatim>\<open>napi_throw_error\<close> or
  \<^verbatim>\<open>napi_throw_type_error\<close> builds from a message, or whatever value JavaScript code
  threw.\<close>

datatype js_exception = ThrownError string | ThrownTypeError string | ThrownValue js_value

datatype napi_ref = Ref js_value

fun napi_typeof :: "js_value \<Rightarrow> napi_valuetype" where
  "napi_typeof JsUndefined = napi_undefined"
| "napi_typeof JsNull = napi_null"
| "napi_typeof (JsBoolean b) = napi_boolean"
| "napi_typeof (JsNumber n) = napi_number"
| "napi_typeof (JsString s) = napi_string"
| "napi_typeof (JsFunction f) = napi_function"
| "napi_typeof (JsClass n s) = napi_function"
| "napi_typeof (JsExternal p) = napi_external"
| "napi_typeof (JsObject c ps) = napi_object"

fun set_prop :: "string \<Rightarrow> js_value \<Rightarrow> (string \<times> js_value) list \<Rightarrow> (string \<times> js_value) list" where
  "set_prop k v [] = [(k, v)]"
| "set_prop k v ((k', v') # ps) = (if k' = k then (k, v) # ps else (k', v') # set_prop k v ps)"

text \<open>Writing a property: only an object takes it.\<close>

fun js_set :: "js_value \<Rightarrow> string \<Rightarrow> js_value \<Rightarrow> js_value" where
  "js_set (JsObject c ps) k v = JsObject c (set_prop k v ps)"
| "js_set obj k v = obj"

text \<open>Value constructors that need no pending-exception check (they begin with
  \<^verbatim>\<open>CHECK_ENV\<close> only) and whose status the callers do not test.
  \<^verbatim>\<open>napi_create_error(env, NULL, msg, &err)\<close> is the built-in \<^verbatim>\<open>Error\<close> with a message;
  \<^verbatim>\<open>napi_create_string_utf8\<close> with an explicit length takes that many bytes of the
  buffer.\<close>

definition napi_create_error :: "string \<Rightarrow> js_value" where
  "napi_create_error msg = JsObject (JsFunction ''Error'') [(''message'', JsString msg)]"

definition napi_create_object :: js_value where
  "napi_create_object = JsObject (JsFunction ''Object'') []"

definition napi_create_string_utf8 :: "string \<Rightarrow> js_value" where
  "napi_create_string_utf8 str = JsString str"

definition napi_create_string_utf8_len :: "string \<Rightarrow> size_t \<Rightarrow> js_value" where
  "napi_create_string_utf8_len str len = JsString (take (unat len) str)"

definition napi_create_int32 :: "int32_t \<Rightarrow> js_value" where
  "napi_create_int32 v = JsNumber (sint v)"

definition napi_create_uint32 :: "uint32_t \<Rightarrow> js_value" where
  "napi_create_uint32 v = JsNumber (uint v)"

text \<open>
  \<^verbatim>\<open>napi_create_int64\<close> makes a JavaScript number, an IEEE double, of a 64-bit pattern
  read as signed: magnitudes below \<open>2 ^ 53\<close> are kept, larger ones are rounded to 53
  significant bits, ties to even. \<open>excess_bits a\<close> is the number of low bits a magnitude
  \<open>a < 2 ^ 64\<close> loses.
\<close>

definition excess_bits :: "int \<Rightarrow> nat" where
  "excess_bits a = length (filter (\<lambda>k. 2 ^ (53 + k) \<le> a) [0..<11])"

definition double_of_int :: "int \<Rightarrow> int" where
  "double_of_int i =
     (let a = \<bar>i\<bar>; k = excess_bits a; q = a div 2 ^ k; r = a mod 2 ^ k;
          q' = (if 2 * r > 2 ^ k \<or> (2 * r = 2 ^ k \<and> odd q) then q + 1 else q)
      in sgn i * (q' * 2 ^ k))"

definition napi_create_int64 :: "int64_t \<Rightarrow> js_value" where
  "napi_create_int64 v = JsNumber (double_of_int (sint v))"

section \<open>Handles (handle_helpers.h)\<close>

datatype HandleType =
    HANDLE_TYPE_ACCESS
  | HANDLE_TYPE_PROJECT
  | HANDLE_TYPE_DOWNLOAD
  | HANDLE_TYPE_UPLOAD
  | HANDLE_TYPE_ENCRYPTION_KEY
  | HANDLE_TYPE_PART_UPLOAD
  | HANDLE_TYPE_OBJECT_ITERATOR
  | HANDLE_TYPE_BUCKET_ITERATOR
  | HANDLE_TYPE_UPLOAD_ITERATOR
  | HANDLE_TYPE_PART_ITERATOR

record HandleWrapper =
  type :: HandleType
  handle :: size_t
  native_ptr :: ptr

fun get_handle_type_name :: "HandleType \<Rightarrow> string" where
  "get_handle_type_name HANDLE_TYPE_ACCESS = ''Access''"
| "get_handle_type_name HANDLE_TYPE_PROJECT = ''Project''"
| "get_handle_type_name HANDLE_TYPE_DOWNLOAD = ''Download''"
| "get_handle_type_name HANDLE_TYPE_UPLOAD = ''Upload''"
| "get_handle_type_name HANDLE_TYPE_ENCRYPTION_KEY = ''EncryptionKey''"
| "get_handle_type_name HANDLE_TYPE_PART_UPLOAD = ''PartUpload''"
| "get_handle_type_name HANDLE_TYPE_OBJECT_ITERATOR = ''ObjectIterator''"
| "get_handle_type_name HANDLE_TYPE_BUCKET_ITERATOR = ''BucketIterator''"
| "get_handle_type_name HANDLE_TYPE_UPLOAD_ITERATOR = ''UploadIterator''"
| "get_handle_type_name HANDLE_TYPE_PART_ITERATOR = ''PartIterator''"

section \<open>Native structs of uplink-c used by the binding\<close>

record UplinkError =
  code :: int32_t
  message :: "string option"

record UplinkBucket =
  name :: string
  created :: int64_t

record UplinkBucketResult =
  bucket :: "UplinkBucket option"
  error :: "UplinkError option"

text \<open>\<^verbatim>\<open>UplinkDownload\<close> is \<^verbatim>\<open>{ size_t _handle; }\<close>; the model keeps the address of the
  struct beside it, since the wrapper stores that address as its native pointer.
  \<^verbatim>\<open>UplinkAccess\<close>, \<^verbatim>\<open>UplinkProject\<close>, \<^verbatim>\<open>UplinkUpload\<close>, \<^verbatim>\<open>UplinkEncryptionKey\<close> and
  \<^verbatim>\<open>UplinkPartUpload\<close> have the same layout; \<open>UplinkHandle\<close> stands for the five.\<close>

record UplinkDownload =
  download_addr :: ptr
  handle' :: size_t

record UplinkDownloadResult =
  download :: "UplinkDownload option"
  error :: "UplinkError option"

record UplinkReadResult =
  bytes_read :: size_t
  error :: "UplinkError option"

record UplinkHandle =
  addr :: ptr
  handle' :: size_t

type_synonym UplinkAccess = UplinkHandle
type_synonym UplinkProject = UplinkHandle
type_synonym UplinkUpload = UplinkHandle
type_synonym UplinkEncryptionKey = UplinkHandle
type_synonym UplinkPartUpload = UplinkHandle

record UplinkAccessResult =
  access :: "UplinkAccess option"
  error :: "UplinkError option"

record UplinkProjectResult =
  project :: "UplinkProject option"
  error :: "UplinkError option"

record UplinkUploadResult =
  upload :: "UplinkUpload option"
  error :: "UplinkError option"

record UplinkEncryptionKeyResult =
  encryption_key :: "UplinkEncryptionKey option"
  error :: "UplinkError option"

record UplinkPartUploadResult =
  part_upload :: "UplinkPartUpload option"
  error :: "UplinkError option"

record UplinkWriteResult =
  bytes_written :: size_t
  error :: "UplinkError option"

text \<open>The field \<^verbatim>\<open>string\<close> of \<^verbatim>\<open>UplinkStringResult\<close> is written \<open>string'\<close>; it keeps its
  address, since one routine passes it to \<^verbatim>\<open>free\<close>.\<close>

record UplinkStringResult =
  string' :: "c_string option"
  error :: "UplinkError option"

record UplinkSystemMetadata =
  created :: int64_t
  expires :: int64_t
  content_length :: int64_t

text \<open>A metadata entry: key and value with their addresses (the binding frees the
  entries it owns one by one) and their lengths; the field \<^verbatim>\<open>value\<close> is written \<open>value'\<close>. \<^verbatim>\<open>UplinkCustomMetadata\<close> is the array
  of entries, \<open>None\<close> for a null pointer, with its address; its \<^verbatim>\<open>count\<close> is the length
  of the list.\<close>

record UplinkCustomMetadataEntry =
  key :: c_string
  key_length :: size_t
  value' :: c_string
  value_length :: size_t

record UplinkCustomMetadata =
  entries :: "(ptr \<times> UplinkCustomMetadataEntry list) option"

record UplinkObject =
  key :: string
  is_prefix :: bool
  system :: UplinkSystemMetadata
  custom :: UplinkCustomMetadata

record UplinkObjectResult =
  object :: "UplinkObject option"
  error :: "UplinkError option"

record UplinkCommitUploadResult =
  object :: "UplinkObject option"
  error :: "UplinkError option"

record UplinkUploadInfo =
  upload_id :: "c_string option"
  key :: "c_string option"
  is_prefix :: bool
  system :: UplinkSystemMetadata
  custom :: UplinkCustomMetadata

record UplinkUploadInfoResult =
  info :: "UplinkUploadInfo option"
  error :: "UplinkError option"

text \<open>The field \<^verbatim>\<open>size\<close> of \<^verbatim>\<open>UplinkPart\<close> is written \<open>size'\<close>.\<close>

record UplinkPart =
  part_number :: uint32_t
  size' :: size_t
  modified :: int64_t
  etag :: "c_string option"
  etag_length :: size_t

record UplinkPartResult =
  part :: "UplinkPart option"
  error :: "UplinkError option"

record EdgeCredentials =
  access_key_id :: "string option"
  secret_key :: "string option"
  endpoint :: "string option"

record EdgeCredentialsResult =
  credentials :: "EdgeCredentials option"
  error :: "UplinkError option"

record UplinkPermission =
  allow_download :: bool
  allow_upload :: bool
  allow_list :: bool
  allow_delete :: bool
  not_before :: int64_t
  not_after :: int64_t

text \<open>The share prefixes of a payload hold strings the binding allocated; only their
  addresses matter to it afterwards.\<close>

record UplinkSharePrefix =
  bucket :: ptr
  prefix :: ptr

section \<open>Observable effects and the world the binding runs in\<close>

text \<open>
  Every call that leaves the binding and takes effect (into uplink-c, into the C
  allocator, into the N-API runtime to settle a promise, delete a work item or drop a
  reference) is recorded, in order, in the world's trace. The release routines that
  \<open>free_native_resource\<close> calls on a result struct built from a bare pointer are
  recorded with that pointer and the struct's error field.
\<close>

datatype effect =
    Uplink_free_access_result ptr "UplinkError option"
  | Uplink_free_project_result ptr "UplinkError option"
  | Uplink_free_download_result ptr "UplinkError option"
  | Uplink_free_upload_result ptr "UplinkError option"
  | Uplink_free_encryption_key_result ptr "UplinkError option"
  | Uplink_free_part_upload_result ptr "UplinkError option"
  | Uplink_free_bucket_iterator ptr
  | Uplink_free_error UplinkError
  | Uplink_free_bucket_result UplinkBucketResult
  | Uplink_free_bucket UplinkBucket
  | Uplink_free_object_result UplinkObjectResult
  | Uplink_free_object UplinkObject
  | Uplink_free_string_result UplinkStringResult
  | Uplink_free_upload_info_result UplinkUploadInfoResult
  | Uplink_free_commit_upload_result UplinkCommitUploadResult
  | Uplink_free_part_result UplinkPartResult
  | Edge_free_credentials_result EdgeCredentialsResult
  | Free ptr
  | Napi_reject_deferred napi_deferred js_value
  | Napi_resolve_deferred napi_deferred js_value
  | Napi_delete_async_work napi_async_work
  | Napi_delete_reference napi_ref

datatype napi_finalize = handle_destructor_fn | custom_finalize nat

record ErrorClassEntry =
  code :: int32_t
  name :: string
  constructor_ref :: "napi_ref option"

text \<open>
  The world: the heap-allocated \<^verbatim>\<open>HandleWrapper\<close> structs by address, the finalizer
  attached to each external's data pointer, the pending JavaScript exception, the
  trace, and the two globals of error_registry.c.
\<close>

record world =
  wrappers :: "ptr \<rightharpoonup> HandleWrapper"
  finalizers :: "ptr \<rightharpoonup> napi_finalize"
  pending_exception :: "js_exception option"
  trace :: "effect list"
  error_registry :: "ErrorClassEntry list"
  g_registered :: bool

text \<open>What \<^verbatim>\<open>ErrorBase.captureStackTrace\<close> is for a base constructor: not a function,
  a function that returns, or a function that throws.\<close>

datatype stack_capture = No_captureStackTrace | Captures | Capture_throws js_exception

text \<open>
  What the environment decides: the address \<^verbatim>\<open>malloc\<close> returns for a wrapper and
  \<^verbatim>\<open>calloc\<close> for a payload (NULL when it fails); the status of each N-API call whose
  status the code tests; the deferred and work handles the runtime hands out; the
  exception, if any, with which running the embedded script and calling its factory on a
  base constructor end; and the JavaScript that is not the binding's own: what a base
  constructor other than the built-in \<^verbatim>\<open>Error\<close> does when called through \<^verbatim>\<open>super\<close>
  with a message (it throws, or returns with own properties on \<^verbatim>\<open>this\<close>, an ordinary
  object), its \<^verbatim>\<open>captureStackTrace\<close>, and the conversion to a string of a value that is
  not a string, \<^verbatim>\<open>undefined\<close> or \<^verbatim>\<open>null\<close>.
\<close>

record napi_env =
  malloc_wrapper :: ptr
  create_external_status :: napi_status
  get_reference_value_status :: napi_status
  create_reference_status :: "string \<Rightarrow> napi_status"
  get_global_status :: napi_status
  get_global_Error_status :: napi_status
  create_string_status :: napi_status
  run_script_throws :: "js_exception option"
  call_factory_throws :: "js_value \<Rightarrow> js_exception option"
  global_Error :: js_value
  construct_base :: "js_value \<Rightarrow> js_value \<Rightarrow> js_exception + (string \<times> js_value) list"
  captureStackTrace :: "js_value \<Rightarrow> stack_capture"
  to_string :: "js_value \<Rightarrow> js_exception + string"
  calloc_work_data :: ptr
  create_promise_deferred :: napi_deferred
  create_async_work :: napi_async_work

definition emit :: "effect \<Rightarrow> world \<Rightarrow> world" where
  "emit e w = w\<lparr>trace := trace w @ [e]\<rparr>"

definition emits :: "effect list \<Rightarrow> world \<Rightarrow> world" where
  "emits es w = w\<lparr>trace := trace w @ es\<rparr>"

subsection \<open>N-API calls that are refused while an exception is pending\<close>

text \<open>
  The N-API functions that may run JavaScript begin with \<^verbatim>\<open>NAPI_PREAMBLE\<close>: when an
  exception is pending they return \<^verbatim>\<open>napi_pending_exception\<close> and do nothing. Those the
  binding calls are \<^verbatim>\<open>napi_throw_error\<close>, \<^verbatim>\<open>napi_throw_type_error\<close>,
  \<^verbatim>\<open>napi_set_named_property\<close>, \<^verbatim>\<open>napi_get_named_property\<close>, \<^verbatim>\<open>napi_reject_deferred\<close>,
  \<^verbatim>\<open>napi_resolve_deferred\<close>, \<^verbatim>\<open>napi_new_instance\<close>, \<^verbatim>\<open>napi_call_function\<close>,
  \<^verbatim>\<open>napi_run_script\<close>, \<^verbatim>\<open>napi_create_external\<close> and \<^verbatim>\<open>napi_create_promise\<close>. A
  \<^verbatim>\<open>napi_value\<close> argument that is NULL (\<open>None\<close>) is an invalid argument, and the call
  does nothing either. The callers of the first six ignore the status.
\<close>

type_synonym napi_value = "js_value option"

definition napi_throw_error :: "string \<Rightarrow> world \<Rightarrow> world" where
  "napi_throw_error msg w =
     (if pending_exception w = None then w\<lparr>pending_exception := Some (ThrownError msg)\<rparr> else w)"

definition napi_throw_type_error :: "string \<Rightarrow> world \<Rightarrow> world" where
  "napi_throw_type_error msg w =
     (if pending_exception w = None then w\<lparr>pending_exception := Some (ThrownTypeError msg)\<rparr> else w)"

definition napi_set_named_property :: "world \<Rightarrow> js_value \<Rightarrow> string \<Rightarrow> napi_value \<Rightarrow> js_value" where
  "napi_set_named_property w obj k v =
     (case v of
        None \<Rightarrow> obj
      | Some x \<Rightarrow> if pending_exception w = None then js_set obj k x else obj)"

text \<open>\<^verbatim>\<open>napi_get_named_property\<close>: a missing property of an object reads as
  \<^verbatim>\<open>undefined\<close> with status ok; a non-object has no properties to read.\<close>

definition napi_get_named_property :: "world \<Rightarrow> js_value \<Rightarrow> string \<Rightarrow> napi_status \<times> js_value" where
  "napi_get_named_property w obj k =
     (if pending_exception w \<noteq> None then (napi_pending_exception, JsUndefined)
      else
        (case obj of
           JsObject c ps \<Rightarrow>
             (case map_of ps k of Some v \<Rightarrow> (napi_ok, v) | None \<Rightarrow> (napi_ok, JsUndefined))
         | _ \<Rightarrow> (napi_object_expected, JsUndefined)))"

definition napi_reject_deferred :: "napi_deferred \<Rightarrow> napi_value \<Rightarrow> world \<Rightarrow> world" where
  "napi_reject_deferred d v w =
     (case v of
        None \<Rightarrow> w
      | Some x \<Rightarrow> if pending_exception w = None then emit (Napi_reject_deferred d x) w else w)"

definition napi_resolve_deferred :: "napi_deferred \<Rightarrow> napi_value \<Rightarrow> world \<Rightarrow> world" where
  "napi_resolve_deferred d v w =
     (case v of
        None \<Rightarrow> w
      | Some x \<Rightarrow> if pending_exception w = None then emit (Napi_resolve_deferred d x) w else w)"

subsection \<open>Calls that always take effect\<close>

text \<open>\<^verbatim>\<open>free(NULL)\<close> does nothing.\<close>

definition free :: "ptr \<Rightarrow> world \<Rightarrow> world" where
  "free p w = (if p = NULL then w else emit (Free p) w)"

definition napi_delete_async_work :: "napi_async_work \<Rightarrow> world \<Rightarrow> world" where
  "napi_delete_async_work work w = emit (Napi_delete_async_work work) w"

definition napi_delete_reference :: "napi_ref \<Rightarrow> world \<Rightarrow> world" where
  "napi_delete_reference r w = emit (Napi_delete_reference r) w"

definition uplink_free_error :: "UplinkError \<Rightarrow> world \<Rightarrow> world" where
  "uplink_free_error e w = emit (Uplink_free_error e) w"

definition uplink_free_bucket_result :: "UplinkBucketResult \<Rightarrow> world \<Rightarrow> world" where
  "uplink_free_bucket_result r w = emit (Uplink_free_bucket_result r) w"

definition uplink_free_bucket :: "UplinkBucket \<Rightarrow> world \<Rightarrow> world" where
  "uplink_free_bucket b w = emit (Uplink_free_bucket b) w"

definition uplink_free_object_result :: "UplinkObjectResult \<Rightarrow> world \<Rightarrow> world" where
  "uplink_free_object_result r w = emit (Uplink_free_object_result r) w"

definition uplink_free_object :: "UplinkObject \<Rightarrow> world \<Rightarrow> world" where
  "uplink_free_object obj w = emit (Uplink_free_object obj) w"

definition uplink_free_string_result :: "UplinkStringResult \<Rightarrow> world \<Rightarrow> world" where
  "uplink_free_string_result r w = emit (Uplink_free_string_result r) w"

definition uplink_free_upload_info_result :: "UplinkUploadInfoResult \<Rightarrow> world \<Rightarrow> world" where
  "uplink_free_upload_info_result r w = emit (Uplink_free_upload_info_result r) w"

definition uplink_free_commit_upload_result :: "UplinkCommitUploadResult \<Rightarrow> world \<Rightarrow> world" where
  "uplink_free_commit_upload_result r w = emit (Uplink_free_commit_upload_result r) w"

definition uplink_free_part_result :: "UplinkPartResult \<Rightarrow> world \<Rightarrow> world" where
  "uplink_free_part_result r w = emit (Uplink_free_part_result r) w"

definition edge_free_credentials_result :: "EdgeCredentialsResult \<Rightarrow> world \<Rightarrow> world" where
  "edge_free_credentials_result r w = emit (Edge_free_credentials_result r) w"

text \<open>\<^verbatim>\<open>uplink_free_part_upload_result(result)\<close> on a result struct: the pointer it holds
  (NULL for none) and its error.\<close>

definition uplink_free_part_upload_result :: "UplinkPartUploadResult \<Rightarrow> world \<Rightarrow> world" where
  "uplink_free_part_upload_result r w =
     emit (Uplink_free_part_upload_result
             (case part_upload r of Some p \<Rightarrow> addr p | None \<Rightarrow> NULL)
             (UplinkPartUploadResult.error r)) w"

section \<open>handle_helpers.c\<close>

subsection \<open>free_native_resource, handle_destructor\<close>

fun free_native_resource :: "HandleType \<Rightarrow> ptr \<Rightarrow> world \<Rightarrow> world" where
  "free_native_resource HANDLE_TYPE_ACCESS p w = emit (Uplink_free_access_result p None) w"
| "free_native_resource HANDLE_TYPE_PROJECT p w = emit (Uplink_free_project_result p None) w"
| "free_native_resource HANDLE_TYPE_DOWNLOAD p w = emit (Uplink_free_download_result p None) w"
| "free_native_resource HANDLE_TYPE_UPLOAD p w = emit (Uplink_free_upload_result p None) w"
| "free_native_resource HANDLE_TYPE_ENCRYPTION_KEY p w = emit (Uplink_free_encryption_key_result p None) w"
| "free_native_resource HANDLE_TYPE_PART_UPLOAD p w = emit (Uplink_free_part_upload_result p None) w"
| "free_native_resource t p w = w"

text \<open>
  A read through a pointer to a wrapper that is not allocated (never allocated, or
  already passed to \<^verbatim>\<open>free\<close>), through a null pointer, or of a variable that was
  never written has no defined behaviour in C; the model stops there with a fault
  instead of inventing a value.
\<close>

datatype fault = DanglingWrapper ptr | NullDereference | UninitializedRead

definition handle_destructor :: "ptr \<Rightarrow> world \<Rightarrow> fault + world" where
  "handle_destructor data w =
     (if data \<noteq> NULL then
        (case wrappers w data of
           None \<Rightarrow> Inl (DanglingWrapper data)
         | Some wrapper \<Rightarrow>
             let w1 = (if native_ptr wrapper \<noteq> NULL
                       then free_native_resource (type wrapper) (native_ptr wrapper) w
                       else w)
             in Inr (free data (w1\<lparr>wrappers := (wrappers w1)(data := None)\<rparr>)))
      else Inr w)"

subsection \<open>create_handle_external, extract_handle, validate_handle\<close>

text \<open>The status of \<^verbatim>\<open>napi_create_external\<close>: refused while an exception is pending,
  and what the environment decides otherwise.\<close>

definition napi_create_external_status :: "napi_env \<Rightarrow> world \<Rightarrow> napi_status" where
  "napi_create_external_status env w =
     (if pending_exception w \<noteq> None then napi_pending_exception else create_external_status env)"

definition create_handle_external ::
  "napi_env \<Rightarrow> size_t \<Rightarrow> HandleType \<Rightarrow> ptr \<Rightarrow> napi_finalize option \<Rightarrow> world
     \<Rightarrow> js_value option \<times> world" where
  "create_handle_external env h t np destructor w =
     (let wrapper = malloc_wrapper env in
      if wrapper = NULL then (None, napi_throw_error ''Out of memory'' w)
      else
        let w1 = w\<lparr>wrappers := (wrappers w)(wrapper \<mapsto> \<lparr>type = t, handle = h, native_ptr = np\<rparr>)\<rparr>;
            final_destructor = (case destructor of Some d \<Rightarrow> d | None \<Rightarrow> handle_destructor_fn)
        in if napi_create_external_status env w1 \<noteq> napi_ok
           then (None, free wrapper (w1\<lparr>wrappers := (wrappers w1)(wrapper := None)\<rparr>))
           else (Some (JsExternal wrapper),
                 w1\<lparr>finalizers := (finalizers w1)(wrapper \<mapsto> final_destructor)\<rparr>))"

text \<open>\<^verbatim>\<open>napi_get_value_external\<close>: the data pointer of an external; any other value is
  an invalid argument and leaves the output pointer as it was.\<close>

fun napi_get_value_external :: "js_value \<Rightarrow> ptr \<Rightarrow> napi_status \<times> ptr" where
  "napi_get_value_external (JsExternal p) data = (napi_ok, p)"
| "napi_get_value_external v data = (napi_invalid_arg, data)"

text \<open>\<open>extract_handle\<close> returns the status and what it wrote to \<^verbatim>\<open>*out_handle\<close>
  (\<open>None\<close> when it wrote nothing).\<close>

definition extract_handle ::
  "world \<Rightarrow> js_value \<Rightarrow> HandleType \<Rightarrow> fault + (napi_status \<times> size_t option)" where
  "extract_handle w js_value t =
     (let (status, data) = napi_get_value_external js_value NULL in
      if status \<noteq> napi_ok \<or> data = NULL then Inr (napi_invalid_arg, None)
      else
        (case wrappers w data of
           None \<Rightarrow> Inl (DanglingWrapper data)
         | Some wrapper \<Rightarrow>
             if type wrapper \<noteq> t then Inr (napi_invalid_arg, None)
             else if handle wrapper = 0 then Inr (napi_invalid_arg, None)
             else Inr (napi_ok, Some (handle wrapper))))"

definition validate_handle :: "size_t \<Rightarrow> int" where
  "validate_handle h = (if h \<noteq> 0 then 1 else 0)"

text \<open>\<open>create_string\<close> (string_helpers.c): JavaScript \<^verbatim>\<open>null\<close> for a null string, NULL
  when the string cannot be created.\<close>

definition create_string :: "napi_env \<Rightarrow> string option \<Rightarrow> napi_value" where
  "create_string env str =
     (case str of
        None \<Rightarrow> Some JsNull
      | Some s \<Rightarrow> if create_string_status env \<noteq> napi_ok then None
                  else Some (napi_create_string_utf8 s))"

section \<open>Error classes (result_helpers.h, result_helpers.c, error_registry.c)\<close>

definition UPLINK_ERROR_INTERNAL :: int32_t where "UPLINK_ERROR_INTERNAL = 0x02"
definition UPLINK_ERROR_CANCELED :: int32_t where "UPLINK_ERROR_CANCELED = 0x03"
definition UPLINK_ERROR_INVALID_HANDLE :: int32_t where "UPLINK_ERROR_INVALID_HANDLE = 0x04"
definition UPLINK_ERROR_TOO_MANY_REQUESTS :: int32_t where "UPLINK_ERROR_TOO_MANY_REQUESTS = 0x05"
definition UPLINK_ERROR_BANDWIDTH_LIMIT_EXCEEDED :: int32_t where "UPLINK_ERROR_BANDWIDTH_LIMIT_EXCEEDED = 0x06"
definition UPLINK_ERROR_STORAGE_LIMIT_EXCEEDED :: int32_t where "UPLINK_ERROR_STORAGE_LIMIT_EXCEEDED = 0x07"
definition UPLINK_ERROR_SEGMENTS_LIMIT_EXCEEDED :: int32_t where "UPLINK_ERROR_SEGMENTS_LIMIT_EXCEEDED = 0x08"
definition UPLINK_ERROR_PERMISSION_DENIED :: int32_t where "UPLINK_ERROR_PERMISSION_DENIED = 0x09"
definition UPLINK_ERROR_BUCKET_NAME_INVALID :: int32_t where "UPLINK_ERROR_BUCKET_NAME_INVALID = 0x10"
definition UPLINK_ERROR_BUCKET_ALREADY_EXISTS :: int32_t where "UPLINK_ERROR_BUCKET_ALREADY_EXISTS = 0x11"
definition UPLINK_ERROR_BUCKET_NOT_EMPTY :: int32_t where "UPLINK_ERROR_BUCKET_NOT_EMPTY = 0x12"
definition UPLINK_ERROR_BUCKET_NOT_FOUND :: int32_t where "UPLINK_ERROR_BUCKET_NOT_FOUND = 0x13"
definition UPLINK_ERROR_OBJECT_KEY_INVALID :: int32_t where "UPLINK_ERROR_OBJECT_KEY_INVALID = 0x20"
definition UPLINK_ERROR_OBJECT_NOT_FOUND :: int32_t where "UPLINK_ERROR_OBJECT_NOT_FOUND = 0x21"
definition UPLINK_ERROR_UPLOAD_DONE :: int32_t where "UPLINK_ERROR_UPLOAD_DONE = 0x22"

lemmas UPLINK_ERROR_defs =
  UPLINK_ERROR_INTERNAL_def UPLINK_ERROR_CANCELED_def UPLINK_ERROR_INVALID_HANDLE_def
  UPLINK_ERROR_TOO_MANY_REQUESTS_def UPLINK_ERROR_BANDWIDTH_LIMIT_EXCEEDED_def
  UPLINK_ERROR_STORAGE_LIMIT_EXCEEDED_def UPLINK_ERROR_SEGMENTS_LIMIT_EXCEEDED_def
  UPLINK_ERROR_PERMISSION_DENIED_def UPLINK_ERROR_BUCKET_NAME_INVALID_def
  UPLINK_ERROR_BUCKET_ALREADY_EXISTS_def UPLINK_ERROR_BUCKET_NOT_EMPTY_def
  UPLINK_ERROR_BUCKET_NOT_FOUND_def UPLINK_ERROR_OBJECT_KEY_INVALID_def
  UPLINK_ERROR_OBJECT_NOT_FOUND_def UPLINK_ERROR_UPLOAD_DONE_def

subsection \<open>result_helpers.c: the plain error object\<close>

definition ERROR_NAMES :: "(int32_t \<times> string) list" where
  "ERROR_NAMES =
    [(UPLINK_ERROR_INTERNAL, ''InternalError''),
     (UPLINK_ERROR_CANCELED, ''CanceledError''),
     (UPLINK_ERROR_INVALID_HANDLE, ''InvalidHandleError''),
     (UPLINK_ERROR_TOO_MANY_REQUESTS, ''TooManyRequestsError''),
     (UPLINK_ERROR_BANDWIDTH_LIMIT_EXCEEDED, ''BandwidthLimitError''),
     (UPLINK_ERROR_STORAGE_LIMIT_EXCEEDED, ''StorageLimitError''),
     (UPLINK_ERROR_SEGMENTS_LIMIT_EXCEEDED, ''SegmentsLimitError''),
     (UPLINK_ERROR_PERMISSION_DENIED, ''PermissionDeniedError''),
     (UPLINK_ERROR_BUCKET_NAME_INVALID, ''BucketNameInvalidError''),
     (UPLINK_ERROR_BUCKET_ALREADY_EXISTS, ''BucketAlreadyExistsError''),
     (UPLINK_ERROR_BUCKET_NOT_EMPTY, ''BucketNotEmptyError''),
     (UPLINK_ERROR_BUCKET_NOT_FOUND, ''BucketNotFoundError''),
     (UPLINK_ERROR_OBJECT_KEY_INVALID, ''ObjectKeyInvalidError''),
     (UPLINK_ERROR_OBJECT_NOT_FOUND, ''ObjectNotFoundError''),
     (UPLINK_ERROR_UPLOAD_DONE, ''UploadDoneError'')]"

fun get_error_name_from :: "(int32_t \<times> string) list \<Rightarrow> int32_t \<Rightarrow> string" where
  "get_error_name_from [] c = ''UplinkError''"
| "get_error_name_from ((c', n) # rest) c = (if c' = c then n else get_error_name_from rest c)"

definition get_error_name :: "int32_t \<Rightarrow> string" where
  "get_error_name c = get_error_name_from ERROR_NAMES c"

text \<open>The body of \<open>uplink_error_to_js\<close> for a non-null error. The two properties are
  written with \<^verbatim>\<open>napi_set_named_property\<close>, which is refused while an exception is
  pending.\<close>

definition uplink_error_to_js_obj :: "world \<Rightarrow> UplinkError \<Rightarrow> js_value" where
  "uplink_error_to_js_obj w e =
     (let msg = (case UplinkError.message e of Some m \<Rightarrow> m | None \<Rightarrow> ''Unknown error'');
          js_error = napi_create_error msg;
          js_code = napi_create_int32 (UplinkError.code e);
          js_error = napi_set_named_property w js_error ''code'' (Some js_code);
          js_name = napi_create_string_utf8 (get_error_name (UplinkError.code e));
          js_error = napi_set_named_property w js_error ''name'' (Some js_name)
      in js_error)"

definition uplink_error_to_js :: "world \<Rightarrow> UplinkError option \<Rightarrow> napi_value" where
  "uplink_error_to_js w e = (case e of None \<Rightarrow> None | Some e' \<Rightarrow> Some (uplink_error_to_js_obj w e'))"

subsection \<open>error_registry.c: the embedded class hierarchy\<close>

text \<open>
  \<^verbatim>\<open>ERROR_CLASSES_JS\<close> is a factory taking \<^verbatim>\<open>ErrorBase\<close>. It declares
  \<^verbatim>\<open>class StorjError extends ErrorBase\<close> and seventeen subclasses, each
  \<^verbatim>\<open>constructor(details) { super(title, code, details); }\<close>, and returns an object
  mapping each class name to its constructor. The subclasses, in the script's order,
  with their title and code:
\<close>

definition error_subclasses :: "(string \<times> string \<times> int) list" where
  "error_subclasses =
    [(''InternalError'', ''Internal error'', 0x02),
     (''CanceledError'', ''Operation canceled'', 0x03),
     (''InvalidHandleError'', ''Invalid handle'', 0x04),
     (''TooManyRequestsError'', ''Too many requests'', 0x05),
     (''BandwidthLimitExceededError'', ''Bandwidth limit exceeded'', 0x06),
     (''StorageLimitExceededError'', ''Storage limit exceeded'', 0x07),
     (''SegmentsLimitExceededError'', ''Segments limit exceeded'', 0x08),
     (''PermissionDeniedError'', ''Permission denied'', 0x09),
     (''BucketNameInvalidError'', ''Invalid bucket name'', 0x10),
     (''BucketAlreadyExistsError'', ''Bucket already exists'', 0x11),
     (''BucketNotEmptyError'', ''Bucket is not empty'', 0x12),
     (''BucketNotFoundError'', ''Bucket not found'', 0x13),
     (''ObjectKeyInvalidError'', ''Invalid object key'', 0x20),
     (''ObjectNotFoundError'', ''Object not found'', 0x21),
     (''UploadDoneError'', ''Upload already done'', 0x22),
     (''EdgeAuthDialFailedError'', ''Edge auth dial failed'', 0x30),
     (''EdgeRegisterAccessFailedError'', ''Edge register access failed'', 0x31)]"

definition StorjError_class :: "js_value \<Rightarrow> js_value" where
  "StorjError_class ErrorBase = JsClass ''StorjError'' ErrorBase"

text \<open>The object the factory returns when its class declarations do not throw.\<close>

definition error_classes_factory :: "js_value \<Rightarrow> js_value" where
  "error_classes_factory ErrorBase =
     JsObject (JsFunction ''Object'')
       ((''StorjError'', StorjError_class ErrorBase) #
        map (\<lambda>(n, title, c). (n, JsClass n (StorjError_class ErrorBase))) error_subclasses)"

text \<open>The conversion of a value to a string; the environment decides it for values
  other than strings, \<^verbatim>\<open>undefined\<close> and \<^verbatim>\<open>null\<close>, and it may throw.\<close>

definition js_to_string :: "napi_env \<Rightarrow> js_value \<Rightarrow> js_exception + string" where
  "js_to_string env v =
     (case v of
        JsString s \<Rightarrow> Inr s
      | JsUndefined \<Rightarrow> Inr ''undefined''
      | JsNull \<Rightarrow> Inr ''null''
      | _ \<Rightarrow> to_string env v)"

text \<open>
  \<^verbatim>\<open>details != null && details !== '' ? message + ': ' + details : message\<close>, the
  argument the \<^verbatim>\<open>StorjError\<close> constructor passes to \<^verbatim>\<open>super\<close>.
\<close>

definition super_message :: "napi_env \<Rightarrow> js_value \<Rightarrow> js_value \<Rightarrow> js_exception + js_value" where
  "super_message env msg details =
     (if details = JsUndefined \<or> details = JsNull \<or> details = JsString [] then Inr msg
      else
        (case js_to_string env msg of
           Inl exc \<Rightarrow> Inl exc
         | Inr m \<Rightarrow>
             (case js_to_string env details of
                Inl exc \<Rightarrow> Inl exc
              | Inr d \<Rightarrow> Inr (JsString (m @ '': '' @ d)))))"

text \<open>
  The own properties the built-in \<^verbatim>\<open>Error\<close> gives the object it initialises: a
  \<^verbatim>\<open>message\<close>, the argument converted to a string, unless the argument is
  \<^verbatim>\<open>undefined\<close>. Any other base constructor is the environment's; so is its
  \<^verbatim>\<open>captureStackTrace\<close>, while the built-in one is a function that returns.
\<close>

definition Error_constructor :: "napi_env \<Rightarrow> js_value \<Rightarrow> js_exception + (string \<times> js_value) list" where
  "Error_constructor env msg =
     (case msg of
        JsUndefined \<Rightarrow> Inr []
      | _ \<Rightarrow> (case js_to_string env msg of
                Inl exc \<Rightarrow> Inl exc
              | Inr s \<Rightarrow> Inr [(''message'', JsString s)]))"

definition ErrorBase_constructor ::
  "napi_env \<Rightarrow> js_value \<Rightarrow> js_value \<Rightarrow> js_exception + (string \<times> js_value) list" where
  "ErrorBase_constructor env ErrorBase msg =
     (if ErrorBase = JsFunction ''Error'' then Error_constructor env msg
      else construct_base env ErrorBase msg)"

definition ErrorBase_captureStackTrace :: "napi_env \<Rightarrow> js_value \<Rightarrow> stack_capture" where
  "ErrorBase_captureStackTrace env ErrorBase =
     (if ErrorBase = JsFunction ''Error'' then Captures else captureStackTrace env ErrorBase)"

text \<open>The outcome of \<^verbatim>\<open>new C(args)\<close>.\<close>

datatype construction = Constructed js_value | Thrown js_exception | Not_a_function

text \<open>
  The \<^verbatim>\<open>StorjError\<close> constructor, run for \<^verbatim>\<open>new.target\<close> = \<open>cls\<close>, a class named \<open>n\<close>:
  \<^verbatim>\<open>super(...)\<close>, then \<^verbatim>\<open>this.name = this.constructor.name\<close>, \<^verbatim>\<open>this.code = code\<close>,
  \<^verbatim>\<open>this.details = details\<close>, then \<^verbatim>\<open>ErrorBase.captureStackTrace(this, this.constructor)\<close>
  when that is a function. An exception thrown on the way ends the construction.
\<close>

definition StorjError_constructor ::
  "napi_env \<Rightarrow> js_value \<Rightarrow> string \<Rightarrow> js_value \<Rightarrow> js_value \<Rightarrow> js_value \<Rightarrow> js_value \<Rightarrow> construction" where
  "StorjError_constructor env cls n ErrorBase msg c details =
     (case super_message env msg details of
        Inl exc \<Rightarrow> Thrown exc
      | Inr m \<Rightarrow>
          (case ErrorBase_constructor env ErrorBase m of
             Inl exc \<Rightarrow> Thrown exc
           | Inr own \<Rightarrow>
               let this = JsObject cls own;
                   this = js_set this ''name'' (JsString n);
                   this = js_set this ''code'' c;
                   this = js_set this ''details'' details
               in (case ErrorBase_captureStackTrace env ErrorBase of
                     Capture_throws exc \<Rightarrow> Thrown exc
                   | _ \<Rightarrow> Constructed this)))"

fun arg :: "js_value list \<Rightarrow> nat \<Rightarrow> js_value" where
  "arg [] i = JsUndefined"
| "arg (x # xs) 0 = x"
| "arg (x # xs) (Suc i) = arg xs i"

text \<open>\<^verbatim>\<open>new C(args)\<close>: for the classes of the script, their constructors; for any other
  function, what the environment says \<^verbatim>\<open>new\<close> on it does with the first argument.\<close>

fun js_new :: "napi_env \<Rightarrow> js_value \<Rightarrow> js_value list \<Rightarrow> construction" where
  "js_new env (JsClass n super) args =
     (if n = ''StorjError''
      then StorjError_constructor env (JsClass n super) n super (arg args 0) (arg args 1) (arg args 2)
      else
        (case super of
           JsClass sn base \<Rightarrow>
             (if sn = ''StorjError'' then
                (case map_of error_subclasses n of
                   Some (title, c) \<Rightarrow>
                     StorjError_constructor env (JsClass n super) n base
                       (JsString title) (JsNumber c) (arg args 0)
                 | None \<Rightarrow> Not_a_function)
              else Not_a_function)
         | _ \<Rightarrow> Not_a_function))"
| "js_new env (JsFunction f) args =
     (case construct_base env (JsFunction f) (arg args 0) of
        Inl exc \<Rightarrow> Thrown exc
      | Inr own \<Rightarrow> Constructed (JsObject (JsFunction f) own))"
| "js_new env v args = Not_a_function"

text \<open>
  \<^verbatim>\<open>napi_new_instance\<close>: refused while an exception is pending; an exception thrown by
  the constructor is left pending and the status is \<^verbatim>\<open>napi_pending_exception\<close>; a value
  that is not a function is an invalid argument.
\<close>

definition napi_new_instance ::
  "napi_env \<Rightarrow> js_value \<Rightarrow> js_value list \<Rightarrow> world \<Rightarrow> napi_status \<times> napi_value \<times> world" where
  "napi_new_instance env constructor args w =
     (if pending_exception w \<noteq> None then (napi_pending_exception, None, w)
      else
        (case js_new env constructor args of
           Constructed instance \<Rightarrow> (napi_ok, Some instance, w)
         | Thrown exc \<Rightarrow> (napi_pending_exception, None, w\<lparr>pending_exception := Some exc\<rparr>)
         | Not_a_function \<Rightarrow> (napi_invalid_arg, None, w)))"

subsection \<open>error_registry.c: the registry\<close>

definition initial_error_registry :: "ErrorClassEntry list" where
  "initial_error_registry =
    [\<lparr>code = 0, name = ''StorjError'', constructor_ref = None\<rparr>,
     \<lparr>code = UPLINK_ERROR_INTERNAL, name = ''InternalError'', constructor_ref = None\<rparr>,
     \<lparr>code = UPLINK_ERROR_CANCELED, name = ''CanceledError'', constructor_ref = None\<rparr>,
     \<lparr>code = UPLINK_ERROR_INVALID_HANDLE, name = ''InvalidHandleError'', constructor_ref = None\<rparr>,
     \<lparr>code = UPLINK_ERROR_TOO_MANY_REQUESTS, name = ''TooManyRequestsError'', constructor_ref = None\<rparr>,
     \<lparr>code = UPLINK_ERROR_BANDWIDTH_LIMIT_EXCEEDED, name = ''BandwidthLimitExceededError'', constructor_ref = None\<rparr>,
     \<lparr>code = UPLINK_ERROR_STORAGE_LIMIT_EXCEEDED, name = ''StorageLimitExceededError'', constructor_ref = None\<rparr>,
     \<lparr>code = UPLINK_ERROR_SEGMENTS_LIMIT_EXCEEDED, name = ''SegmentsLimitExceededError'', constructor_ref = None\<rparr>,
     \<lparr>code = UPLINK_ERROR_PERMISSION_DENIED, name = ''PermissionDeniedError'', constructor_ref = None\<rparr>,
     \<lparr>code = UPLINK_ERROR_BUCKET_NAME_INVALID, name = ''BucketNameInvalidError'', constructor_ref = None\<rparr>,
     \<lparr>code = UPLINK_ERROR_BUCKET_ALREADY_EXISTS, name = ''BucketAlreadyExistsError'', constructor_ref = None\<rparr>,
     \<lparr>code = UPLINK_ERROR_BUCKET_NOT_EMPTY, name = ''BucketNotEmptyError'', constructor_ref = None\<rparr>,
     \<lparr>code = UPLINK_ERROR_BUCKET_NOT_FOUND, name = ''BucketNotFoundError'', constructor_ref = None\<rparr>,
     \<lparr>code = UPLINK_ERROR_OBJECT_KEY_INVALID, name = ''ObjectKeyInvalidError'', constructor_ref = None\<rparr>,
     \<lparr>code = UPLINK_ERROR_OBJECT_NOT_FOUND, name = ''ObjectNotFoundError'', constructor_ref = None\<rparr>,
     \<lparr>code = UPLINK_ERROR_UPLOAD_DONE, name = ''UploadDoneError'', constructor_ref = None\<rparr>,
     \<lparr>code = 0x30, name = ''EdgeAuthDialFailedError'', constructor_ref = None\<rparr>,
     \<lparr>code = 0x31, name = ''EdgeRegisterAccessFailedError'', constructor_ref = None\<rparr>]"

text \<open>The world at module load: nothing allocated, the registry as initialised
  statically, \<^verbatim>\<open>g_registered = 0\<close>.\<close>

definition initial_world :: world where
  "initial_world =
     \<lparr>wrappers = Map.empty, finalizers = Map.empty, pending_exception = None, trace = [],
      error_registry = initial_error_registry, g_registered = False\<rparr>"

definition error_classes_registered :: "world \<Rightarrow> bool" where
  "error_classes_registered w = g_registered w"

definition register_one_error_class ::
  "napi_env \<Rightarrow> world \<Rightarrow> js_value \<Rightarrow> ErrorClassEntry \<Rightarrow> int \<times> ErrorClassEntry" where
  "register_one_error_class env w classes_obj entry =
     (let (status, constructor) = napi_get_named_property w classes_obj (name entry) in
      if status \<noteq> napi_ok then (0, entry)
      else if napi_typeof constructor \<noteq> napi_function then (0, entry)
      else if create_reference_status env (name entry) \<noteq> napi_ok then (0, entry)
      else (1, entry\<lparr>constructor_ref := Some (Ref constructor)\<rparr>))"

text \<open>The loop of \<open>napi_init_error_classes\<close> over the registry, with its counter.\<close>

fun register_all ::
  "napi_env \<Rightarrow> world \<Rightarrow> js_value \<Rightarrow> int \<Rightarrow> ErrorClassEntry list \<Rightarrow> int \<times> ErrorClassEntry list" where
  "register_all env w classes_obj count [] = (count, [])"
| "register_all env w classes_obj count (entry # rest) =
     (let (r, entry') = register_one_error_class env w classes_obj entry;
          (count', rest') = register_all env w classes_obj (count + r) rest
      in (count', entry' # rest'))"

text \<open>The global object is not a value of the model: the status of reading its
  \<^verbatim>\<open>Error\<close> property and the value read are the environment's.\<close>

definition get_error_base_constructor ::
  "napi_env \<Rightarrow> js_value list \<Rightarrow> world \<Rightarrow> napi_status \<times> js_value option" where
  "get_error_base_constructor env argv w =
     (if length argv \<ge> 1 \<and> napi_typeof (arg argv 0) = napi_function then (napi_ok, Some (arg argv 0))
      else if get_global_status env \<noteq> napi_ok then (napi_generic_failure, None)
      else if pending_exception w \<noteq> None \<or> get_global_Error_status env \<noteq> napi_ok
        then (napi_generic_failure, None)
      else (napi_ok, Some (global_Error env)))"

text \<open>The loop of \<open>error_registry_cleanup\<close>: every non-null reference is deleted and
  nulled.\<close>

fun cleanup_entries :: "ErrorClassEntry list \<Rightarrow> effect list \<times> ErrorClassEntry list" where
  "cleanup_entries [] = ([], [])"
| "cleanup_entries (entry # rest) =
     (let (es, rest') = cleanup_entries rest in
      case constructor_ref entry of
        Some r \<Rightarrow> (Napi_delete_reference r # es, entry\<lparr>constructor_ref := None\<rparr> # rest')
      | None \<Rightarrow> (es, entry # rest'))"

definition error_registry_cleanup :: "world \<Rightarrow> world" where
  "error_registry_cleanup w =
     (let (es, entries) = cleanup_entries (error_registry w) in
      w\<lparr>trace := trace w @ es, error_registry := entries, g_registered := False\<rparr>)"

text \<open>
  \<^verbatim>\<open>napi_run_script\<close> on the embedded script and \<^verbatim>\<open>napi_call_function\<close> on the factory it
  evaluates to: refused while an exception is pending; an exception thrown by the
  script, or by the class declarations for the given base, is left pending.
\<close>

definition napi_run_script :: "napi_env \<Rightarrow> world \<Rightarrow> napi_status \<times> world" where
  "napi_run_script env w =
     (if pending_exception w \<noteq> None then (napi_pending_exception, w)
      else
        (case run_script_throws env of
           Some exc \<Rightarrow> (napi_pending_exception, w\<lparr>pending_exception := Some exc\<rparr>)
         | None \<Rightarrow> (napi_ok, w)))"

definition napi_call_function :: "napi_env \<Rightarrow> js_value \<Rightarrow> world \<Rightarrow> napi_status \<times> napi_value \<times> world" where
  "napi_call_function env error_ctor w =
     (if pending_exception w \<noteq> None then (napi_pending_exception, None, w)
      else
        (case call_factory_throws env error_ctor of
           Some exc \<Rightarrow> (napi_pending_exception, None, w\<lparr>pending_exception := Some exc\<rparr>)
         | None \<Rightarrow> (napi_ok, Some (error_classes_factory error_ctor), w)))"

definition napi_init_error_classes :: "napi_env \<Rightarrow> js_value list \<Rightarrow> world \<Rightarrow> napi_value \<times> world" where
  "napi_init_error_classes env argv w =
     (let w1 = (if g_registered w then error_registry_cleanup w else w) in
      case get_error_base_constructor env argv w1 of
        (st, None) \<Rightarrow> (None, napi_throw_error ''Failed to get Error constructor'' w1)
      | (st, Some error_ctor) \<Rightarrow>
          if st \<noteq> napi_ok then (None, napi_throw_error ''Failed to get Error constructor'' w1)
          else if create_string_status env \<noteq> napi_ok
            then (None, napi_throw_error ''Failed to create error classes JS string'' w1)
          else
            (case napi_run_script env w1 of
               (status, w2) \<Rightarrow>
                 if status \<noteq> napi_ok
                 then (None, napi_throw_error ''Failed to execute error classes factory script'' w2)
                 else
                   (case napi_call_function env error_ctor w2 of
                      (status, None, w3) \<Rightarrow>
                        (None, napi_throw_error ''Failed to call error classes factory function'' w3)
                    | (status, Some classes_obj, w3) \<Rightarrow>
                        if status \<noteq> napi_ok
                        then (None, napi_throw_error ''Failed to call error classes factory function'' w3)
                        else
                          let (count, entries) = register_all env w3 classes_obj 0 (error_registry w3)
                          in (Some classes_obj, w3\<lparr>error_registry := entries, g_registered := True\<rparr>))))"

fun find_error_constructor_ref :: "ErrorClassEntry list \<Rightarrow> int32_t \<Rightarrow> napi_ref option" where
  "find_error_constructor_ref [] c = None"
| "find_error_constructor_ref (entry # rest) c =
     (if code entry = c \<and> constructor_ref entry \<noteq> None then constructor_ref entry
      else find_error_constructor_ref rest c)"

fun napi_get_reference_value :: "napi_ref \<Rightarrow> js_value" where
  "napi_get_reference_value (Ref v) = v"

text \<open>The fallback at the end of \<open>create_typed_error\<close>, in the world it is reached in.\<close>

definition plain_error :: "world \<Rightarrow> int32_t \<Rightarrow> string option \<Rightarrow> js_value" where
  "plain_error w c msg =
     uplink_error_to_js_obj w
       \<lparr>UplinkError.code = c,
        UplinkError.message = Some (case msg of Some m \<Rightarrow> m | None \<Rightarrow> ''Unknown error'')\<rparr>"

text \<open>
  \<open>create_typed_error\<close> returns the error object and the world it leaves: when
  \<^verbatim>\<open>napi_new_instance\<close> fails because the constructor threw, the exception stays pending
  while the code falls through to the fallback.
\<close>

definition create_typed_error ::
  "napi_env \<Rightarrow> int32_t \<Rightarrow> string option \<Rightarrow> world \<Rightarrow> js_value \<times> world" where
  "create_typed_error env c msg w =
     (if g_registered w then
        (case find_error_constructor_ref (error_registry w) c of
           Some ref \<Rightarrow>
             if get_reference_value_status env = napi_ok then
               (let constructor = napi_get_reference_value ref;
                    args = [case msg of Some m \<Rightarrow> napi_create_string_utf8 m | None \<Rightarrow> JsUndefined]
                in case napi_new_instance env constructor args w of
                     (status, Some instance, w1) \<Rightarrow>
                       if status = napi_ok then (instance, w1) else (plain_error w1 c msg, w1)
                   | (status, None, w1) \<Rightarrow> (plain_error w1 c msg, w1))
             else (plain_error w c msg, w)
         | None \<Rightarrow> (plain_error w c msg, w))
      else (plain_error w c msg, w))"

section \<open>Asynchronous operations\<close>

text \<open>
  The N-API contract for a queued work item: its complete callback is called once, with
  \<^verbatim>\<open>napi_cancelled\<close> and without the execute callback having run when the work was
  cancelled, and with \<^verbatim>\<open>napi_ok\<close> after the execute callback otherwise.
\<close>

definition napi_async_run ::
  "bool \<Rightarrow> ('d \<Rightarrow> world \<Rightarrow> 'd \<times> world) \<Rightarrow> (napi_status \<Rightarrow> ptr \<Rightarrow> 'd \<Rightarrow> world \<Rightarrow> 'r)
     \<Rightarrow> ptr \<Rightarrow> 'd \<Rightarrow> world \<Rightarrow> 'r" where
  "napi_async_run cancelled execute complete data work_data w =
     (if cancelled then complete napi_cancelled data work_data w
      else (let (work_data', w') = execute work_data w in complete napi_ok data work_data' w'))"

text \<open>The body of \<^verbatim>\<open>REJECT_IF_CANCELLED\<close> (cancel_helpers.h) when the status is
  \<^verbatim>\<open>napi_cancelled\<close>, before its \<^verbatim>\<open>goto cleanup\<close>.\<close>

definition REJECT_IF_CANCELLED :: "napi_deferred \<Rightarrow> world \<Rightarrow> world" where
  "REJECT_IF_CANCELLED d w =
     (let cancel_err = napi_create_error ''Operation cancelled''
      in napi_reject_deferred d (Some cancel_err) w)"

text \<open>The address and the characters a \<^verbatim>\<open>char*\<close> holds that is both read and freed.\<close>

definition c_addr :: "c_string option \<Rightarrow> ptr" where
  "c_addr s = (case s of Some (a, cs) \<Rightarrow> a | None \<Rightarrow> NULL)"

definition c_chars :: "c_string option \<Rightarrow> string option" where
  "c_chars s = map_option snd s"

text \<open>The loop \<^verbatim>\<open>for (i = 0; i < count; i++) { free(entries[i].key); free(entries[i].value); }\<close>
  over an array of metadata entries, and the same loop over share prefixes.\<close>

fun free_entries_loop :: "UplinkCustomMetadataEntry list \<Rightarrow> world \<Rightarrow> world" where
  "free_entries_loop [] w = w"
| "free_entries_loop (entry # rest) w =
     free_entries_loop rest
       (free (fst (UplinkCustomMetadataEntry.value' entry))
          (free (fst (UplinkCustomMetadataEntry.key entry)) w))"

fun free_prefixes_loop :: "UplinkSharePrefix list \<Rightarrow> world \<Rightarrow> world" where
  "free_prefixes_loop [] w = w"
| "free_prefixes_loop (p # rest) w =
     free_prefixes_loop rest
       (free (UplinkSharePrefix.prefix p) (free (UplinkSharePrefix.bucket p) w))"

subsection \<open>object_converter.c\<close>

text \<open>The loop of \<open>uplink_object_to_js\<close> and \<open>upload_info_to_js\<close> over the custom
  metadata entries: each value, \<^verbatim>\<open>value_length\<close> bytes of it, is set under its key.\<close>

fun custom_entries_loop ::
  "world \<Rightarrow> UplinkCustomMetadataEntry list \<Rightarrow> js_value \<Rightarrow> js_value" where
  "custom_entries_loop w [] custom_obj = custom_obj"
| "custom_entries_loop w (entry # rest) custom_obj =
     (let v = napi_create_string_utf8_len (snd (UplinkCustomMetadataEntry.value' entry))
                (UplinkCustomMetadataEntry.value_length entry)
      in custom_entries_loop w rest
           (napi_set_named_property w custom_obj (snd (UplinkCustomMetadataEntry.key entry)) (Some v)))"

definition uplink_object_to_js :: "world \<Rightarrow> UplinkObject option \<Rightarrow> js_value" where
  "uplink_object_to_js w object_ptr =
     (case object_ptr of
        None \<Rightarrow> JsUndefined
      | Some obj' \<Rightarrow>
          let obj = napi_create_object;
              obj = napi_set_named_property w obj ''key''
                      (Some (napi_create_string_utf8 (UplinkObject.key obj')));
              obj = napi_set_named_property w obj ''isPrefix''
                      (Some (JsBoolean (UplinkObject.is_prefix obj')));
              sys = napi_create_object;
              sys = napi_set_named_property w sys ''created''
                      (Some (napi_create_int64 (UplinkSystemMetadata.created (UplinkObject.system obj'))));
              sys = (if UplinkSystemMetadata.expires (UplinkObject.system obj') \<noteq> 0
                     then napi_set_named_property w sys ''expires''
                            (Some (napi_create_int64 (UplinkSystemMetadata.expires (UplinkObject.system obj'))))
                     else napi_set_named_property w sys ''expires'' (Some JsNull));
              sys = napi_set_named_property w sys ''contentLength''
                      (Some (napi_create_int64 (UplinkSystemMetadata.content_length (UplinkObject.system obj'))));
              obj = napi_set_named_property w obj ''system'' (Some sys);
              custom_obj = napi_create_object;
              custom_obj = (case UplinkCustomMetadata.entries (UplinkObject.custom obj') of
                              Some (a, es) \<Rightarrow>
                                if length es > 0 then custom_entries_loop w es custom_obj else custom_obj
                            | None \<Rightarrow> custom_obj);
              obj = napi_set_named_property w obj ''custom'' (Some custom_obj)
          in obj)"

subsection \<open>bucket_types.h, bucket_complete.c, bucket_execute.c, bucket_ops.c\<close>

record BucketOpData =
  project_handle :: size_t
  bucket_name :: ptr
  result :: UplinkBucketResult
  deferred :: napi_deferred
  work :: napi_async_work

record ListBucketsCreateData =
  project_handle :: size_t
  cursor :: ptr
  iterator_handle :: size_t
  deferred :: napi_deferred
  work :: napi_async_work

record BucketIteratorNextData =
  iterator_handle :: size_t
  has_next :: bool
  deferred :: napi_deferred
  work :: napi_async_work

record BucketIteratorItemData =
  iterator_handle :: size_t
  bucket :: "UplinkBucket option"
  deferred :: napi_deferred
  work :: napi_async_work

record BucketIteratorErrData =
  iterator_handle :: size_t
  error :: "UplinkError option"
  deferred :: napi_deferred
  work :: napi_async_work

record FreeBucketIteratorData =
  iterator_handle :: size_t
  deferred :: napi_deferred
  work :: napi_async_work

definition uplink_bucket_to_js :: "world \<Rightarrow> UplinkBucket option \<Rightarrow> js_value" where
  "uplink_bucket_to_js w b =
     (case b of
        None \<Rightarrow> JsUndefined
      | Some b' \<Rightarrow>
          let obj = napi_create_object;
              obj = napi_set_named_property w obj ''name''
                      (Some (napi_create_string_utf8 (UplinkBucket.name b')));
              obj = napi_set_named_property w obj ''created''
                      (Some (napi_create_int64 (UplinkBucket.created b')))
          in obj)"

definition create_bucket_complete ::
  "napi_env \<Rightarrow> napi_status \<Rightarrow> ptr \<Rightarrow> BucketOpData \<Rightarrow> world \<Rightarrow> world" where
  "create_bucket_complete env status data work_data w =
     (let w =
        (if status = napi_cancelled
         then REJECT_IF_CANCELLED (BucketOpData.deferred work_data) w
         else
           (case UplinkBucketResult.error (BucketOpData.result work_data) of
              Some e \<Rightarrow>
                let (err, w) = create_typed_error env (UplinkError.code e) (UplinkError.message e) w;
                    w = napi_reject_deferred (BucketOpData.deferred work_data) (Some err) w
                in uplink_free_error e w
            | None \<Rightarrow>
                let bucket_obj = uplink_bucket_to_js w (UplinkBucketResult.bucket (BucketOpData.result work_data));
                    w = uplink_free_bucket_result (BucketOpData.result work_data) w
                in napi_resolve_deferred (BucketOpData.deferred work_data) (Some bucket_obj) w));
          w = free (BucketOpData.bucket_name work_data) w;
          w = napi_delete_async_work (BucketOpData.work work_data) w
      in free data w)"

definition ensure_bucket_complete ::
  "napi_env \<Rightarrow> napi_status \<Rightarrow> ptr \<Rightarrow> BucketOpData \<Rightarrow> world \<Rightarrow> world" where
  "ensure_bucket_complete env status data work_data w =
     (let w =
        (if status = napi_cancelled
         then REJECT_IF_CANCELLED (BucketOpData.deferred work_data) w
         else
           (case UplinkBucketResult.error (BucketOpData.result work_data) of
              Some e \<Rightarrow>
                let (err, w) = create_typed_error env (UplinkError.code e) (UplinkError.message e) w;
                    w = napi_reject_deferred (BucketOpData.deferred work_data) (Some err) w
                in uplink_free_error e w
            | None \<Rightarrow>
                let bucket_obj = uplink_bucket_to_js w (UplinkBucketResult.bucket (BucketOpData.result work_data));
                    w = uplink_free_bucket_result (BucketOpData.result work_data) w
                in napi_resolve_deferred (BucketOpData.deferred work_data) (Some bucket_obj) w));
          w = free (BucketOpData.bucket_name work_data) w;
          w = napi_delete_async_work (BucketOpData.work work_data) w
      in free data w)"

definition stat_bucket_complete ::
  "napi_env \<Rightarrow> napi_status \<Rightarrow> ptr \<Rightarrow> BucketOpData \<Rightarrow> world \<Rightarrow> world" where
  "stat_bucket_complete env status data work_data w =
     (let w =
        (if status = napi_cancelled
         then REJECT_IF_CANCELLED (BucketOpData.deferred work_data) w
         else
           (case UplinkBucketResult.error (BucketOpData.result work_data) of
              Some e \<Rightarrow>
                let (err, w) = create_typed_error env (UplinkError.code e) (UplinkError.message e) w;
                    w = napi_reject_deferred (BucketOpData.deferred work_data) (Some err) w
                in uplink_free_error e w
            | None \<Rightarrow>
                let bucket_obj = uplink_bucket_to_js w (UplinkBucketResult.bucket (BucketOpData.result work_data));
                    w = uplink_free_bucket_result (BucketOpData.result work_data) w
                in napi_resolve_deferred (BucketOpData.deferred work_data) (Some bucket_obj) w));
          w = free (BucketOpData.bucket_name work_data) w;
          w = napi_delete_async_work (BucketOpData.work work_data) w
      in free data w)"

definition delete_bucket_complete ::
  "napi_env \<Rightarrow> napi_status \<Rightarrow> ptr \<Rightarrow> BucketOpData \<Rightarrow> world \<Rightarrow> world" where
  "delete_bucket_complete env status data work_data w =
     (let w =
        (if status = napi_cancelled
         then REJECT_IF_CANCELLED (BucketOpData.deferred work_data) w
         else
           (case UplinkBucketResult.error (BucketOpData.result work_data) of
              Some e \<Rightarrow>
                let (err, w) = create_typed_error env (UplinkError.code e) (UplinkError.message e) w;
                    w = napi_reject_deferred (BucketOpData.deferred work_data) (Some err) w
                in uplink_free_error e w
            | None \<Rightarrow>
                let w = (case UplinkBucketResult.bucket (BucketOpData.result work_data) of
                           Some b \<Rightarrow> uplink_free_bucket b w
                         | None \<Rightarrow> w)
                in napi_resolve_deferred (BucketOpData.deferred work_data) (Some JsUndefined) w));
          w = free (BucketOpData.bucket_name work_data) w;
          w = napi_delete_async_work (BucketOpData.work work_data) w
      in free data w)"

definition delete_bucket_with_objects_complete ::
  "napi_env \<Rightarrow> napi_status \<Rightarrow> ptr \<Rightarrow> BucketOpData \<Rightarrow> world \<Rightarrow> world" where
  "delete_bucket_with_objects_complete env status data work_data w =
     (let w =
        (if status = napi_cancelled
         then REJECT_IF_CANCELLED (BucketOpData.deferred work_data) w
         else
           (case UplinkBucketResult.error (BucketOpData.result work_data) of
              Some e \<Rightarrow>
                let (err, w) = create_typed_error env (UplinkError.code e) (UplinkError.message e) w;
                    w = napi_reject_deferred (BucketOpData.deferred work_data) (Some err) w
                in uplink_free_error e w
            | None \<Rightarrow>
                let w = (case UplinkBucketResult.bucket (BucketOpData.result work_data) of
                           Some b \<Rightarrow> uplink_free_bucket b w
                         | None \<Rightarrow> w)
                in napi_resolve_deferred (BucketOpData.deferred work_data) (Some JsUndefined) w));
          w = free (BucketOpData.bucket_name work_data) w;
          w = napi_delete_async_work (BucketOpData.work work_data) w
      in free data w)"

definition list_buckets_create_complete ::
  "napi_env \<Rightarrow> napi_status \<Rightarrow> ptr \<Rightarrow> ListBucketsCreateData \<Rightarrow> world \<Rightarrow> world" where
  "list_buckets_create_complete env status data work_data w =
     (let w =
        (if status = napi_cancelled
         then REJECT_IF_CANCELLED (ListBucketsCreateData.deferred work_data) w
         else
           (if ListBucketsCreateData.iterator_handle work_data = 0
            then napi_reject_deferred (ListBucketsCreateData.deferred work_data)
                   (Some (napi_create_error ''Failed to create bucket iterator'')) w
            else
              let (handle_obj, w) =
                    create_handle_external env (ListBucketsCreateData.iterator_handle work_data) HANDLE_TYPE_BUCKET_ITERATOR NULL None w
              in napi_resolve_deferred (ListBucketsCreateData.deferred work_data) (handle_obj) w));
          w = free (ListBucketsCreateData.cursor work_data) w;
          w = napi_delete_async_work (ListBucketsCreateData.work work_data) w
      in free data w)"

definition bucket_iterator_next_complete ::
  "napi_env \<Rightarrow> napi_status \<Rightarrow> ptr \<Rightarrow> BucketIteratorNextData \<Rightarrow> world \<Rightarrow> world" where
  "bucket_iterator_next_complete env status data work_data w =
     (let w =
        (if status = napi_cancelled
         then REJECT_IF_CANCELLED (BucketIteratorNextData.deferred work_data) w
         else
           napi_resolve_deferred (BucketIteratorNextData.deferred work_data) (Some (JsBoolean (BucketIteratorNextData.has_next work_data))) w);
          w = napi_delete_async_work (BucketIteratorNextData.work work_data) w
      in free data w)"

definition bucket_iterator_item_complete ::
  "napi_env \<Rightarrow> napi_status \<Rightarrow> ptr \<Rightarrow> BucketIteratorItemData \<Rightarrow> world \<Rightarrow> world" where
  "bucket_iterator_item_complete env status data work_data w =
     (let w =
        (if status = napi_cancelled
         then REJECT_IF_CANCELLED (BucketIteratorItemData.deferred work_data) w
         else
           let bucket_obj = uplink_bucket_to_js w (BucketIteratorItemData.bucket work_data);
               w = (case BucketIteratorItemData.bucket work_data of
                      Some b \<Rightarrow> uplink_free_bucket b w
                    | None \<Rightarrow> w)
           in napi_resolve_deferred (BucketIteratorItemData.deferred work_data) (Some bucket_obj) w);
          w = napi_delete_async_work (BucketIteratorItemData.work work_data) w
      in free data w)"

definition bucket_iterator_err_complete ::
  "napi_env \<Rightarrow> napi_status \<Rightarrow> ptr \<Rightarrow> BucketIteratorErrData \<Rightarrow> world \<Rightarrow> world" where
  "bucket_iterator_err_complete env status data work_data w =
     (let w =
        (if status = napi_cancelled
         then REJECT_IF_CANCELLED (BucketIteratorErrData.deferred work_data) w
         else
           (case BucketIteratorErrData.error work_data of
              Some e \<Rightarrow>
                let (err, w) = create_typed_error env (UplinkError.code e) (UplinkError.message e) w;
                    w = uplink_free_error e w
                in napi_resolve_deferred (BucketIteratorErrData.deferred work_data) (Some err) w
            | None \<Rightarrow>
                napi_resolve_deferred (BucketIteratorErrData.deferred work_data) (Some JsNull) w));
          w = napi_delete_async_work (BucketIteratorErrData.work work_data) w
      in free data w)"

definition free_bucket_iterator_complete ::
  "napi_env \<Rightarrow> napi_status \<Rightarrow> ptr \<Rightarrow> FreeBucketIteratorData \<Rightarrow> world \<Rightarrow> world" where
  "free_bucket_iterator_complete env status data work_data w =
     (let w =
        (if status = napi_cancelled
         then REJECT_IF_CANCELLED (FreeBucketIteratorData.deferred work_data) w
         else
           napi_resolve_deferred (FreeBucketIteratorData.deferred work_data) (Some JsUndefined) w);
          w = napi_delete_async_work (FreeBucketIteratorData.work work_data) w
      in free data w)"


definition free_bucket_iterator_execute ::
  "FreeBucketIteratorData \<Rightarrow> world \<Rightarrow> FreeBucketIteratorData \<times> world" where
  "free_bucket_iterator_execute work_data w =
     (let iterator = FreeBucketIteratorData.iterator_handle work_data
      in (work_data, emit (Uplink_free_bucket_iterator iterator) w))"

text \<open>
  An entry point returns \<open>None\<close> when it returned NULL, and the address and contents of
  the payload it queued when it returned the promise. \<^verbatim>\<open>napi_create_promise\<close> is refused
  while an exception is pending and then leaves the deferred as \<^verbatim>\<open>calloc\<close> made it.
\<close>

definition napi_create_promise :: "napi_env \<Rightarrow> world \<Rightarrow> napi_deferred" where
  "napi_create_promise env w =
     (if pending_exception w \<noteq> None then 0 else create_promise_deferred env)"


definition free_bucket_iterator ::
  "napi_env \<Rightarrow> js_value list \<Rightarrow> world \<Rightarrow> fault + ((ptr \<times> FreeBucketIteratorData) option \<times> world)" where
  "free_bucket_iterator env argv w =
     (if length argv < 1 then Inr (None, napi_throw_type_error ''iteratorHandle is required'' w)
      else
        (case extract_handle w (arg argv 0) HANDLE_TYPE_BUCKET_ITERATOR of
           Inl f \<Rightarrow> Inl f
         | Inr (status, out_handle) \<Rightarrow>
             if status \<noteq> napi_ok
             then Inr (None, napi_throw_type_error ''Invalid bucket iterator handle'' w)
             else
               (case out_handle of
                  None \<Rightarrow> Inl UninitializedRead
                | Some ih \<Rightarrow>
                    if calloc_work_data env = NULL then Inr (None, napi_throw_error ''Out of memory'' w)
                    else
                      Inr (Some (calloc_work_data env,
                                 \<lparr>FreeBucketIteratorData.iterator_handle = ih,
                                  FreeBucketIteratorData.deferred = napi_create_promise env w,
                                  FreeBucketIteratorData.work = create_async_work env\<rparr>), w))))"

text \<open>One call of \<^verbatim>\<open>freeBucketIterator\<close> or \<^verbatim>\<open>bucketIteratorErr\<close> from JavaScript,
  followed to the settlement of its promise: the entry point, then the queued work run
  by the runtime.\<close>

definition free_bucket_iterator_call ::
  "napi_env \<Rightarrow> bool \<Rightarrow> js_value list \<Rightarrow> world \<Rightarrow> fault + world" where
  "free_bucket_iterator_call env cancelled argv w =
     (case free_bucket_iterator env argv w of
        Inl f \<Rightarrow> Inl f
      | Inr (None, w') \<Rightarrow> Inr w'
      | Inr (Some (data, work_data), w') \<Rightarrow>
          Inr (napi_async_run cancelled free_bucket_iterator_execute
                 (free_bucket_iterator_complete env) data work_data w'))"


subsection \<open>access_types.h, access_complete.c\<close>

record ParseAccessData =
  access_grant :: ptr
  result :: UplinkAccessResult
  deferred :: napi_deferred
  work :: napi_async_work

record RequestAccessData =
  satellite_address :: ptr
  api_key :: ptr
  passphrase :: ptr
  result :: UplinkAccessResult
  deferred :: napi_deferred
  work :: napi_async_work

record ConfigRequestAccessData =
  satellite_address :: ptr
  api_key :: ptr
  passphrase :: ptr
  user_agent :: ptr
  dial_timeout_milliseconds :: int32_t
  temp_directory :: ptr
  result :: UplinkAccessResult
  deferred :: napi_deferred
  work :: napi_async_work

record AccessStringData =
  access_handle :: size_t
  result :: UplinkStringResult
  deferred :: napi_deferred
  work :: napi_async_work

text \<open>The array \<^verbatim>\<open>prefixes\<close> with its \<^verbatim>\<open>prefix_count\<close> is a list with its address, \<open>None\<close> for a null pointer and no prefixes.\<close>

record AccessShareData =
  access_handle :: size_t
  permission :: UplinkPermission
  prefixes :: "(ptr \<times> UplinkSharePrefix list) option"
  result :: UplinkAccessResult
  deferred :: napi_deferred
  work :: napi_async_work

record OverrideEncryptionData =
  access_handle :: size_t
  bucket :: ptr
  prefix :: ptr
  encryption_key_handle :: size_t
  error :: "UplinkError option"
  deferred :: napi_deferred
  work :: napi_async_work

definition parse_access_complete ::
  "napi_env \<Rightarrow> napi_status \<Rightarrow> ptr \<Rightarrow> ParseAccessData \<Rightarrow> world \<Rightarrow> fault + world" where
  "parse_access_complete env status data work_data w =
     (case
        (if status = napi_cancelled
         then Inr (REJECT_IF_CANCELLED (ParseAccessData.deferred work_data) w)
         else
           (case UplinkAccessResult.error (ParseAccessData.result work_data) of
              Some e \<Rightarrow>
                Inr (let (err, w) = create_typed_error env (UplinkError.code e) (UplinkError.message e) w;
                         w = napi_reject_deferred (ParseAccessData.deferred work_data) (Some err) w
                     in uplink_free_error e w)
            | None \<Rightarrow>
                (case UplinkAccessResult.access (ParseAccessData.result work_data) of
                   None \<Rightarrow> Inl NullDereference
                 | Some p \<Rightarrow>
                     let (access_external, w) =
                           create_handle_external env (UplinkHandle.handle' p) HANDLE_TYPE_ACCESS (UplinkHandle.addr p) None w
                     in (case access_external of
                           None \<Rightarrow>
                             Inr (napi_reject_deferred (ParseAccessData.deferred work_data)
                                    (Some (napi_create_error ''Failed to create access handle'')) w)
                         | Some v \<Rightarrow> Inr (napi_resolve_deferred (ParseAccessData.deferred work_data) (access_external) w)))))
      of
        Inl f \<Rightarrow> Inl f
      | Inr w \<Rightarrow>
          let w = free (ParseAccessData.access_grant work_data) w;
              w = napi_delete_async_work (ParseAccessData.work work_data) w
          in Inr (free data w))"

definition request_access_complete ::
  "napi_env \<Rightarrow> napi_status \<Rightarrow> ptr \<Rightarrow> RequestAccessData \<Rightarrow> world \<Rightarrow> fault + world" where
  "request_access_complete env status data work_data w =
     (case
        (if status = napi_cancelled
         then Inr (REJECT_IF_CANCELLED (RequestAccessData.deferred work_data) w)
         else
           (case UplinkAccessResult.error (RequestAccessData.result work_data) of
              Some e \<Rightarrow>
                Inr (let (err, w) = create_typed_error env (UplinkError.code e) (UplinkError.message e) w;
                         w = napi_reject_deferred (RequestAccessData.deferred work_data) (Some err) w
                     in uplink_free_error e w)
            | None \<Rightarrow>
                (case UplinkAccessResult.access (RequestAccessData.result work_data) of
                   None \<Rightarrow> Inl NullDereference
                 | Some p \<Rightarrow>
                     let (access_external, w) =
                           create_handle_external env (UplinkHandle.handle' p) HANDLE_TYPE_ACCESS (UplinkHandle.addr p) None w
                     in (case access_external of
                           None \<Rightarrow>
                             Inr (napi_reject_deferred (RequestAccessData.deferred work_data)
                                    (Some (napi_create_error ''Failed to create access handle'')) w)
                         | Some v \<Rightarrow> Inr (napi_resolve_deferred (RequestAccessData.deferred work_data) (access_external) w)))))
      of
        Inl f \<Rightarrow> Inl f
      | Inr w \<Rightarrow>
          let w = free (RequestAccessData.satellite_address work_data) w;
              w = free (RequestAccessData.api_key work_data) w;
              w = free (RequestAccessData.passphrase work_data) w;
              w = napi_delete_async_work (RequestAccessData.work work_data) w
          in Inr (free data w))"

definition config_request_access_complete ::
  "napi_env \<Rightarrow> napi_status \<Rightarrow> ptr \<Rightarrow> ConfigRequestAccessData \<Rightarrow> world \<Rightarrow> fault + world" where
  "config_request_access_complete env status data work_data w =
     (case
        (if status = napi_cancelled
         then Inr (REJECT_IF_CANCELLED (ConfigRequestAccessData.deferred work_data) w)
         else
           (case UplinkAccessResult.error (ConfigRequestAccessData.result work_data) of
              Some e \<Rightarrow>
                Inr (let (err, w) = create_typed_error env (UplinkError.code e) (UplinkError.message e) w;
                         w = napi_reject_deferred (ConfigRequestAccessData.deferred work_data) (Some err) w
                     in uplink_free_error e w)
            | None \<Rightarrow>
                (case UplinkAccessResult.access (ConfigRequestAccessData.result work_data) of
                   None \<Rightarrow> Inl NullDereference
                 | Some p \<Rightarrow>
                     let (access_external, w) =
                           create_handle_external env (UplinkHandle.handle' p) HANDLE_TYPE_ACCESS (UplinkHandle.addr p) None w
                     in (case access_external of
                           None \<Rightarrow>
                             Inr (napi_reject_deferred (ConfigRequestAccessData.deferred work_data)
                                    (Some (napi_create_error ''Failed to create access handle'')) w)
                         | Some v \<Rightarrow> Inr (napi_resolve_deferred (ConfigRequestAccessData.deferred work_data) (access_external) w)))))
      of
        Inl f \<Rightarrow> Inl f
      | Inr w \<Rightarrow>
          let w = free (ConfigRequestAccessData.satellite_address work_data) w;
              w = free (ConfigRequestAccessData.api_key work_data) w;
              w = free (ConfigRequestAccessData.passphrase work_data) w;
              w = free (ConfigRequestAccessData.user_agent work_data) w;
              w = free (ConfigRequestAccessData.temp_directory work_data) w;
              w = napi_delete_async_work (ConfigRequestAccessData.work work_data) w
          in Inr (free data w))"

definition access_satellite_complete ::
  "napi_env \<Rightarrow> napi_status \<Rightarrow> ptr \<Rightarrow> AccessStringData \<Rightarrow> world \<Rightarrow> world" where
  "access_satellite_complete env status data work_data w =
     (let w =
        (if status = napi_cancelled
         then REJECT_IF_CANCELLED (AccessStringData.deferred work_data) w
         else
           (case UplinkStringResult.error (AccessStringData.result work_data) of
              Some e \<Rightarrow>
                let (err, w) = create_typed_error env (UplinkError.code e) (UplinkError.message e) w;
                    w = napi_reject_deferred (AccessStringData.deferred work_data) (Some err) w
                in uplink_free_error e w
            | None \<Rightarrow>
                let result_string = create_string env (c_chars (UplinkStringResult.string' (AccessStringData.result work_data)));
                    w = uplink_free_string_result (AccessStringData.result work_data) w
                in napi_resolve_deferred (AccessStringData.deferred work_data) (result_string) w));
          w = napi_delete_async_work (AccessStringData.work work_data) w
      in free data w)"

definition access_serialize_complete ::
  "napi_env \<Rightarrow> napi_status \<Rightarrow> ptr \<Rightarrow> AccessStringData \<Rightarrow> world \<Rightarrow> world" where
  "access_serialize_complete env status data work_data w =
     (let w =
        (if status = napi_cancelled
         then REJECT_IF_CANCELLED (AccessStringData.deferred work_data) w
         else
           (case UplinkStringResult.error (AccessStringData.result work_data) of
              Some e \<Rightarrow>
                let (err, w) = create_typed_error env (UplinkError.code e) (UplinkError.message e) w;
                    w = napi_reject_deferred (AccessStringData.deferred work_data) (Some err) w
                in uplink_free_error e w
            | None \<Rightarrow>
                let result_string = create_string env (c_chars (UplinkStringResult.string' (AccessStringData.result work_data)));
                    w = uplink_free_string_result (AccessStringData.result work_data) w
                in napi_resolve_deferred (AccessStringData.deferred work_data) (result_string) w));
          w = napi_delete_async_work (AccessStringData.work work_data) w
      in free data w)"

definition access_share_complete ::
  "napi_env \<Rightarrow> napi_status \<Rightarrow> ptr \<Rightarrow> AccessShareData \<Rightarrow> world \<Rightarrow> fault + world" where
  "access_share_complete env status data work_data w =
     (case
        (if status = napi_cancelled
         then Inr (REJECT_IF_CANCELLED (AccessShareData.deferred work_data) w)
         else
           (case UplinkAccessResult.error (AccessShareData.result work_data) of
              Some e \<Rightarrow>
                Inr (let (err, w) = create_typed_error env (UplinkError.code e) (UplinkError.message e) w;
                         w = napi_reject_deferred (AccessShareData.deferred work_data) (Some err) w
                     in uplink_free_error e w)
            | None \<Rightarrow>
                (case UplinkAccessResult.access (AccessShareData.result work_data) of
                   None \<Rightarrow> Inl NullDereference
                 | Some p \<Rightarrow>
                     let (access_external, w) =
                           create_handle_external env (UplinkHandle.handle' p) HANDLE_TYPE_ACCESS (UplinkHandle.addr p) None w
                     in Inr (napi_resolve_deferred (AccessShareData.deferred work_data) (access_external) w))))
      of
        Inl f \<Rightarrow> Inl f
      | Inr w \<Rightarrow>
          let w = (case AccessShareData.prefixes work_data of
                     Some (a, ps) \<Rightarrow> free a (free_prefixes_loop ps w)
                   | None \<Rightarrow> w);
              w = napi_delete_async_work (AccessShareData.work work_data) w
          in Inr (free data w))"

definition override_encryption_complete ::
  "napi_env \<Rightarrow> napi_status \<Rightarrow> ptr \<Rightarrow> OverrideEncryptionData \<Rightarrow> world \<Rightarrow> world" where
  "override_encryption_complete env status data work_data w =
     (let w =
        (if status = napi_cancelled
         then REJECT_IF_CANCELLED (OverrideEncryptionData.deferred work_data) w
         else
           (case OverrideEncryptionData.error work_data of
              Some e \<Rightarrow>
                let (err, w) = create_typed_error env (UplinkError.code e) (UplinkError.message e) w;
                    w = napi_reject_deferred (OverrideEncryptionData.deferred work_data) (Some err) w
                in uplink_free_error e w
            | None \<Rightarrow>
                napi_resolve_deferred (OverrideEncryptionData.deferred work_data) (Some JsUndefined) w));
          w = free (OverrideEncryptionData.bucket work_data) w;
          w = free (OverrideEncryptionData.prefix work_data) w;
          w = napi_delete_async_work (OverrideEncryptionData.work work_data) w
      in free data w)"

subsection \<open>project_types.h, project_complete.c\<close>

record OpenProjectData =
  access_handle :: size_t
  result :: UplinkProjectResult
  deferred :: napi_deferred
  work :: napi_async_work

record ConfigOpenProjectData =
  access_handle :: size_t
  user_agent :: ptr
  dial_timeout_milliseconds :: int32_t
  temp_directory :: ptr
  result :: UplinkProjectResult
  deferred :: napi_deferred
  work :: napi_async_work

record CloseProjectData =
  project_handle :: size_t
  error :: "UplinkError option"
  deferred :: napi_deferred
  work :: napi_async_work

record RevokeAccessData =
  project_handle :: size_t
  access_handle :: size_t
  error :: "UplinkError option"
  deferred :: napi_deferred
  work :: napi_async_work

definition open_project_complete ::
  "napi_env \<Rightarrow> napi_status \<Rightarrow> ptr \<Rightarrow> OpenProjectData \<Rightarrow> world \<Rightarrow> fault + world" where
  "open_project_complete env status data work_data w =
     (case
        (if status = napi_cancelled
         then Inr (REJECT_IF_CANCELLED (OpenProjectData.deferred work_data) w)
         else
           (case UplinkProjectResult.error (OpenProjectData.result work_data) of
              Some e \<Rightarrow>
                Inr (let (err, w) = create_typed_error env (UplinkError.code e) (UplinkError.message e) w;
                         w = napi_reject_deferred (OpenProjectData.deferred work_data) (Some err) w
                     in uplink_free_error e w)
            | None \<Rightarrow>
                (case UplinkProjectResult.project (OpenProjectData.result work_data) of
                   None \<Rightarrow> Inl NullDereference
                 | Some p \<Rightarrow>
                     let (project_external, w) =
                           create_handle_external env (UplinkHandle.handle' p) HANDLE_TYPE_PROJECT (UplinkHandle.addr p) None w
                     in (case project_external of
                           None \<Rightarrow>
                             Inr (napi_reject_deferred (OpenProjectData.deferred work_data)
                                    (Some (napi_create_error ''Failed to create project handle'')) w)
                         | Some v \<Rightarrow> Inr (napi_resolve_deferred (OpenProjectData.deferred work_data) (project_external) w)))))
      of
        Inl f \<Rightarrow> Inl f
      | Inr w \<Rightarrow>
          let w = napi_delete_async_work (OpenProjectData.work work_data) w
          in Inr (free data w))"

definition config_open_project_complete ::
  "napi_env \<Rightarrow> napi_status \<Rightarrow> ptr \<Rightarrow> ConfigOpenProjectData \<Rightarrow> world \<Rightarrow> fault + world" where
  "config_open_project_complete env status data work_data w =
     (case
        (if status = napi_cancelled
         then Inr (REJECT_IF_CANCELLED (ConfigOpenProjectData.deferred work_data) w)
         else
           (case UplinkProjectResult.error (ConfigOpenProjectData.result work_data) of
              Some e \<Rightarrow>
                Inr (let (err, w) = create_typed_error env (UplinkError.code e) (UplinkError.message e) w;
                         w = napi_reject_deferred (ConfigOpenProjectData.deferred work_data) (Some err) w
                     in uplink_free_error e w)
            | None \<Rightarrow>
                (case UplinkProjectResult.project (ConfigOpenProjectData.result work_data) of
                   None \<Rightarrow> Inl NullDereference
                 | Some p \<Rightarrow>
                     let (project_external, w) =
                           create_handle_external env (UplinkHandle.handle' p) HANDLE_TYPE_PROJECT (UplinkHandle.addr p) None w
                     in (case project_external of
                           None \<Rightarrow>
                             Inr (napi_reject_deferred (ConfigOpenProjectData.deferred work_data)
                                    (Some (napi_create_error ''Failed to create project handle'')) w)
                         | Some v \<Rightarrow> Inr (napi_resolve_deferred (ConfigOpenProjectData.deferred work_data) (project_external) w)))))
      of
        Inl f \<Rightarrow> Inl f
      | Inr w \<Rightarrow>
          let w = free (ConfigOpenProjectData.user_agent work_data) w;
              w = free (ConfigOpenProjectData.temp_directory work_data) w;
              w = napi_delete_async_work (ConfigOpenProjectData.work work_data) w
          in Inr (free data w))"

definition close_project_complete ::
  "napi_env \<Rightarrow> napi_status \<Rightarrow> ptr \<Rightarrow> CloseProjectData \<Rightarrow> world \<Rightarrow> world" where
  "close_project_complete env status data work_data w =
     (let w =
        (if status = napi_cancelled
         then REJECT_IF_CANCELLED (CloseProjectData.deferred work_data) w
         else
           (case CloseProjectData.error work_data of
              Some e \<Rightarrow>
                let (err, w) = create_typed_error env (UplinkError.code e) (UplinkError.message e) w;
                    w = napi_reject_deferred (CloseProjectData.deferred work_data) (Some err) w
                in uplink_free_error e w
            | None \<Rightarrow>
                napi_resolve_deferred (CloseProjectData.deferred work_data) (Some JsUndefined) w));
          w = napi_delete_async_work (CloseProjectData.work work_data) w
      in free data w)"

definition revoke_access_complete ::
  "napi_env \<Rightarrow> napi_status \<Rightarrow> ptr \<Rightarrow> RevokeAccessData \<Rightarrow> world \<Rightarrow> world" where
  "revoke_access_complete env status data work_data w =
     (let w =
        (if status = napi_cancelled
         then REJECT_IF_CANCELLED (RevokeAccessData.deferred work_data) w
         else
           (case RevokeAccessData.error work_data of
              Some e \<Rightarrow>
                let (err, w) = create_typed_error env (UplinkError.code e) (UplinkError.message e) w;
                    w = napi_reject_deferred (RevokeAccessData.deferred work_data) (Some err) w
                in uplink_free_error e w
            | None \<Rightarrow>
                napi_resolve_deferred (RevokeAccessData.deferred work_data) (Some JsUndefined) w));
          w = napi_delete_async_work (RevokeAccessData.work work_data) w
      in free data w)"

subsection \<open>object_types.h, object_complete.c\<close>

record ObjectOpData =
  project_handle :: size_t
  bucket_name :: ptr
  object_key :: ptr
  result :: UplinkObjectResult
  deferred :: napi_deferred
  work :: napi_async_work

record ListObjectsCreateData =
  project_handle :: size_t
  bucket_name :: ptr
  prefix :: ptr
  cursor :: ptr
  recursive :: bool
  include_system :: bool
  include_custom :: bool
  iterator_handle :: size_t
  deferred :: napi_deferred
  work :: napi_async_work

record ObjectIteratorNextData =
  iterator_handle :: size_t
  has_next :: bool
  deferred :: napi_deferred
  work :: napi_async_work

record ObjectIteratorItemData =
  iterator_handle :: size_t
  object :: "UplinkObject option"
  deferred :: napi_deferred
  work :: napi_async_work

record ObjectIteratorErrData =
  iterator_handle :: size_t
  error :: "UplinkError option"
  deferred :: napi_deferred
  work :: napi_async_work

record FreeObjectIteratorData =
  iterator_handle :: size_t
  deferred :: napi_deferred
  work :: napi_async_work

record CopyMoveObjectData =
  project_handle :: size_t
  src_bucket :: ptr
  src_key :: ptr
  dst_bucket :: ptr
  dst_key :: ptr
  result :: UplinkObjectResult
  move_error :: "UplinkError option"
  deferred :: napi_deferred
  work :: napi_async_work

text \<open>The array \<^verbatim>\<open>metadata_entries\<close> with its \<^verbatim>\<open>metadata_count\<close> is a list with its address, \<open>None\<close> for a null pointer.\<close>

record UpdateMetadataData =
  project_handle :: size_t
  bucket_name :: ptr
  object_key :: ptr
  metadata_entries :: "(ptr \<times> UplinkCustomMetadataEntry list) option"
  error :: "UplinkError option"
  deferred :: napi_deferred
  work :: napi_async_work

definition stat_object_complete ::
  "napi_env \<Rightarrow> napi_status \<Rightarrow> ptr \<Rightarrow> ObjectOpData \<Rightarrow> world \<Rightarrow> world" where
  "stat_object_complete env status data work_data w =
     (let w =
        (if status = napi_cancelled
         then REJECT_IF_CANCELLED (ObjectOpData.deferred work_data) w
         else
           (case UplinkObjectResult.error (ObjectOpData.result work_data) of
              Some e \<Rightarrow>
                let (err, w) = create_typed_error env (UplinkError.code e) (UplinkError.message e) w;
                    w = napi_reject_deferred (ObjectOpData.deferred work_data) (Some err) w
                in uplink_free_error e w
            | None \<Rightarrow>
                let object_obj = uplink_object_to_js w (UplinkObjectResult.object (ObjectOpData.result work_data));
                    w = uplink_free_object_result (ObjectOpData.result work_data) w
                in napi_resolve_deferred (ObjectOpData.deferred work_data) (Some object_obj) w));
          w = free (ObjectOpData.bucket_name work_data) w;
          w = free (ObjectOpData.object_key work_data) w;
          w = napi_delete_async_work (ObjectOpData.work work_data) w
      in free data w)"

definition delete_object_complete ::
  "napi_env \<Rightarrow> napi_status \<Rightarrow> ptr \<Rightarrow> ObjectOpData \<Rightarrow> world \<Rightarrow> world" where
  "delete_object_complete env status data work_data w =
     (let w =
        (if status = napi_cancelled
         then REJECT_IF_CANCELLED (ObjectOpData.deferred work_data) w
         else
           (case UplinkObjectResult.error (ObjectOpData.result work_data) of
              Some e \<Rightarrow>
                let (err, w) = create_typed_error env (UplinkError.code e) (UplinkError.message e) w;
                    w = napi_reject_deferred (ObjectOpData.deferred work_data) (Some err) w
                in uplink_free_error e w
            | None \<Rightarrow>
                let w = (case UplinkObjectResult.object (ObjectOpData.result work_data) of
                           Some obj \<Rightarrow> uplink_free_object obj w
                         | None \<Rightarrow> w)
                in napi_resolve_deferred (ObjectOpData.deferred work_data) (Some JsUndefined) w));
          w = free (ObjectOpData.bucket_name work_data) w;
          w = free (ObjectOpData.object_key work_data) w;
          w = napi_delete_async_work (ObjectOpData.work work_data) w
      in free data w)"

definition list_objects_create_complete ::
  "napi_env \<Rightarrow> napi_status \<Rightarrow> ptr \<Rightarrow> ListObjectsCreateData \<Rightarrow> world \<Rightarrow> world" where
  "list_objects_create_complete env status data work_data w =
     (let w =
        (if status = napi_cancelled
         then REJECT_IF_CANCELLED (ListObjectsCreateData.deferred work_data) w
         else
           (if ListObjectsCreateData.iterator_handle work_data = 0
            then napi_reject_deferred (ListObjectsCreateData.deferred work_data)
                   (Some (napi_create_error ''Failed to create object iterator'')) w
            else
              let (handle_obj, w) =
                    create_handle_external env (ListObjectsCreateData.iterator_handle work_data) HANDLE_TYPE_OBJECT_ITERATOR NULL None w
              in napi_resolve_deferred (ListObjectsCreateData.deferred work_data) (handle_obj) w));
          w = free (ListObjectsCreateData.bucket_name work_data) w;
          w = free (ListObjectsCreateData.prefix work_data) w;
          w = free (ListObjectsCreateData.cursor work_data) w;
          w = napi_delete_async_work (ListObjectsCreateData.work work_data) w
      in free data w)"

definition object_iterator_next_complete ::
  "napi_env \<Rightarrow> napi_status \<Rightarrow> ptr \<Rightarrow> ObjectIteratorNextData \<Rightarrow> world \<Rightarrow> world" where
  "object_iterator_next_complete env status data work_data w =
     (let w =
        (if status = napi_cancelled
         then REJECT_IF_CANCELLED (ObjectIteratorNextData.deferred work_data) w
         else
           napi_resolve_deferred (ObjectIteratorNextData.deferred work_data) (Some (JsBoolean (ObjectIteratorNextData.has_next work_data))) w);
          w = napi_delete_async_work (ObjectIteratorNextData.work work_data) w
      in free data w)"

definition object_iterator_item_complete ::
  "napi_env \<Rightarrow> napi_status \<Rightarrow> ptr \<Rightarrow> ObjectIteratorItemData \<Rightarrow> world \<Rightarrow> world" where
  "object_iterator_item_complete env status data work_data w =
     (let w =
        (if status = napi_cancelled
         then REJECT_IF_CANCELLED (ObjectIteratorItemData.deferred work_data) w
         else
           let object_obj = uplink_object_to_js w (ObjectIteratorItemData.object work_data);
               w = (case ObjectIteratorItemData.object work_data of
                      Some obj \<Rightarrow> uplink_free_object obj w
                    | None \<Rightarrow> w)
           in napi_resolve_deferred (ObjectIteratorItemData.deferred work_data) (Some object_obj) w);
          w = napi_delete_async_work (ObjectIteratorItemData.work work_data) w
      in free data w)"

definition object_iterator_err_complete ::
  "napi_env \<Rightarrow> napi_status \<Rightarrow> ptr \<Rightarrow> ObjectIteratorErrData \<Rightarrow> world \<Rightarrow> world" where
  "object_iterator_err_complete env status data work_data w =
     (let w =
        (if status = napi_cancelled
         then REJECT_IF_CANCELLED (ObjectIteratorErrData.deferred work_data) w
         else
           (case ObjectIteratorErrData.error work_data of
              Some e \<Rightarrow>
                let (err, w) = create_typed_error env (UplinkError.code e) (UplinkError.message e) w;
                    w = uplink_free_error e w
                in napi_resolve_deferred (ObjectIteratorErrData.deferred work_data) (Some err) w
            | None \<Rightarrow>
                napi_resolve_deferred (ObjectIteratorErrData.deferred work_data) (Some JsNull) w));
          w = napi_delete_async_work (ObjectIteratorErrData.work work_data) w
      in free data w)"

definition free_object_iterator_complete ::
  "napi_env \<Rightarrow> napi_status \<Rightarrow> ptr \<Rightarrow> FreeObjectIteratorData \<Rightarrow> world \<Rightarrow> world" where
  "free_object_iterator_complete env status data work_data w =
     (let w =
        (if status = napi_cancelled
         then REJECT_IF_CANCELLED (FreeObjectIteratorData.deferred work_data) w
         else
           napi_resolve_deferred (FreeObjectIteratorData.deferred work_data) (Some JsUndefined) w);
          w = napi_delete_async_work (FreeObjectIteratorData.work work_data) w
      in free data w)"

definition copy_object_complete ::
  "napi_env \<Rightarrow> napi_status \<Rightarrow> ptr \<Rightarrow> CopyMoveObjectData \<Rightarrow> world \<Rightarrow> world" where
  "copy_object_complete env status data work_data w =
     (let w =
        (if status = napi_cancelled
         then REJECT_IF_CANCELLED (CopyMoveObjectData.deferred work_data) w
         else
           (case UplinkObjectResult.error (CopyMoveObjectData.result work_data) of
              Some e \<Rightarrow>
                let (err, w) = create_typed_error env (UplinkError.code e) (UplinkError.message e) w;
                    w = napi_reject_deferred (CopyMoveObjectData.deferred work_data) (Some err) w
                in uplink_free_error e w
            | None \<Rightarrow>
                let object_obj = uplink_object_to_js w (UplinkObjectResult.object (CopyMoveObjectData.result work_data));
                    w = uplink_free_object_result (CopyMoveObjectData.result work_data) w
                in napi_resolve_deferred (CopyMoveObjectData.deferred work_data) (Some object_obj) w));
          w = free (CopyMoveObjectData.src_bucket work_data) w;
          w = free (CopyMoveObjectData.src_key work_data) w;
          w = free (CopyMoveObjectData.dst_bucket work_data) w;
          w = free (CopyMoveObjectData.dst_key work_data) w;
          w = napi_delete_async_work (CopyMoveObjectData.work work_data) w
      in free data w)"

definition move_object_complete ::
  "napi_env \<Rightarrow> napi_status \<Rightarrow> ptr \<Rightarrow> CopyMoveObjectData \<Rightarrow> world \<Rightarrow> world" where
  "move_object_complete env status data work_data w =
     (let w =
        (if status = napi_cancelled
         then REJECT_IF_CANCELLED (CopyMoveObjectData.deferred work_data) w
         else
           (case CopyMoveObjectData.move_error work_data of
              Some e \<Rightarrow>
                let (err, w) = create_typed_error env (UplinkError.code e) (UplinkError.message e) w;
                    w = napi_reject_deferred (CopyMoveObjectData.deferred work_data) (Some err) w
                in uplink_free_error e w
            | None \<Rightarrow>
                napi_resolve_deferred (CopyMoveObjectData.deferred work_data) (Some JsUndefined) w));
          w = free (CopyMoveObjectData.src_bucket work_data) w;
          w = free (CopyMoveObjectData.src_key work_data) w;
          w = free (CopyMoveObjectData.dst_bucket work_data) w;
          w = free (CopyMoveObjectData.dst_key work_data) w;
          w = napi_delete_async_work (CopyMoveObjectData.work work_data) w
      in free data w)"

definition update_object_metadata_complete ::
  "napi_env \<Rightarrow> napi_status \<Rightarrow> ptr \<Rightarrow> UpdateMetadataData \<Rightarrow> world \<Rightarrow> world" where
  "update_object_metadata_complete env status data work_data w =
     (let w =
        (if status = napi_cancelled
         then REJECT_IF_CANCELLED (UpdateMetadataData.deferred work_data) w
         else
           (case UpdateMetadataData.error work_data of
              Some e \<Rightarrow>
                let (err, w) = create_typed_error env (UplinkError.code e) (UplinkError.message e) w;
                    w = napi_reject_deferred (UpdateMetadataData.deferred work_data) (Some err) w
                in uplink_free_error e w
            | None \<Rightarrow>
                napi_resolve_deferred (UpdateMetadataData.deferred work_data) (Some JsUndefined) w));
          w = free (UpdateMetadataData.bucket_name work_data) w;
          w = free (UpdateMetadataData.object_key work_data) w;
          w = (case UpdateMetadataData.metadata_entries work_data of
                 Some (a, es) \<Rightarrow> free a (free_entries_loop es w)
               | None \<Rightarrow> w);
          w = napi_delete_async_work (UpdateMetadataData.work work_data) w
      in free data w)"

subsection \<open>upload_types.h, upload_complete.c\<close>

record UploadObjectData =
  project_handle :: size_t
  bucket_name :: ptr
  object_key :: ptr
  expires :: int64_t
  result :: UplinkUploadResult
  deferred :: napi_deferred
  work :: napi_async_work

record UploadWriteData =
  upload_handle :: size_t
  buffer_ptr :: ptr
  data_length :: size_t
  buffer_ref :: "napi_ref option"
  result :: UplinkWriteResult
  deferred :: napi_deferred
  work :: napi_async_work

record UploadFinalizeData =
  upload_handle :: size_t
  error :: "UplinkError option"
  deferred :: napi_deferred
  work :: napi_async_work

record UploadMetadataData =
  upload_handle :: size_t
  metadata :: UplinkCustomMetadata
  error :: "UplinkError option"
  deferred :: napi_deferred
  work :: napi_async_work

record UploadInfoData =
  upload_handle :: size_t
  result :: UplinkObjectResult
  deferred :: napi_deferred
  work :: napi_async_work

definition upload_object_complete ::
  "napi_env \<Rightarrow> napi_status \<Rightarrow> ptr \<Rightarrow> UploadObjectData \<Rightarrow> world \<Rightarrow> fault + world" where
  "upload_object_complete env status data work_data w =
     (case
        (if status = napi_cancelled
         then Inr (REJECT_IF_CANCELLED (UploadObjectData.deferred work_data) w)
         else
           (case UplinkUploadResult.error (UploadObjectData.result work_data) of
              Some e \<Rightarrow>
                Inr (let (err, w) = create_typed_error env (UplinkError.code e) (UplinkError.message e) w;
                         w = napi_reject_deferred (UploadObjectData.deferred work_data) (Some err) w
                     in uplink_free_error e w)
            | None \<Rightarrow>
                (case UplinkUploadResult.upload (UploadObjectData.result work_data) of
                   None \<Rightarrow> Inl NullDereference
                 | Some p \<Rightarrow>
                     let (upload_handle, w) =
                           create_handle_external env (UplinkHandle.handle' p) HANDLE_TYPE_UPLOAD (UplinkHandle.addr p) None w
                     in Inr (napi_resolve_deferred (UploadObjectData.deferred work_data) (upload_handle) w))))
      of
        Inl f \<Rightarrow> Inl f
      | Inr w \<Rightarrow>
          let w = free (UploadObjectData.bucket_name work_data) w;
              w = free (UploadObjectData.object_key work_data) w;
              w = napi_delete_async_work (UploadObjectData.work work_data) w
          in Inr (free data w))"

definition upload_write_complete ::
  "napi_env \<Rightarrow> napi_status \<Rightarrow> ptr \<Rightarrow> UploadWriteData \<Rightarrow> world \<Rightarrow> world" where
  "upload_write_complete env status data work_data w =
     (let w =
        (if status = napi_cancelled
         then REJECT_IF_CANCELLED (UploadWriteData.deferred work_data) w
         else
           (case UplinkWriteResult.error (UploadWriteData.result work_data) of
              Some e \<Rightarrow>
                let (err, w) = create_typed_error env (UplinkError.code e) (UplinkError.message e) w;
                    w = napi_reject_deferred (UploadWriteData.deferred work_data) (Some err) w
                in uplink_free_error e w
            | None \<Rightarrow>
                let bytes_written = napi_create_int64 (UplinkWriteResult.bytes_written (UploadWriteData.result work_data))
                in napi_resolve_deferred (UploadWriteData.deferred work_data) (Some bytes_written) w));
          w = (case UploadWriteData.buffer_ref work_data of
                 Some r \<Rightarrow> napi_delete_reference r w
               | None \<Rightarrow> w);
          w = napi_delete_async_work (UploadWriteData.work work_data) w
      in free data w)"

definition upload_commit_complete ::
  "napi_env \<Rightarrow> napi_status \<Rightarrow> ptr \<Rightarrow> UploadFinalizeData \<Rightarrow> world \<Rightarrow> world" where
  "upload_commit_complete env status data work_data w =
     (let w =
        (if status = napi_cancelled
         then REJECT_IF_CANCELLED (UploadFinalizeData.deferred work_data) w
         else
           (case UploadFinalizeData.error work_data of
              Some e \<Rightarrow>
                let (err, w) = create_typed_error env (UplinkError.code e) (UplinkError.message e) w;
                    w = napi_reject_deferred (UploadFinalizeData.deferred work_data) (Some err) w
                in uplink_free_error e w
            | None \<Rightarrow>
                napi_resolve_deferred (UploadFinalizeData.deferred work_data) (Some JsUndefined) w));
          w = napi_delete_async_work (UploadFinalizeData.work work_data) w
      in free data w)"

definition upload_abort_complete ::
  "napi_env \<Rightarrow> napi_status \<Rightarrow> ptr \<Rightarrow> UploadFinalizeData \<Rightarrow> world \<Rightarrow> world" where
  "upload_abort_complete env status data work_data w =
     (let w =
        (if status = napi_cancelled
         then REJECT_IF_CANCELLED (UploadFinalizeData.deferred work_data) w
         else
           (case UploadFinalizeData.error work_data of
              Some e \<Rightarrow>
                let (err, w) = create_typed_error env (UplinkError.code e) (UplinkError.message e) w;
                    w = napi_reject_deferred (UploadFinalizeData.deferred work_data) (Some err) w
                in uplink_free_error e w
            | None \<Rightarrow>
                napi_resolve_deferred (UploadFinalizeData.deferred work_data) (Some JsUndefined) w));
          w = napi_delete_async_work (UploadFinalizeData.work work_data) w
      in free data w)"

definition upload_set_metadata_complete ::
  "napi_env \<Rightarrow> napi_status \<Rightarrow> ptr \<Rightarrow> UploadMetadataData \<Rightarrow> world \<Rightarrow> world" where
  "upload_set_metadata_complete env status data work_data w =
     (let w =
        (if status = napi_cancelled
         then REJECT_IF_CANCELLED (UploadMetadataData.deferred work_data) w
         else
           (case UploadMetadataData.error work_data of
              Some e \<Rightarrow>
                let (err, w) = create_typed_error env (UplinkError.code e) (UplinkError.message e) w;
                    w = napi_reject_deferred (UploadMetadataData.deferred work_data) (Some err) w
                in uplink_free_error e w
            | None \<Rightarrow>
                napi_resolve_deferred (UploadMetadataData.deferred work_data) (Some JsUndefined) w));
          w = (case UplinkCustomMetadata.entries (UploadMetadataData.metadata work_data) of
                 Some (a, es) \<Rightarrow> free a (free_entries_loop es w)
               | None \<Rightarrow> w);
          w = napi_delete_async_work (UploadMetadataData.work work_data) w
      in free data w)"

definition upload_info_complete ::
  "napi_env \<Rightarrow> napi_status \<Rightarrow> ptr \<Rightarrow> UploadInfoData \<Rightarrow> world \<Rightarrow> world" where
  "upload_info_complete env status data work_data w =
     (let w =
        (if status = napi_cancelled
         then REJECT_IF_CANCELLED (UploadInfoData.deferred work_data) w
         else
           (case UplinkObjectResult.error (UploadInfoData.result work_data) of
              Some e \<Rightarrow>
                let (err, w) = create_typed_error env (UplinkError.code e) (UplinkError.message e) w;
                    w = napi_reject_deferred (UploadInfoData.deferred work_data) (Some err) w
                in uplink_free_error e w
            | None \<Rightarrow>
                let object_obj = uplink_object_to_js w (UplinkObjectResult.object (UploadInfoData.result work_data));
                    w = uplink_free_object_result (UploadInfoData.result work_data) w
                in napi_resolve_deferred (UploadInfoData.deferred work_data) (Some object_obj) w));
          w = napi_delete_async_work (UploadInfoData.work work_data) w
      in free data w)"

subsection \<open>download_types.h, download_complete.c, download_execute.c\<close>

text \<open>The field \<^verbatim>\<open>length\<close> of \<^verbatim>\<open>DownloadObjectData\<close> is written \<open>length'\<close>, the name
  \<open>length\<close> being the length of a list.\<close>

record DownloadObjectData =
  project_handle :: size_t
  bucket_name :: ptr
  object_key :: ptr
  offset :: int64_t
  length' :: int64_t
  result :: UplinkDownloadResult
  deferred :: napi_deferred
  work :: napi_async_work

record DownloadReadData =
  download_handle :: size_t
  buffer_ptr :: ptr
  data_length :: size_t
  buffer_ref :: "napi_ref option"
  result :: UplinkReadResult
  deferred :: napi_deferred
  work :: napi_async_work

record DownloadInfoData =
  download_handle :: size_t
  result :: UplinkObjectResult
  deferred :: napi_deferred
  work :: napi_async_work

record CloseDownloadData =
  download_handle :: size_t
  error :: "UplinkError option"
  deferred :: napi_deferred
  work :: napi_async_work

definition download_object_complete ::
  "napi_env \<Rightarrow> napi_status \<Rightarrow> ptr \<Rightarrow> DownloadObjectData \<Rightarrow> world \<Rightarrow> fault + world" where
  "download_object_complete env status data work_data w =
     (case
        (if status = napi_cancelled
         then Inr (REJECT_IF_CANCELLED (DownloadObjectData.deferred work_data) w)
         else
           (case UplinkDownloadResult.error (DownloadObjectData.result work_data) of
              Some e \<Rightarrow>
                Inr (let (err, w) = create_typed_error env (UplinkError.code e) (UplinkError.message e) w;
                         w = napi_reject_deferred (DownloadObjectData.deferred work_data) (Some err) w
                     in uplink_free_error e w)
            | None \<Rightarrow>
                (case UplinkDownloadResult.download (DownloadObjectData.result work_data) of
                   None \<Rightarrow> Inl NullDereference
                 | Some dl \<Rightarrow>
                     let result_obj = napi_create_object;
                         (download_handle, w) =
                           create_handle_external env (UplinkDownload.handle' dl) HANDLE_TYPE_DOWNLOAD
                             (UplinkDownload.download_addr dl) None w;
                         result_obj = napi_set_named_property w result_obj ''downloadHandle'' download_handle
                     in Inr (napi_resolve_deferred (DownloadObjectData.deferred work_data) (Some result_obj) w))))
      of
        Inl f \<Rightarrow> Inl f
      | Inr w \<Rightarrow>
          let w = free (DownloadObjectData.bucket_name work_data) w;
              w = free (DownloadObjectData.object_key work_data) w;
              w = napi_delete_async_work (DownloadObjectData.work work_data) w
          in Inr (free data w))"

definition download_read_complete ::
  "napi_env \<Rightarrow> napi_status \<Rightarrow> ptr \<Rightarrow> DownloadReadData \<Rightarrow> world \<Rightarrow> world" where
  "download_read_complete env status data work_data w =
     (let w =
        (if status = napi_cancelled
         then REJECT_IF_CANCELLED (DownloadReadData.deferred work_data) w
         else
           (case UplinkReadResult.error (DownloadReadData.result work_data) of
              Some e \<Rightarrow>
                let (err, w) = create_typed_error env (UplinkError.code e)
                                 (Some (case UplinkError.message e of Some m \<Rightarrow> m | None \<Rightarrow> ''EOF'')) w;
                    bytes_read_val = napi_create_int64 (UplinkReadResult.bytes_read (DownloadReadData.result work_data));
                    err = napi_set_named_property w err ''bytesRead'' (Some bytes_read_val);
                    w = napi_reject_deferred (DownloadReadData.deferred work_data) (Some err) w
                in uplink_free_error e w
            | None \<Rightarrow>
                let result_obj = napi_create_object;
                    bytes_read_val = napi_create_int64 (UplinkReadResult.bytes_read (DownloadReadData.result work_data));
                    result_obj = napi_set_named_property w result_obj ''bytesRead'' (Some bytes_read_val)
                in napi_resolve_deferred (DownloadReadData.deferred work_data) (Some result_obj) w));
          w = (case DownloadReadData.buffer_ref work_data of
                 Some r \<Rightarrow> napi_delete_reference r w
               | None \<Rightarrow> w);
          w = napi_delete_async_work (DownloadReadData.work work_data) w
      in free data w)"

definition download_info_complete ::
  "napi_env \<Rightarrow> napi_status \<Rightarrow> ptr \<Rightarrow> DownloadInfoData \<Rightarrow> world \<Rightarrow> world" where
  "download_info_complete env status data work_data w =
     (let w =
        (if status = napi_cancelled
         then REJECT_IF_CANCELLED (DownloadInfoData.deferred work_data) w
         else
           (case UplinkObjectResult.error (DownloadInfoData.result work_data) of
              Some e \<Rightarrow>
                let (err, w) = create_typed_error env (UplinkError.code e) (UplinkError.message e) w;
                    w = napi_reject_deferred (DownloadInfoData.deferred work_data) (Some err) w
                in uplink_free_error e w
            | None \<Rightarrow>
                let result_obj = uplink_object_to_js w (UplinkObjectResult.object (DownloadInfoData.result work_data));
                    w = napi_resolve_deferred (DownloadInfoData.deferred work_data) (Some result_obj) w
                in uplink_free_object_result (DownloadInfoData.result work_data) w));
          w = napi_delete_async_work (DownloadInfoData.work work_data) w
      in free data w)"

definition close_download_complete ::
  "napi_env \<Rightarrow> napi_status \<Rightarrow> ptr \<Rightarrow> CloseDownloadData \<Rightarrow> world \<Rightarrow> world" where
  "close_download_complete env status data work_data w =
     (let w =
        (if status = napi_cancelled
         then REJECT_IF_CANCELLED (CloseDownloadData.deferred work_data) w
         else
           (case CloseDownloadData.error work_data of
              Some e \<Rightarrow>
                let (err, w) = create_typed_error env (UplinkError.code e) (UplinkError.message e) w;
                    w = napi_reject_deferred (CloseDownloadData.deferred work_data) (Some err) w
                in uplink_free_error e w
            | None \<Rightarrow>
                napi_resolve_deferred (CloseDownloadData.deferred work_data) (Some JsUndefined) w));
          w = napi_delete_async_work (CloseDownloadData.work work_data) w
      in free data w)"


subsection \<open>multipart_types.h, multipart_complete.c\<close>

definition upload_info_to_js :: "world \<Rightarrow> UplinkUploadInfo option \<Rightarrow> js_value" where
  "upload_info_to_js w info_ptr =
     (case info_ptr of
        None \<Rightarrow> JsUndefined
      | Some info' \<Rightarrow>
          let obj = napi_create_object;
              obj = napi_set_named_property w obj ''uploadId''
                      (Some (napi_create_string_utf8
                               (case c_chars (UplinkUploadInfo.upload_id info') of Some s \<Rightarrow> s | None \<Rightarrow> [])));
              obj = napi_set_named_property w obj ''key''
                      (Some (napi_create_string_utf8
                               (case c_chars (UplinkUploadInfo.key info') of Some s \<Rightarrow> s | None \<Rightarrow> [])));
              obj = napi_set_named_property w obj ''isPrefix''
                      (Some (JsBoolean (UplinkUploadInfo.is_prefix info')));
              sys = napi_create_object;
              sys = napi_set_named_property w sys ''created''
                      (Some (napi_create_int64 (UplinkSystemMetadata.created (UplinkUploadInfo.system info'))));
              sys = (if UplinkSystemMetadata.expires (UplinkUploadInfo.system info') \<noteq> 0
                     then napi_set_named_property w sys ''expires''
                            (Some (napi_create_int64 (UplinkSystemMetadata.expires (UplinkUploadInfo.system info'))))
                     else napi_set_named_property w sys ''expires'' (Some JsNull));
              sys = napi_set_named_property w sys ''contentLength''
                      (Some (napi_create_int64 (UplinkSystemMetadata.content_length (UplinkUploadInfo.system info'))));
              obj = napi_set_named_property w obj ''system'' (Some sys);
              custom_obj = napi_create_object;
              custom_obj = (case UplinkCustomMetadata.entries (UplinkUploadInfo.custom info') of
                              Some (a, es) \<Rightarrow>
                                if length es > 0 then custom_entries_loop w es custom_obj else custom_obj
                            | None \<Rightarrow> custom_obj);
              obj = napi_set_named_property w obj ''custom'' (Some custom_obj)
          in obj)"

definition part_to_js :: "world \<Rightarrow> UplinkPart option \<Rightarrow> js_value" where
  "part_to_js w part_ptr =
     (case part_ptr of
        None \<Rightarrow> JsUndefined
      | Some part' \<Rightarrow>
          let obj = napi_create_object;
              obj = napi_set_named_property w obj ''partNumber''
                      (Some (napi_create_uint32 (UplinkPart.part_number part')));
              obj = napi_set_named_property w obj ''size'' (Some (napi_create_int64 (size' part')));
              obj = napi_set_named_property w obj ''modified'' (Some (napi_create_int64 (modified part')));
              etag_val =
                (case UplinkPart.etag part' of
                   Some (a, cs) \<Rightarrow>
                     if etag_length part' > 0 then napi_create_string_utf8_len cs (etag_length part')
                     else napi_create_string_utf8_len [] 0
                 | None \<Rightarrow> napi_create_string_utf8_len [] 0);
              obj = napi_set_named_property w obj ''etag'' (Some etag_val)
          in obj)"

record BeginUploadData =
  project_handle :: size_t
  bucket_name :: ptr
  object_key :: ptr
  expires :: int64_t
  result :: UplinkUploadInfoResult
  deferred :: napi_deferred
  work :: napi_async_work

record CommitUploadData =
  project_handle :: size_t
  bucket_name :: ptr
  object_key :: ptr
  upload_id :: ptr
  metadata_entries :: "(ptr \<times> UplinkCustomMetadataEntry list) option"
  result :: UplinkCommitUploadResult
  deferred :: napi_deferred
  work :: napi_async_work

record AbortUploadData =
  project_handle :: size_t
  bucket_name :: ptr
  object_key :: ptr
  upload_id :: ptr
  error :: "UplinkError option"
  deferred :: napi_deferred
  work :: napi_async_work

record UploadPartData =
  project_handle :: size_t
  bucket_name :: ptr
  object_key :: ptr
  upload_id :: ptr
  part_number :: uint32_t
  result :: UplinkPartUploadResult
  deferred :: napi_deferred
  work :: napi_async_work

record PartUploadWriteData =
  part_upload_handle :: size_t
  buffer :: ptr
  length' :: size_t
  result :: UplinkWriteResult
  buffer_ref :: "napi_ref option"
  deferred :: napi_deferred
  work :: napi_async_work

record PartUploadOpData =
  part_upload_handle :: size_t
  error :: "UplinkError option"
  deferred :: napi_deferred
  work :: napi_async_work

record PartUploadSetEtagData =
  part_upload_handle :: size_t
  etag :: ptr
  error :: "UplinkError option"
  deferred :: napi_deferred
  work :: napi_async_work

record PartUploadInfoData =
  part_upload_handle :: size_t
  result :: UplinkPartResult
  deferred :: napi_deferred
  work :: napi_async_work

record ListUploadPartsCreateData =
  project_handle :: size_t
  bucket_name :: ptr
  object_key :: ptr
  upload_id :: ptr
  cursor :: uint32_t
  iterator_handle :: size_t
  deferred :: napi_deferred
  work :: napi_async_work

record PartIteratorNextData =
  iterator_handle :: size_t
  has_next :: bool
  deferred :: napi_deferred
  work :: napi_async_work

text \<open>The iterator items are deep copies the binding frees itself: the struct with its address.\<close>

record PartIteratorItemData =
  iterator_handle :: size_t
  part :: "(ptr \<times> UplinkPart) option"
  deferred :: napi_deferred
  work :: napi_async_work

record PartIteratorErrData =
  iterator_handle :: size_t
  error :: "UplinkError option"
  deferred :: napi_deferred
  work :: napi_async_work

record FreePartIteratorData =
  iterator_handle :: size_t
  deferred :: napi_deferred
  work :: napi_async_work

record ListUploadsCreateData =
  project_handle :: size_t
  bucket_name :: ptr
  prefix :: ptr
  cursor :: ptr
  recursive :: bool
  include_system :: bool
  include_custom :: bool
  iterator_handle :: size_t
  deferred :: napi_deferred
  work :: napi_async_work

record UploadIteratorNextData =
  iterator_handle :: size_t
  has_next :: bool
  deferred :: napi_deferred
  work :: napi_async_work

record UploadIteratorItemData =
  iterator_handle :: size_t
  upload_info :: "(ptr \<times> UplinkUploadInfo) option"
  deferred :: napi_deferred
  work :: napi_async_work

record UploadIteratorErrData =
  iterator_handle :: size_t
  error :: "UplinkError option"
  deferred :: napi_deferred
  work :: napi_async_work

record FreeUploadIteratorData =
  iterator_handle :: size_t
  deferred :: napi_deferred
  work :: napi_async_work

definition begin_upload_complete ::
  "napi_env \<Rightarrow> napi_status \<Rightarrow> ptr \<Rightarrow> BeginUploadData \<Rightarrow> world \<Rightarrow> world" where
  "begin_upload_complete env status data work_data w =
     (let w =
        (if status = napi_cancelled
         then REJECT_IF_CANCELLED (BeginUploadData.deferred work_data) w
         else
           (case UplinkUploadInfoResult.error (BeginUploadData.result work_data) of
              Some e \<Rightarrow>
                let (err, w) = create_typed_error env (UplinkError.code e) (UplinkError.message e) w;
                    w = napi_reject_deferred (BeginUploadData.deferred work_data) (Some err) w
                in uplink_free_upload_info_result (BeginUploadData.result work_data) w
            | None \<Rightarrow>
                let info_obj = upload_info_to_js w (UplinkUploadInfoResult.info (BeginUploadData.result work_data));
                    w = uplink_free_upload_info_result (BeginUploadData.result work_data) w
                in napi_resolve_deferred (BeginUploadData.deferred work_data) (Some info_obj) w));
          w = free (BeginUploadData.bucket_name work_data) w;
          w = free (BeginUploadData.object_key work_data) w;
          w = napi_delete_async_work (BeginUploadData.work work_data) w
      in free data w)"

definition commit_upload_complete ::
  "napi_env \<Rightarrow> napi_status \<Rightarrow> ptr \<Rightarrow> CommitUploadData \<Rightarrow> world \<Rightarrow> world" where
  "commit_upload_complete env status data work_data w =
     (let w =
        (if status = napi_cancelled
         then REJECT_IF_CANCELLED (CommitUploadData.deferred work_data) w
         else
           (case UplinkCommitUploadResult.error (CommitUploadData.result work_data) of
              Some e \<Rightarrow>
                let (err, w) = create_typed_error env (UplinkError.code e) (UplinkError.message e) w;
                    w = napi_reject_deferred (CommitUploadData.deferred work_data) (Some err) w
                in uplink_free_commit_upload_result (CommitUploadData.result work_data) w
            | None \<Rightarrow>
                let obj = uplink_object_to_js w (UplinkCommitUploadResult.object (CommitUploadData.result work_data));
                    w = uplink_free_commit_upload_result (CommitUploadData.result work_data) w
                in napi_resolve_deferred (CommitUploadData.deferred work_data) (Some obj) w));
          w = free (CommitUploadData.bucket_name work_data) w;
          w = free (CommitUploadData.object_key work_data) w;
          w = free (CommitUploadData.upload_id work_data) w;
          w = (case CommitUploadData.metadata_entries work_data of
                 Some (a, es) \<Rightarrow> free a (free_entries_loop es w)
               | None \<Rightarrow> w);
          w = napi_delete_async_work (CommitUploadData.work work_data) w
      in free data w)"

definition abort_upload_complete ::
  "napi_env \<Rightarrow> napi_status \<Rightarrow> ptr \<Rightarrow> AbortUploadData \<Rightarrow> world \<Rightarrow> world" where
  "abort_upload_complete env status data work_data w =
     (let w =
        (if status = napi_cancelled
         then REJECT_IF_CANCELLED (AbortUploadData.deferred work_data) w
         else
           (case AbortUploadData.error work_data of
              Some e \<Rightarrow>
                let (err, w) = create_typed_error env (UplinkError.code e) (UplinkError.message e) w;
                    w = napi_reject_deferred (AbortUploadData.deferred work_data) (Some err) w
                in uplink_free_error e w
            | None \<Rightarrow>
                napi_resolve_deferred (AbortUploadData.deferred work_data) (Some JsUndefined) w));
          w = free (AbortUploadData.bucket_name work_data) w;
          w = free (AbortUploadData.object_key work_data) w;
          w = free (AbortUploadData.upload_id work_data) w;
          w = napi_delete_async_work (AbortUploadData.work work_data) w
      in free data w)"

definition upload_part_complete ::
  "napi_env \<Rightarrow> napi_status \<Rightarrow> ptr \<Rightarrow> UploadPartData \<Rightarrow> world \<Rightarrow> fault + world" where
  "upload_part_complete env status data work_data w =
     (case
        (if status = napi_cancelled
         then Inr (REJECT_IF_CANCELLED (UploadPartData.deferred work_data) w)
         else
           (case UplinkPartUploadResult.error (UploadPartData.result work_data) of
              Some e \<Rightarrow>
                Inr (let (err, w) = create_typed_error env (UplinkError.code e) (UplinkError.message e) w;
                         w = napi_reject_deferred (UploadPartData.deferred work_data) (Some err) w
                     in uplink_free_part_upload_result (UploadPartData.result work_data) w)
            | None \<Rightarrow>
                (case UplinkPartUploadResult.part_upload (UploadPartData.result work_data) of
                   None \<Rightarrow> Inl NullDereference
                 | Some p \<Rightarrow>
                     let h = UplinkHandle.handle' p;
                         (handle_obj, w) =
                           create_handle_external env h HANDLE_TYPE_PART_UPLOAD (UplinkHandle.addr p) None w
                     in Inr (napi_resolve_deferred (UploadPartData.deferred work_data) (handle_obj) w))))
      of
        Inl f \<Rightarrow> Inl f
      | Inr w \<Rightarrow>
          let w = free (UploadPartData.bucket_name work_data) w;
              w = free (UploadPartData.object_key work_data) w;
              w = free (UploadPartData.upload_id work_data) w;
              w = napi_delete_async_work (UploadPartData.work work_data) w
          in Inr (free data w))"

definition part_upload_write_complete ::
  "napi_env \<Rightarrow> napi_status \<Rightarrow> ptr \<Rightarrow> PartUploadWriteData \<Rightarrow> world \<Rightarrow> world" where
  "part_upload_write_complete env status data work_data w =
     (let w = (case PartUploadWriteData.buffer_ref work_data of
                 Some r \<Rightarrow> napi_delete_reference r w
               | None \<Rightarrow> w) in
     (let w =
        (if status = napi_cancelled
         then REJECT_IF_CANCELLED (PartUploadWriteData.deferred work_data) w
         else
           (case UplinkWriteResult.error (PartUploadWriteData.result work_data) of
              Some e \<Rightarrow>
                let (err, w) = create_typed_error env (UplinkError.code e) (UplinkError.message e) w;
                    w = napi_reject_deferred (PartUploadWriteData.deferred work_data) (Some err) w
                in uplink_free_error e w
            | None \<Rightarrow>
                let bytes_written = napi_create_int64 (UplinkWriteResult.bytes_written (PartUploadWriteData.result work_data))
                in napi_resolve_deferred (PartUploadWriteData.deferred work_data) (Some bytes_written) w));
          w = napi_delete_async_work (PartUploadWriteData.work work_data) w
      in free data w))"

definition part_upload_commit_complete ::
  "napi_env \<Rightarrow> napi_status \<Rightarrow> ptr \<Rightarrow> PartUploadOpData \<Rightarrow> world \<Rightarrow> world" where
  "part_upload_commit_complete env status data work_data w =
     (let w =
        (if status = napi_cancelled
         then REJECT_IF_CANCELLED (PartUploadOpData.deferred work_data) w
         else
           (case PartUploadOpData.error work_data of
              Some e \<Rightarrow>
                let (err, w) = create_typed_error env (UplinkError.code e) (UplinkError.message e) w;
                    w = napi_reject_deferred (PartUploadOpData.deferred work_data) (Some err) w
                in uplink_free_error e w
            | None \<Rightarrow>
                napi_resolve_deferred (PartUploadOpData.deferred work_data) (Some JsUndefined) w));
          w = napi_delete_async_work (PartUploadOpData.work work_data) w
      in free data w)"

definition part_upload_abort_complete ::
  "napi_env \<Rightarrow> napi_status \<Rightarrow> ptr \<Rightarrow> PartUploadOpData \<Rightarrow> world \<Rightarrow> world" where
  "part_upload_abort_complete env status data work_data w =
     (let w =
        (if status = napi_cancelled
         then REJECT_IF_CANCELLED (PartUploadOpData.deferred work_data) w
         else
           (case PartUploadOpData.error work_data of
              Some e \<Rightarrow>
                let (err, w) = create_typed_error env (UplinkError.code e) (UplinkError.message e) w;
                    w = napi_reject_deferred (PartUploadOpData.deferred work_data) (Some err) w
                in uplink_free_error e w
            | None \<Rightarrow>
                napi_resolve_deferred (PartUploadOpData.deferred work_data) (Some JsUndefined) w));
          w = napi_delete_async_work (PartUploadOpData.work work_data) w
      in free data w)"

definition part_upload_set_etag_complete ::
  "napi_env \<Rightarrow> napi_status \<Rightarrow> ptr \<Rightarrow> PartUploadSetEtagData \<Rightarrow> world \<Rightarrow> world" where
  "part_upload_set_etag_complete env status data work_data w =
     (let w =
        (if status = napi_cancelled
         then REJECT_IF_CANCELLED (PartUploadSetEtagData.deferred work_data) w
         else
           (case PartUploadSetEtagData.error work_data of
              Some e \<Rightarrow>
                let (err, w) = create_typed_error env (UplinkError.code e) (UplinkError.message e) w;
                    w = napi_reject_deferred (PartUploadSetEtagData.deferred work_data) (Some err) w
                in uplink_free_error e w
            | None \<Rightarrow>
                napi_resolve_deferred (PartUploadSetEtagData.deferred work_data) (Some JsUndefined) w));
          w = free (PartUploadSetEtagData.etag work_data) w;
          w = napi_delete_async_work (PartUploadSetEtagData.work work_data) w
      in free data w)"

definition part_upload_info_complete ::
  "napi_env \<Rightarrow> napi_status \<Rightarrow> ptr \<Rightarrow> PartUploadInfoData \<Rightarrow> world \<Rightarrow> world" where
  "part_upload_info_complete env status data work_data w =
     (let w =
        (if status = napi_cancelled
         then REJECT_IF_CANCELLED (PartUploadInfoData.deferred work_data) w
         else
           (case UplinkPartResult.error (PartUploadInfoData.result work_data) of
              Some e \<Rightarrow>
                let (err, w) = create_typed_error env (UplinkError.code e) (UplinkError.message e) w;
                    w = napi_reject_deferred (PartUploadInfoData.deferred work_data) (Some err) w
                in uplink_free_part_result (PartUploadInfoData.result work_data) w
            | None \<Rightarrow>
                let part_obj = part_to_js w (UplinkPartResult.part (PartUploadInfoData.result work_data));
                    w = uplink_free_part_result (PartUploadInfoData.result work_data) w
                in napi_resolve_deferred (PartUploadInfoData.deferred work_data) (Some part_obj) w));
          w = napi_delete_async_work (PartUploadInfoData.work work_data) w
      in free data w)"

definition list_upload_parts_create_complete ::
  "napi_env \<Rightarrow> napi_status \<Rightarrow> ptr \<Rightarrow> ListUploadPartsCreateData \<Rightarrow> world \<Rightarrow> world" where
  "list_upload_parts_create_complete env status data work_data w =
     (let w =
        (if status = napi_cancelled
         then REJECT_IF_CANCELLED (ListUploadPartsCreateData.deferred work_data) w
         else
           (if ListUploadPartsCreateData.iterator_handle work_data = 0
            then napi_reject_deferred (ListUploadPartsCreateData.deferred work_data)
                   (Some (napi_create_error ''Failed to create part iterator'')) w
            else
              let (handle_obj, w) =
                    create_handle_external env (ListUploadPartsCreateData.iterator_handle work_data) HANDLE_TYPE_PART_ITERATOR NULL None w
              in napi_resolve_deferred (ListUploadPartsCreateData.deferred work_data) (handle_obj) w));
          w = free (ListUploadPartsCreateData.bucket_name work_data) w;
          w = free (ListUploadPartsCreateData.object_key work_data) w;
          w = free (ListUploadPartsCreateData.upload_id work_data) w;
          w = napi_delete_async_work (ListUploadPartsCreateData.work work_data) w
      in free data w)"

definition part_iterator_next_complete ::
  "napi_env \<Rightarrow> napi_status \<Rightarrow> ptr \<Rightarrow> PartIteratorNextData \<Rightarrow> world \<Rightarrow> world" where
  "part_iterator_next_complete env status data work_data w =
     (let w =
        (if status = napi_cancelled
         then REJECT_IF_CANCELLED (PartIteratorNextData.deferred work_data) w
         else
           napi_resolve_deferred (PartIteratorNextData.deferred work_data) (Some (JsBoolean (PartIteratorNextData.has_next work_data))) w);
          w = napi_delete_async_work (PartIteratorNextData.work work_data) w
      in free data w)"

definition part_iterator_item_complete ::
  "napi_env \<Rightarrow> napi_status \<Rightarrow> ptr \<Rightarrow> PartIteratorItemData \<Rightarrow> world \<Rightarrow> world" where
  "part_iterator_item_complete env status data work_data w =
     (let w =
        (if status = napi_cancelled
         then REJECT_IF_CANCELLED (PartIteratorItemData.deferred work_data) w
         else
           let part_obj = part_to_js w (map_option snd (PartIteratorItemData.part work_data));
               w = (case PartIteratorItemData.part work_data of
                      Some (a, part') \<Rightarrow>
                        let w = (case UplinkPart.etag part' of
                                   Some (ea, cs) \<Rightarrow> free ea w
                                 | None \<Rightarrow> w)
                        in free a w
                    | None \<Rightarrow> w)
           in napi_resolve_deferred (PartIteratorItemData.deferred work_data) (Some part_obj) w);
          w = napi_delete_async_work (PartIteratorItemData.work work_data) w
      in free data w)"

definition part_iterator_err_complete ::
  "napi_env \<Rightarrow> napi_status \<Rightarrow> ptr \<Rightarrow> PartIteratorErrData \<Rightarrow> world \<Rightarrow> world" where
  "part_iterator_err_complete env status data work_data w =
     (let w =
        (if status = napi_cancelled
         then REJECT_IF_CANCELLED (PartIteratorErrData.deferred work_data) w
         else
           (case PartIteratorErrData.error work_data of
              Some e \<Rightarrow>
                let (err, w) = create_typed_error env (UplinkError.code e) (UplinkError.message e) w;
                    w = uplink_free_error e w
                in napi_resolve_deferred (PartIteratorErrData.deferred work_data) (Some err) w
            | None \<Rightarrow>
                napi_resolve_deferred (PartIteratorErrData.deferred work_data) (Some JsNull) w));
          w = napi_delete_async_work (PartIteratorErrData.work work_data) w
      in free data w)"

definition free_part_iterator_complete ::
  "napi_env \<Rightarrow> napi_status \<Rightarrow> ptr \<Rightarrow> FreePartIteratorData \<Rightarrow> world \<Rightarrow> world" where
  "free_part_iterator_complete env status data work_data w =
     (let w =
        (if status = napi_cancelled
         then REJECT_IF_CANCELLED (FreePartIteratorData.deferred work_data) w
         else
           napi_resolve_deferred (FreePartIteratorData.deferred work_data) (Some JsUndefined) w);
          w = napi_delete_async_work (FreePartIteratorData.work work_data) w
      in free data w)"

definition list_uploads_create_complete ::
  "napi_env \<Rightarrow> napi_status \<Rightarrow> ptr \<Rightarrow> ListUploadsCreateData \<Rightarrow> world \<Rightarrow> world" where
  "list_uploads_create_complete env status data work_data w =
     (let w =
        (if status = napi_cancelled
         then REJECT_IF_CANCELLED (ListUploadsCreateData.deferred work_data) w
         else
           (if ListUploadsCreateData.iterator_handle work_data = 0
            then napi_reject_deferred (ListUploadsCreateData.deferred work_data)
                   (Some (napi_create_error ''Failed to create upload iterator'')) w
            else
              let (handle_obj, w) =
                    create_handle_external env (ListUploadsCreateData.iterator_handle work_data) HANDLE_TYPE_UPLOAD_ITERATOR NULL None w
              in napi_resolve_deferred (ListUploadsCreateData.deferred work_data) (handle_obj) w));
          w = free (ListUploadsCreateData.bucket_name work_data) w;
          w = free (ListUploadsCreateData.prefix work_data) w;
          w = free (ListUploadsCreateData.cursor work_data) w;
          w = napi_delete_async_work (ListUploadsCreateData.work work_data) w
      in free data w)"

definition upload_iterator_next_complete ::
  "napi_env \<Rightarrow> napi_status \<Rightarrow> ptr \<Rightarrow> UploadIteratorNextData \<Rightarrow> world \<Rightarrow> world" where
  "upload_iterator_next_complete env status data work_data w =
     (let w =
        (if status = napi_cancelled
         then REJECT_IF_CANCELLED (UploadIteratorNextData.deferred work_data) w
         else
           napi_resolve_deferred (UploadIteratorNextData.deferred work_data) (Some (JsBoolean (UploadIteratorNextData.has_next work_data))) w);
          w = napi_delete_async_work (UploadIteratorNextData.work work_data) w
      in free data w)"

definition upload_iterator_item_complete ::
  "napi_env \<Rightarrow> napi_status \<Rightarrow> ptr \<Rightarrow> UploadIteratorItemData \<Rightarrow> world \<Rightarrow> world" where
  "upload_iterator_item_complete env status data work_data w =
     (let w =
        (if status = napi_cancelled
         then REJECT_IF_CANCELLED (UploadIteratorItemData.deferred work_data) w
         else
           let upload_obj = upload_info_to_js w (map_option snd (UploadIteratorItemData.upload_info work_data));
               w = (case UploadIteratorItemData.upload_info work_data of
                      Some (a, info') \<Rightarrow>
                        let w = free (c_addr (UplinkUploadInfo.upload_id info')) w;
                            w = free (c_addr (UplinkUploadInfo.key info')) w;
                            w = (case UplinkCustomMetadata.entries (UplinkUploadInfo.custom info') of
                                   Some (ea, es) \<Rightarrow> free ea (free_entries_loop es w)
                                 | None \<Rightarrow> w)
                        in free a w
                    | None \<Rightarrow> w)
           in napi_resolve_deferred (UploadIteratorItemData.deferred work_data) (Some upload_obj) w);
          w = napi_delete_async_work (UploadIteratorItemData.work work_data) w
      in free data w)"

definition upload_iterator_err_complete ::
  "napi_env \<Rightarrow> napi_status \<Rightarrow> ptr \<Rightarrow> UploadIteratorErrData \<Rightarrow> world \<Rightarrow> world" where
  "upload_iterator_err_complete env status data work_data w =
     (let w =
        (if status = napi_cancelled
         then REJECT_IF_CANCELLED (UploadIteratorErrData.deferred work_data) w
         else
           (case UploadIteratorErrData.error work_data of
              Some e \<Rightarrow>
                let (err, w) = create_typed_error env (UplinkError.code e) (UplinkError.message e) w;
                    w = uplink_free_error e w
                in napi_resolve_deferred (UploadIteratorErrData.deferred work_data) (Some err) w
            | None \<Rightarrow>
                napi_resolve_deferred (UploadIteratorErrData.deferred work_data) (Some JsNull) w));
          w = napi_delete_async_work (UploadIteratorErrData.work work_data) w
      in free data w)"

definition free_upload_iterator_complete ::
  "napi_env \<Rightarrow> napi_status \<Rightarrow> ptr \<Rightarrow> FreeUploadIteratorData \<Rightarrow> world \<Rightarrow> world" where
  "free_upload_iterator_complete env status data work_data w =
     (let w =
        (if status = napi_cancelled
         then REJECT_IF_CANCELLED (FreeUploadIteratorData.deferred work_data) w
         else
           napi_resolve_deferred (FreeUploadIteratorData.deferred work_data) (Some JsUndefined) w);
          w = napi_delete_async_work (FreeUploadIteratorData.work work_data) w
      in free data w)"

subsection \<open>edge_types.h, edge_complete.c\<close>

record RegisterAccessData =
  auth_service_address :: ptr
  certificate_pem :: ptr
  insecure_unencrypted_connection :: bool
  access_handle :: size_t
  is_public :: bool
  result :: EdgeCredentialsResult
  deferred :: napi_deferred
  work :: napi_async_work

record JoinShareUrlData =
  base_url :: ptr
  access_key_id :: ptr
  bucket :: ptr
  key :: ptr
  raw :: bool
  result :: UplinkStringResult
  deferred :: napi_deferred
  work :: napi_async_work

definition register_access_complete ::
  "napi_env \<Rightarrow> napi_status \<Rightarrow> ptr \<Rightarrow> RegisterAccessData \<Rightarrow> world \<Rightarrow> fault + world" where
  "register_access_complete env status data work_data w =
     (case
        (if status = napi_cancelled
         then Inr (REJECT_IF_CANCELLED (RegisterAccessData.deferred work_data) w)
         else
           (case EdgeCredentialsResult.error (RegisterAccessData.result work_data) of
              Some e \<Rightarrow>
                Inr (let (err, w) = create_typed_error env (UplinkError.code e) (UplinkError.message e) w;
                         w = napi_reject_deferred (RegisterAccessData.deferred work_data) (Some err) w
                     in edge_free_credentials_result (RegisterAccessData.result work_data) w)
            | None \<Rightarrow>
                (case EdgeCredentialsResult.credentials (RegisterAccessData.result work_data) of
                   None \<Rightarrow> Inl NullDereference
                 | Some creds \<Rightarrow>
                     let creds_obj = napi_create_object;
                         creds_obj = napi_set_named_property w creds_obj ''accessKeyId''
                                       (Some (napi_create_string_utf8 (case EdgeCredentials.access_key_id creds of Some s \<Rightarrow> s | None \<Rightarrow> [])));
                         creds_obj = napi_set_named_property w creds_obj ''secretKey''
                                       (Some (napi_create_string_utf8 (case EdgeCredentials.secret_key creds of Some s \<Rightarrow> s | None \<Rightarrow> [])));
                         creds_obj = napi_set_named_property w creds_obj ''endpoint''
                                       (Some (napi_create_string_utf8 (case EdgeCredentials.endpoint creds of Some s \<Rightarrow> s | None \<Rightarrow> [])));
                         w = edge_free_credentials_result (RegisterAccessData.result work_data) w
                     in Inr (napi_resolve_deferred (RegisterAccessData.deferred work_data) (Some creds_obj) w))))
      of
        Inl f \<Rightarrow> Inl f
      | Inr w \<Rightarrow>
          let w = free (RegisterAccessData.auth_service_address work_data) w;
              w = free (RegisterAccessData.certificate_pem work_data) w;
              w = napi_delete_async_work (RegisterAccessData.work work_data) w
          in Inr (free data w))"

definition join_share_url_complete ::
  "napi_env \<Rightarrow> napi_status \<Rightarrow> ptr \<Rightarrow> JoinShareUrlData \<Rightarrow> world \<Rightarrow> world" where
  "join_share_url_complete env status data work_data w =
     (let w =
        (if status = napi_cancelled
         then REJECT_IF_CANCELLED (JoinShareUrlData.deferred work_data) w
         else
           (case UplinkStringResult.error (JoinShareUrlData.result work_data) of
              Some e \<Rightarrow>
                let (err, w) = create_typed_error env (UplinkError.code e) (UplinkError.message e) w;
                    w = napi_reject_deferred (JoinShareUrlData.deferred work_data) (Some err) w
                in uplink_free_error e w
            | None \<Rightarrow>
                let url = napi_create_string_utf8
                            (case c_chars (UplinkStringResult.string' (JoinShareUrlData.result work_data)) of Some s \<Rightarrow> s | None \<Rightarrow> []);
                    w = (case UplinkStringResult.string' (JoinShareUrlData.result work_data) of
                           Some (a, cs) \<Rightarrow> free a w
                         | None \<Rightarrow> w)
                in napi_resolve_deferred (JoinShareUrlData.deferred work_data) (Some url) w));
          w = free (JoinShareUrlData.base_url work_data) w;
          w = free (JoinShareUrlData.access_key_id work_data) w;
          w = free (JoinShareUrlData.bucket work_data) w;
          w = free (JoinShareUrlData.key work_data) w;
          w = napi_delete_async_work (JoinShareUrlData.work work_data) w
      in free data w)"

subsection \<open>encryption_types.h, encryption_complete.c\<close>

record DeriveKeyData =
  passphrase :: ptr
  salt :: ptr
  salt_length :: size_t
  result :: UplinkEncryptionKeyResult
  deferred :: napi_deferred
  work :: napi_async_work

definition derive_key_complete ::
  "napi_env \<Rightarrow> napi_status \<Rightarrow> ptr \<Rightarrow> DeriveKeyData \<Rightarrow> world \<Rightarrow> fault + world" where
  "derive_key_complete env status data work_data w =
     (case
        (if status = napi_cancelled
         then Inr (REJECT_IF_CANCELLED (DeriveKeyData.deferred work_data) w)
         else
           (case UplinkEncryptionKeyResult.error (DeriveKeyData.result work_data) of
              Some e \<Rightarrow>
                Inr (let (err, w) = create_typed_error env (UplinkError.code e) (UplinkError.message e) w;
                         w = napi_reject_deferred (DeriveKeyData.deferred work_data) (Some err) w
                     in uplink_free_error e w)
            | None \<Rightarrow>
                (case UplinkEncryptionKeyResult.encryption_key (DeriveKeyData.result work_data) of
                   None \<Rightarrow> Inl NullDereference
                 | Some p \<Rightarrow>
                     let (key_handle, w) =
                           create_handle_external env (UplinkHandle.handle' p) HANDLE_TYPE_ENCRYPTION_KEY (UplinkHandle.addr p) None w
                     in Inr (napi_resolve_deferred (DeriveKeyData.deferred work_data) (key_handle) w))))
      of
        Inl f \<Rightarrow> Inl f
      | Inr w \<Rightarrow>
          let w = free (DeriveKeyData.passphrase work_data) w;
              w = free (DeriveKeyData.salt work_data) w;
              w = napi_delete_async_work (DeriveKeyData.work work_data) w
          in Inr (free data w))"

subsection \<open>debug_ops.c\<close>

text \<open>\<^verbatim>\<open>GoUint8\<close> is an 8-bit word. The message of \<^verbatim>\<open>TestThrowData\<close> is read and freed.
  The two completion routines test the status themselves instead of using the macro.\<close>

record UniverseEmptyData =
  result :: "8 word"
  deferred :: napi_deferred
  work :: napi_async_work

record TestThrowData =
  error_code :: int32_t
  error_message :: "c_string option"
  deferred :: napi_deferred
  work :: napi_async_work

definition universe_empty_complete ::
  "napi_env \<Rightarrow> napi_status \<Rightarrow> ptr \<Rightarrow> UniverseEmptyData \<Rightarrow> world \<Rightarrow> world" where
  "universe_empty_complete env status data work_data w =
     (let w =
        (if status = napi_cancelled
         then (let err = napi_create_error ''Operation cancelled''
               in napi_reject_deferred (UniverseEmptyData.deferred work_data) (Some err) w)
         else
           napi_resolve_deferred (UniverseEmptyData.deferred work_data) (Some (JsBoolean (UniverseEmptyData.result work_data \<noteq> 0))) w);
          w = napi_delete_async_work (UniverseEmptyData.work work_data) w
      in free data w)"

definition test_throw_complete ::
  "napi_env \<Rightarrow> napi_status \<Rightarrow> ptr \<Rightarrow> TestThrowData \<Rightarrow> world \<Rightarrow> world" where
  "test_throw_complete env status data work_data w =
     (let w =
        (if status = napi_cancelled
         then (let err = napi_create_error ''Operation cancelled''
               in napi_reject_deferred (TestThrowData.deferred work_data) (Some err) w)
         else
           let (typed_error, w) = create_typed_error env (TestThrowData.error_code work_data)
                                    (c_chars (TestThrowData.error_message work_data)) w
           in napi_reject_deferred (TestThrowData.deferred work_data) (Some typed_error) w);
          w = free (c_addr (TestThrowData.error_message work_data)) w;
          w = napi_delete_async_work (TestThrowData.work work_data) w
      in free data w)"

section \<open>Reading a run\<close>

text \<open>The effects a step added to the trace; the calls \<^verbatim>\<open>free\<close> makes for a list of
  pointers (none for a null one); and the classifications used to state the claims.\<close>

definition effects_of :: "world \<Rightarrow> world \<Rightarrow> effect list" where
  "effects_of w w' = drop (length (trace w)) (trace w')"

definition frees :: "ptr list \<Rightarrow> effect list" where
  "frees ps = map Free (filter (\<lambda>p. p \<noteq> NULL) ps)"



text \<open>The release routine of each handle kind that owns a native resource, applied to
  the wrapper's native pointer; the iterator kinds own none.\<close>

fun release_routine :: "HandleType \<Rightarrow> (ptr \<Rightarrow> effect) option" where
  "release_routine HANDLE_TYPE_ACCESS = Some (\<lambda>p. Uplink_free_access_result p None)"
| "release_routine HANDLE_TYPE_PROJECT = Some (\<lambda>p. Uplink_free_project_result p None)"
| "release_routine HANDLE_TYPE_DOWNLOAD = Some (\<lambda>p. Uplink_free_download_result p None)"
| "release_routine HANDLE_TYPE_UPLOAD = Some (\<lambda>p. Uplink_free_upload_result p None)"
| "release_routine HANDLE_TYPE_ENCRYPTION_KEY = Some (\<lambda>p. Uplink_free_encryption_key_result p None)"
| "release_routine HANDLE_TYPE_PART_UPLOAD = Some (\<lambda>p. Uplink_free_part_upload_result p None)"
| "release_routine t = None"



section \<open>The tasks\<close>

text \<open>
  A task is a payload together with the completion routine registered for it; there is
  one constructor for each of the 65 completion routines of the binding. \<open>complete\<close> is
  the call the runtime makes on the main thread when the work item has finished or was
  cancelled.
\<close>

datatype task =
     CreateBucket BucketOpData
  |  EnsureBucket BucketOpData
  |  StatBucket BucketOpData
  |  DeleteBucket BucketOpData
  |  DeleteBucketWithObjects BucketOpData
  |  ListBucketsCreate ListBucketsCreateData
  |  BucketIteratorNext BucketIteratorNextData
  |  BucketIteratorItem BucketIteratorItemData
  |  BucketIteratorErr BucketIteratorErrData
  |  FreeBucketIterator FreeBucketIteratorData
  |  ParseAccess ParseAccessData
  |  RequestAccess RequestAccessData
  |  ConfigRequestAccess ConfigRequestAccessData
  |  AccessSatellite AccessStringData
  |  AccessSerialize AccessStringData
  |  AccessShare AccessShareData
  |  OverrideEncryption OverrideEncryptionData
  |  OpenProject OpenProjectData
  |  ConfigOpenProject ConfigOpenProjectData
  |  CloseProject CloseProjectData
  |  RevokeAccess RevokeAccessData
  |  StatObject ObjectOpData
  |  DeleteObject ObjectOpData
  |  ListObjectsCreate ListObjectsCreateData
  |  ObjectIteratorNext ObjectIteratorNextData
  |  ObjectIteratorItem ObjectIteratorItemData
  |  ObjectIteratorErr ObjectIteratorErrData
  |  FreeObjectIterator FreeObjectIteratorData
  |  CopyObject CopyMoveObjectData
  |  MoveObject CopyMoveObjectData
  |  UpdateObjectMetadata UpdateMetadataData
  |  UploadObject UploadObjectData
  |  UploadWrite UploadWriteData
  |  UploadCommit UploadFinalizeData
  |  UploadAbort UploadFinalizeData
  |  UploadSetMetadata UploadMetadataData
  |  UploadInfo UploadInfoData
  |  DownloadObject DownloadObjectData
  |  DownloadRead DownloadReadData
  |  DownloadInfo DownloadInfoData
  |  CloseDownload CloseDownloadData
  |  BeginUpload BeginUploadData
  |  CommitUpload CommitUploadData
  |  AbortUpload AbortUploadData
  |  UploadPart UploadPartData
  |  PartUploadWrite PartUploadWriteData
  |  PartUploadCommit PartUploadOpData
  |  PartUploadAbort PartUploadOpData
  |  PartUploadSetEtag PartUploadSetEtagData
  |  PartUploadInfo PartUploadInfoData
  |  ListUploadPartsCreate ListUploadPartsCreateData
  |  PartIteratorNext PartIteratorNextData
  |  PartIteratorItem PartIteratorItemData
  |  PartIteratorErr PartIteratorErrData
  |  FreePartIterator FreePartIteratorData
  |  ListUploadsCreate ListUploadsCreateData
  |  UploadIteratorNext UploadIteratorNextData
  |  UploadIteratorItem UploadIteratorItemData
  |  UploadIteratorErr UploadIteratorErrData
  |  FreeUploadIterator FreeUploadIteratorData
  |  RegisterAccess RegisterAccessData
  |  JoinShareUrl JoinShareUrlData
  |  DeriveKey DeriveKeyData
  |  UniverseEmpty UniverseEmptyData
  |  TestThrow TestThrowData

primrec complete :: "napi_env \<Rightarrow> napi_status \<Rightarrow> ptr \<Rightarrow> task \<Rightarrow> world \<Rightarrow> fault + world" where
  "complete env status data (CreateBucket d) w = Inr (create_bucket_complete env status data d w)"
| "complete env status data (EnsureBucket d) w = Inr (ensure_bucket_complete env status data d w)"
| "complete env status data (StatBucket d) w = Inr (stat_bucket_complete env status data d w)"
| "complete env status data (DeleteBucket d) w = Inr (delete_bucket_complete env status data d w)"
| "complete env status data (DeleteBucketWithObjects d) w = Inr (delete_bucket_with_objects_complete env status data d w)"
| "complete env status data (ListBucketsCreate d) w = Inr (list_buckets_create_complete env status data d w)"
| "complete env status data (BucketIteratorNext d) w = Inr (bucket_iterator_next_complete env status data d w)"
| "complete env status data (BucketIteratorItem d) w = Inr (bucket_iterator_item_complete env status data d w)"
| "complete env status data (BucketIteratorErr d) w = Inr (bucket_iterator_err_complete env status data d w)"
| "complete env status data (FreeBucketIterator d) w = Inr (free_bucket_iterator_complete env status data d w)"
| "complete env status data (ParseAccess d) w = parse_access_complete env status data d w"
| "complete env status data (RequestAccess d) w = request_access_complete env status data d w"
| "complete env status data (ConfigRequestAccess d) w = config_request_access_complete env status data d w"
| "complete env status data (AccessSatellite d) w = Inr (access_satellite_complete env status data d w)"
| "complete env status data (AccessSerialize d) w = Inr (access_serialize_complete env status data d w)"
| "complete env status data (AccessShare d) w = access_share_complete env status data d w"
| "complete env status data (OverrideEncryption d) w = Inr (override_encryption_complete env status data d w)"
| "complete env status data (OpenProject d) w = open_project_complete env status data d w"
| "complete env status data (ConfigOpenProject d) w = config_open_project_complete env status data d w"
| "complete env status data (CloseProject d) w = Inr (close_project_complete env status data d w)"
| "complete env status data (RevokeAccess d) w = Inr (revoke_access_complete env status data d w)"
| "complete env status data (StatObject d) w = Inr (stat_object_complete env status data d w)"
| "complete env status data (DeleteObject d) w = Inr (delete_object_complete env status data d w)"
| "complete env status data (ListObjectsCreate d) w = Inr (list_objects_create_complete env status data d w)"
| "complete env status data (ObjectIteratorNext d) w = Inr (object_iterator_next_complete env status data d w)"
| "complete env status data (ObjectIteratorItem d) w = Inr (object_iterator_item_complete env status data d w)"
| "complete env status data (ObjectIteratorErr d) w = Inr (object_iterator_err_complete env status data d w)"
| "complete env status data (FreeObjectIterator d) w = Inr (free_object_iterator_complete env status data d w)"
| "complete env status data (CopyObject d) w = Inr (copy_object_complete env status data d w)"
| "complete env status data (MoveObject d) w = Inr (move_object_complete env status data d w)"
| "complete env status data (UpdateObjectMetadata d) w = Inr (update_object_metadata_complete env status data d w)"
| "complete env status data (UploadObject d) w = upload_object_complete env status data d w"
| "complete env status data (UploadWrite d) w = Inr (upload_write_complete env status data d w)"
| "complete env status data (UploadCommit d) w = Inr (upload_commit_complete env status data d w)"
| "complete env status data (UploadAbort d) w = Inr (upload_abort_complete env status data d w)"
| "complete env status data (UploadSetMetadata d) w = Inr (upload_set_metadata_complete env status data d w)"
| "complete env status data (UploadInfo d) w = Inr (upload_info_complete env status data d w)"
| "complete env status data (DownloadObject d) w = download_object_complete env status data d w"
| "complete env status data (DownloadRead d) w = Inr (download_read_complete env status data d w)"
| "complete env status data (DownloadInfo d) w = Inr (download_info_complete env status data d w)"
| "complete env status data (CloseDownload d) w = Inr (close_download_complete env status data d w)"
| "complete env status data (BeginUpload d) w = Inr (begin_upload_complete env status data d w)"
| "complete env status data (CommitUpload d) w = Inr (commit_upload_complete env status data d w)"
| "complete env status data (AbortUpload d) w = Inr (abort_upload_complete env status data d w)"
| "complete env status data (UploadPart d) w = upload_part_complete env status data d w"
| "complete env status data (PartUploadWrite d) w = Inr (part_upload_write_complete env status data d w)"
| "complete env status data (PartUploadCommit d) w = Inr (part_upload_commit_complete env status data d w)"
| "complete env status data (PartUploadAbort d) w = Inr (part_upload_abort_complete env status data d w)"
| "complete env status data (PartUploadSetEtag d) w = Inr (part_upload_set_etag_complete env status data d w)"
| "complete env status data (PartUploadInfo d) w = Inr (part_upload_info_complete env status data d w)"
| "complete env status data (ListUploadPartsCreate d) w = Inr (list_upload_parts_create_complete env status data d w)"
| "complete env status data (PartIteratorNext d) w = Inr (part_iterator_next_complete env status data d w)"
| "complete env status data (PartIteratorItem d) w = Inr (part_iterator_item_complete env status data d w)"
| "complete env status data (PartIteratorErr d) w = Inr (part_iterator_err_complete env status data d w)"
| "complete env status data (FreePartIterator d) w = Inr (free_part_iterator_complete env status data d w)"
| "complete env status data (ListUploadsCreate d) w = Inr (list_uploads_create_complete env status data d w)"
| "complete env status data (UploadIteratorNext d) w = Inr (upload_iterator_next_complete env status data d w)"
| "complete env status data (UploadIteratorItem d) w = Inr (upload_iterator_item_complete env status data d w)"
| "complete env status data (UploadIteratorErr d) w = Inr (upload_iterator_err_complete env status data d w)"
| "complete env status data (FreeUploadIterator d) w = Inr (free_upload_iterator_complete env status data d w)"
| "complete env status data (RegisterAccess d) w = register_access_complete env status data d w"
| "complete env status data (JoinShareUrl d) w = Inr (join_share_url_complete env status data d w)"
| "complete env status data (DeriveKey d) w = derive_key_complete env status data d w"
| "complete env status data (UniverseEmpty d) w = Inr (universe_empty_complete env status data d w)"
| "complete env status data (TestThrow d) w = Inr (test_throw_complete env status data d w)"








section \<open>Example environments, worlds and payloads\<close>

text \<open>An environment in which every allocation and every N-API call succeeds, the
  script and its factory run without throwing, and a base constructor other than the
  built-in \<^verbatim>\<open>Error\<close> returns without adding a property.\<close>

definition env_ok :: napi_env where
  "env_ok =
     \<lparr>malloc_wrapper = 0x1000,
      create_external_status = napi_ok,
      get_reference_value_status = napi_ok,
      create_reference_status = (\<lambda>n. napi_ok),
      get_global_status = napi_ok,
      get_global_Error_status = napi_ok,
      create_string_status = napi_ok,
      run_script_throws = None,
      call_factory_throws = (\<lambda>b. None),
      global_Error = JsFunction ''Error'',
      construct_base = (\<lambda>b m. Inr []),
      captureStackTrace = (\<lambda>b. No_captureStackTrace),
      to_string = (\<lambda>v. Inr ''[object Object]''),
      calloc_work_data = 0x3000,
      create_promise_deferred = 0x4000,
      create_async_work = 0x5000\<rparr>"

text \<open>The same environment with a base constructor that throws the string
  \<^verbatim>\<open>boom\<close> whenever it is called, as
  \<^verbatim>\<open>function Bad() { throw 'boom'; }\<close> does.\<close>

definition env_throwing_base :: napi_env where
  "env_throwing_base = env_ok\<lparr>construct_base := (\<lambda>b m. Inl (ThrownValue (JsString ''boom'')))\<rparr>"

text \<open>Two calls of \<^verbatim>\<open>freeBucketIterator\<close> with the same arguments, each followed to
  the settlement of its promise.\<close>

definition free_bucket_iterator_twice :: "napi_env \<Rightarrow> js_value list \<Rightarrow> world \<Rightarrow> fault + world" where
  "free_bucket_iterator_twice env argv w =
     (case free_bucket_iterator_call env False argv w of
        Inl f \<Rightarrow> Inl f
      | Inr w' \<Rightarrow> free_bucket_iterator_call env False argv w')"

text \<open>A world holding one Access handle: id 7, descriptor at \<open>0x2000\<close>, wrapper at
  \<open>0x1000\<close>; and the same world after its finalizer has run once.\<close>

definition access_handle_world :: world where
  "access_handle_world =
     snd (create_handle_external env_ok 7 HANDLE_TYPE_ACCESS 0x2000 None initial_world)"

definition access_handle_world_finalized :: world where
  "access_handle_world_finalized =
     access_handle_world\<lparr>wrappers := Map.empty,
                          trace := [Uplink_free_access_result 0x2000 None, Free 0x1000]\<rparr>"

text \<open>A world holding one BucketIterator handle: the iterator pointer 5 as its id, no
  descriptor, wrapper at \<open>0x1000\<close>.\<close>

definition bucket_iterator_world :: world where
  "bucket_iterator_world =
     snd (create_handle_external env_ok 5 HANDLE_TYPE_BUCKET_ITERATOR NULL None initial_world)"

text \<open>
  The shape every reachable registry has: the codes and names are those of the static
  table (no code writes them), and every reference is null while \<^verbatim>\<open>g_registered\<close> is 0
  (references are written only by a registration, which sets the flag, and nulled by
  the cleanup, which clears it).
\<close>

definition registry_wf :: "world \<Rightarrow> bool" where
  "registry_wf w =
     (map (\<lambda>entry. (code entry, name entry)) (error_registry w)
        = map (\<lambda>entry. (code entry, name entry)) initial_error_registry
      \<and> (g_registered w \<or> list_all (\<lambda>entry. constructor_ref entry = None) (error_registry w)))"

text \<open>The argument \<open>create_typed_error\<close> passes to the constructor.\<close>

definition details_arg :: "string option \<Rightarrow> js_value" where
  "details_arg msg = (case msg of Some m \<Rightarrow> JsString m | None \<Rightarrow> JsUndefined)"

text \<open>The class the script declares under a name, for the base constructor \<open>ErrorBase\<close>.\<close>

definition error_class :: "js_value \<Rightarrow> string \<Rightarrow> js_value" where
  "error_class ErrorBase n =
     (if n = ''StorjError'' then StorjError_class ErrorBase
      else JsClass n (StorjError_class ErrorBase))"


definition bad_base_world :: world where
  "bad_base_world = snd (napi_init_error_classes env_throwing_base [JsFunction ''Bad''] initial_world)"







definition example_bucket_data :: BucketOpData where
  "example_bucket_data =
     \<lparr>BucketOpData.project_handle = 1, BucketOpData.bucket_name = 0x6000,
      BucketOpData.result =
        \<lparr>UplinkBucketResult.bucket = Some \<lparr>UplinkBucket.name = ''photos'', UplinkBucket.created = 5\<rparr>,
         UplinkBucketResult.error = None\<rparr>,
      BucketOpData.deferred = 0x4000, BucketOpData.work = 0x5000\<rparr>"


section \<open>The trace of each call\<close>





























section \<open>A run written as one emission\<close>

lemma emit_emits: "emit e w = emits [e] w"
  by (simp add: emit_def emits_def)


lemma emits_Nil: "emits [] w = w"
  by (simp add: emits_def)

lemma free_emits: "free p w = emits (frees [p]) w"
  by (simp add: free_def frees_def emit_def emits_def)











section \<open>Handles: round trip, kind check, zero id, release\<close>

text \<open>
  C1. A handle created by \<open>create_handle_external\<close> for a non-zero native id \<open>n\<close>, a
  kind \<open>K\<close> and any descriptor pointer extracts, with expected kind \<open>K\<close>, to \<open>n\<close> with
  status \<^verbatim>\<open>napi_ok\<close>; with any other expected kind the extraction returns
  \<^verbatim>\<open>napi_invalid_arg\<close> and writes no id.
\<close>

theorem handle_round_trip_and_kind_check:
  assumes "create_handle_external env n K p destructor w = (Some v, w')" and "n \<noteq> 0"
  shows "extract_handle w' v K = Inr (napi_ok, Some n)
       \<and> (\<forall>K'. K' \<noteq> K \<longrightarrow> extract_handle w' v K' = Inr (napi_invalid_arg, None))"
  using assms
  by (auto simp: create_handle_external_def extract_handle_def Let_def napi_throw_error_def
           free_def emit_def
           split: if_splits)

theorem handle_round_trip_and_kind_check_witness:
  "(7::size_t) \<noteq> 0
   \<and> extract_handle
        (snd (create_handle_external env_ok 7 HANDLE_TYPE_PROJECT 0x2000 None initial_world))
        (JsExternal 0x1000) HANDLE_TYPE_PROJECT = Inr (napi_ok, Some 7)
   \<and> extract_handle
        (snd (create_handle_external env_ok 7 HANDLE_TYPE_PROJECT 0x2000 None initial_world))
        (JsExternal 0x1000) HANDLE_TYPE_ACCESS = Inr (napi_invalid_arg, None)"
proof -
  have created:
    "create_handle_external env_ok 7 HANDLE_TYPE_PROJECT 0x2000 None initial_world =
       (Some (JsExternal 0x1000),
        snd (create_handle_external env_ok 7 HANDLE_TYPE_PROJECT 0x2000 None initial_world))"
    by (simp add: create_handle_external_def napi_create_external_status_def env_ok_def
          initial_world_def Let_def)
  have nonzero: "(7::size_t) \<noteq> 0" by simp
  from handle_round_trip_and_kind_check [OF created nonzero] show ?thesis by simp
qed

text \<open>
  C6. A wrapper whose stored native id is 0 never extracts: whatever the expected kind,
  the kind of the wrapper itself included, \<open>extract_handle\<close> returns
  \<^verbatim>\<open>napi_invalid_arg\<close> and writes no id; \<open>validate_handle\<close> rejects the id as well.
\<close>

theorem zero_handle_never_valid:
  assumes "wrappers w a = Some wrapper" and "handle wrapper = 0"
  shows "extract_handle w (JsExternal a) K = Inr (napi_invalid_arg, None)
       \<and> extract_handle w (JsExternal a) (type wrapper) = Inr (napi_invalid_arg, None)
       \<and> validate_handle (handle wrapper) = 0"
  using assms by (simp add: extract_handle_def validate_handle_def)

theorem zero_handle_never_valid_witness:
  "extract_handle
      (snd (create_handle_external env_ok 0 HANDLE_TYPE_UPLOAD 0x2000 None initial_world))
      (JsExternal 0x1000) HANDLE_TYPE_UPLOAD = Inr (napi_invalid_arg, None)
   \<and> validate_handle 0 = 0"
proof -
  have stored:
    "wrappers (snd (create_handle_external env_ok 0 HANDLE_TYPE_UPLOAD 0x2000 None initial_world))
       0x1000 = Some \<lparr>type = HANDLE_TYPE_UPLOAD, handle = 0, native_ptr = 0x2000\<rparr>"
    by (simp add: create_handle_external_def napi_create_external_status_def env_ok_def
          initial_world_def Let_def)
  have zero: "handle \<lparr>type = HANDLE_TYPE_UPLOAD, handle = 0, native_ptr = 0x2000\<rparr> = 0"
    by simp
  from zero_handle_never_valid [OF stored zero, of HANDLE_TYPE_UPLOAD] show ?thesis by simp
qed

lemma free_native_resource_emits:
  "free_native_resource t p w =
     emits (case release_routine t of Some f \<Rightarrow> [f p] | None \<Rightarrow> []) w"
  by (cases t) (simp_all add: emit_emits emits_Nil)

text \<open>
  C5, as the claim states it, fails: the release path never writes the wrapper's native
  pointer. After the finalizer has run once on the Access handle of
  \<open>access_handle_world\<close>, the wrapper is not there with a null pointer; it has been
  passed to \<^verbatim>\<open>free\<close>.
\<close>

theorem release_nulls_pointer_counterexample:
  "handle_destructor 0x1000 access_handle_world = Inr access_handle_world_finalized
   \<and> wrappers access_handle_world 0x1000
       = Some \<lparr>type = HANDLE_TYPE_ACCESS, handle = 7, native_ptr = 0x2000\<rparr>
   \<and> wrappers access_handle_world_finalized 0x1000 = None"
  by (simp add: handle_destructor_def access_handle_world_def access_handle_world_finalized_def
        create_handle_external_def napi_create_external_status_def env_ok_def initial_world_def
        Let_def free_def emit_def)

text \<open>
  C5, amended. The release path does not null the owned pointer. One run of
  \<open>handle_destructor\<close> on an allocated wrapper does exactly this, in this order: when the
  native pointer is non-null and the wrapper's kind owns a native resource, one call of
  the kind's own release routine on the native pointer; then \<^verbatim>\<open>free\<close> of the wrapper,
  which is no longer allocated afterwards. Nothing is left for a second run to be
  guarded by: the wrapper it would read has been freed.
\<close>

theorem release_once_then_wrapper_freed:
  assumes "data \<noteq> NULL" and "wrappers w data = Some wrapper"
  shows "handle_destructor data w =
           Inr (emits ((case release_routine (type wrapper) of
                          Some f \<Rightarrow> if native_ptr wrapper \<noteq> NULL then [f (native_ptr wrapper)] else []
                        | None \<Rightarrow> [])
                       @ [Free data])
                  (w\<lparr>wrappers := (wrappers w)(data := None)\<rparr>))
       \<and> (\<forall>w'. handle_destructor data w = Inr w' \<longrightarrow>
             wrappers w' data = None \<and> handle_destructor data w' = Inl (DanglingWrapper data))"
proof -
  have run: "handle_destructor data w =
           Inr (emits ((case release_routine (type wrapper) of
                          Some f \<Rightarrow> if native_ptr wrapper \<noteq> NULL then [f (native_ptr wrapper)] else []
                        | None \<Rightarrow> [])
                       @ [Free data])
                  (w\<lparr>wrappers := (wrappers w)(data := None)\<rparr>))"
    using assms
    by (simp add: handle_destructor_def Let_def free_native_resource_emits free_emits
          emits_def frees_def split: option.splits)
  have again: "handle_destructor data (emits es (w\<lparr>wrappers := (wrappers w)(data := None)\<rparr>))
                 = Inl (DanglingWrapper data)" for es
    using assms(1) by (simp add: handle_destructor_def emits_def)
  from run again show ?thesis by (simp add: emits_def)
qed

theorem release_once_then_wrapper_freed_witness:
  "handle_destructor 0x1000 access_handle_world =
     Inr (emits [Uplink_free_access_result 0x2000 None, Free 0x1000]
            (access_handle_world\<lparr>wrappers := (wrappers access_handle_world)(0x1000 := None)\<rparr>))
   \<and> handle_destructor 0x1000
        (emits [Uplink_free_access_result 0x2000 None, Free 0x1000]
            (access_handle_world\<lparr>wrappers := (wrappers access_handle_world)(0x1000 := None)\<rparr>))
       = Inl (DanglingWrapper 0x1000)"
proof -
  have live: "(0x1000::ptr) \<noteq> NULL" by simp
  have stored:
    "wrappers access_handle_world 0x1000 =
       Some \<lparr>type = HANDLE_TYPE_ACCESS, handle = 7, native_ptr = 0x2000\<rparr>"
    by (simp add: access_handle_world_def create_handle_external_def
          napi_create_external_status_def env_ok_def initial_world_def Let_def)
  from release_once_then_wrapper_freed [OF live stored] show ?thesis by simp
qed

lemma extract_handle_wrappers:
  "wrappers w' = wrappers w \<Longrightarrow> extract_handle w' v t = extract_handle w v t"
  by (simp add: extract_handle_def split: prod.splits)

text \<open>
  C7, as the claim states it, fails: nothing in the free path touches the wrapper.
  Freeing the BucketIterator handle of \<open>bucket_iterator_world\<close> twice throws nothing,
  and the native free routine is called on the iterator pointer both times.
\<close>

theorem double_free_detected_counterexample:
  "map_sum id trace (free_bucket_iterator_twice env_ok [JsExternal 0x1000] bucket_iterator_world)
     = Inr [Uplink_free_bucket_iterator 5, Napi_resolve_deferred 0x4000 JsUndefined,
            Napi_delete_async_work 0x5000, Free 0x3000,
            Uplink_free_bucket_iterator 5, Napi_resolve_deferred 0x4000 JsUndefined,
            Napi_delete_async_work 0x5000, Free 0x3000]
   \<and> map_sum id pending_exception
        (free_bucket_iterator_twice env_ok [JsExternal 0x1000] bucket_iterator_world) = Inr None"
  by (simp add: free_bucket_iterator_twice_def free_bucket_iterator_call_def free_bucket_iterator_def
        bucket_iterator_world_def create_handle_external_def napi_create_external_status_def
        env_ok_def initial_world_def Let_def
        extract_handle_def napi_async_run_def free_bucket_iterator_execute_def
        free_bucket_iterator_complete_def napi_create_promise_def napi_resolve_deferred_def
        napi_delete_async_work_def free_def emit_def emits_def)


text \<open>
  C7, amended. \<^verbatim>\<open>freeBucketIterator\<close> does not invalidate the handle it frees. When a
  handle value extracts as a BucketIterator with id \<open>h\<close>, a first free runs to
  completion, the same value extracts to \<open>h\<close> again afterwards, a second free runs to
  completion as well, the two calls together invoke the native free routine on \<open>h\<close>
  twice, and no exception is thrown.
\<close>

theorem double_free_not_detected:
  assumes "extract_handle w (arg argv 0) HANDLE_TYPE_BUCKET_ITERATOR = Inr (napi_ok, Some h)"
    and "argv \<noteq> []" and "calloc_work_data env \<noteq> NULL"
  shows "\<exists>w1 w2. free_bucket_iterator_call env False argv w = Inr w1
           \<and> extract_handle w1 (arg argv 0) HANDLE_TYPE_BUCKET_ITERATOR = Inr (napi_ok, Some h)
           \<and> free_bucket_iterator_call env False argv w1 = Inr w2
           \<and> count_list (effects_of w w2) (Uplink_free_bucket_iterator h) = 2
           \<and> pending_exception w2 = pending_exception w"
proof -
  have len: "\<not> length argv < 1" using assms(2) by (cases argv) simp_all
  define settle where "settle =
     (if pending_exception w = None
      then [Napi_resolve_deferred (create_promise_deferred env) JsUndefined] else [])"
  define once where "once = Uplink_free_bucket_iterator h # settle
      @ [Napi_delete_async_work (create_async_work env), Free (calloc_work_data env)]"
  have call: "free_bucket_iterator_call env False argv v = Inr (emits once v)"
    if "extract_handle v (arg argv 0) HANDLE_TYPE_BUCKET_ITERATOR = Inr (napi_ok, Some h)"
      and "pending_exception v = pending_exception w" for v
    using that assms(3) len
    by (simp add: free_bucket_iterator_call_def free_bucket_iterator_def napi_async_run_def
        free_bucket_iterator_execute_def free_bucket_iterator_complete_def
        napi_create_promise_def napi_resolve_deferred_def napi_delete_async_work_def free_def
        emit_def emits_def once_def settle_def Let_def)
  have c1: "free_bucket_iterator_call env False argv w = Inr (emits once w)"
    using assms(1) by (simp add: call)
  have e1: "extract_handle (emits once w) (arg argv 0) HANDLE_TYPE_BUCKET_ITERATOR
              = Inr (napi_ok, Some h)"
    using assms(1) extract_handle_wrappers [of "emits once w" w] by (simp add: emits_def)
  have p1: "pending_exception (emits once w) = pending_exception w"
    by (simp add: emits_def)
  have c2: "free_bucket_iterator_call env False argv (emits once w) = Inr (emits once (emits once w))"
    using e1 p1 by (rule call)
  have not_settle: "count_list settle (Uplink_free_bucket_iterator h) = 0"
    by (simp add: settle_def)
  have t: "count_list (effects_of w (emits once (emits once w))) (Uplink_free_bucket_iterator h) = 2"
    by (simp add: emits_def effects_of_def once_def not_settle)
  have p: "pending_exception (emits once (emits once w)) = pending_exception w"
    by (simp add: emits_def)
  from c1 e1 c2 t p show ?thesis by blast
qed

theorem double_free_not_detected_witness:
  "\<exists>w1 w2. free_bucket_iterator_call env_ok False [JsExternal 0x1000] bucket_iterator_world = Inr w1
       \<and> extract_handle w1 (JsExternal 0x1000) HANDLE_TYPE_BUCKET_ITERATOR = Inr (napi_ok, Some 5)
       \<and> free_bucket_iterator_call env_ok False [JsExternal 0x1000] w1 = Inr w2
       \<and> count_list (effects_of bucket_iterator_world w2) (Uplink_free_bucket_iterator 5) = 2
       \<and> pending_exception w2 = None"
proof -
  have extracted:
    "extract_handle bucket_iterator_world (arg [JsExternal 0x1000] 0) HANDLE_TYPE_BUCKET_ITERATOR
       = Inr (napi_ok, Some 5)"
    by (simp add: extract_handle_def bucket_iterator_world_def create_handle_external_def
          napi_create_external_status_def env_ok_def initial_world_def Let_def)
  have given: "[JsExternal 0x1000] \<noteq> []" by simp
  have allocated: "calloc_work_data env_ok \<noteq> NULL" by (simp add: env_ok_def)
  have quiet: "pending_exception bucket_iterator_world = None"
    by (simp add: bucket_iterator_world_def create_handle_external_def
          napi_create_external_status_def env_ok_def initial_world_def Let_def)
  from double_free_not_detected [OF extracted given allocated] quiet show ?thesis by simp
qed

section \<open>Every completion routine ends in its cleanup block\<close>



































































































































section \<open>The completion routines as one function of the task\<close>





section \<open>Completion: cleanup and cancellation\<close>







section \<open>Error taxonomy\<close>



lemma static_pairs:
  "map (\<lambda>entry. (code entry, name entry)) initial_error_registry =
    [(0, ''StorjError''), (0x02, ''InternalError''), (0x03, ''CanceledError''),
     (0x04, ''InvalidHandleError''), (0x05, ''TooManyRequestsError''),
     (0x06, ''BandwidthLimitExceededError''), (0x07, ''StorageLimitExceededError''),
     (0x08, ''SegmentsLimitExceededError''), (0x09, ''PermissionDeniedError''),
     (0x10, ''BucketNameInvalidError''), (0x11, ''BucketAlreadyExistsError''),
     (0x12, ''BucketNotEmptyError''), (0x13, ''BucketNotFoundError''),
     (0x20, ''ObjectKeyInvalidError''), (0x21, ''ObjectNotFoundError''),
     (0x22, ''UploadDoneError''), (0x30, ''EdgeAuthDialFailedError''),
     (0x31, ''EdgeRegisterAccessFailedError'')]"
  by (simp add: initial_error_registry_def UPLINK_ERROR_defs)

lemma static_codes_distinct:
  "distinct (map code initial_error_registry)"
  by (simp add: initial_error_registry_def UPLINK_ERROR_defs)

lemma factory_props:
  "error_classes_factory base = JsObject (JsFunction ''Object'')
     [(''StorjError'', StorjError_class base),
      (''InternalError'', JsClass ''InternalError'' (StorjError_class base)),
      (''CanceledError'', JsClass ''CanceledError'' (StorjError_class base)),
      (''InvalidHandleError'', JsClass ''InvalidHandleError'' (StorjError_class base)),
      (''TooManyRequestsError'', JsClass ''TooManyRequestsError'' (StorjError_class base)),
      (''BandwidthLimitExceededError'', JsClass ''BandwidthLimitExceededError'' (StorjError_class base)),
      (''StorageLimitExceededError'', JsClass ''StorageLimitExceededError'' (StorjError_class base)),
      (''SegmentsLimitExceededError'', JsClass ''SegmentsLimitExceededError'' (StorjError_class base)),
      (''PermissionDeniedError'', JsClass ''PermissionDeniedError'' (StorjError_class base)),
      (''BucketNameInvalidError'', JsClass ''BucketNameInvalidError'' (StorjError_class base)),
      (''BucketAlreadyExistsError'', JsClass ''BucketAlreadyExistsError'' (StorjError_class base)),
      (''BucketNotEmptyError'', JsClass ''BucketNotEmptyError'' (StorjError_class base)),
      (''BucketNotFoundError'', JsClass ''BucketNotFoundError'' (StorjError_class base)),
      (''ObjectKeyInvalidError'', JsClass ''ObjectKeyInvalidError'' (StorjError_class base)),
      (''ObjectNotFoundError'', JsClass ''ObjectNotFoundError'' (StorjError_class base)),
      (''UploadDoneError'', JsClass ''UploadDoneError'' (StorjError_class base)),
      (''EdgeAuthDialFailedError'', JsClass ''EdgeAuthDialFailedError'' (StorjError_class base)),
      (''EdgeRegisterAccessFailedError'', JsClass ''EdgeRegisterAccessFailedError'' (StorjError_class base))]"
  by (simp add: error_classes_factory_def error_subclasses_def)

lemma factory_lookup:
  assumes "(c, n) \<in> set (map (\<lambda>entry. (code entry, name entry)) initial_error_registry)"
    and "pending_exception w = None"
  shows "napi_get_named_property w (error_classes_factory base) n = (napi_ok, error_class base n)
       \<and> (n = ''StorjError'') = (c = 0)
       \<and> (n \<noteq> ''StorjError'' \<longrightarrow> (\<exists>title. map_of error_subclasses n = Some (title, sint c)))"
proof -
  from assms(1) have
    "(c = 0 \<and> n = ''StorjError'') \<or> (c = 0x02 \<and> n = ''InternalError'') \<or> (c = 0x03 \<and> n = ''CanceledError'')
     \<or> (c = 0x04 \<and> n = ''InvalidHandleError'') \<or> (c = 0x05 \<and> n = ''TooManyRequestsError'')
     \<or> (c = 0x06 \<and> n = ''BandwidthLimitExceededError'') \<or> (c = 0x07 \<and> n = ''StorageLimitExceededError'')
     \<or> (c = 0x08 \<and> n = ''SegmentsLimitExceededError'') \<or> (c = 0x09 \<and> n = ''PermissionDeniedError'')
     \<or> (c = 0x10 \<and> n = ''BucketNameInvalidError'') \<or> (c = 0x11 \<and> n = ''BucketAlreadyExistsError'')
     \<or> (c = 0x12 \<and> n = ''BucketNotEmptyError'') \<or> (c = 0x13 \<and> n = ''BucketNotFoundError'')
     \<or> (c = 0x20 \<and> n = ''ObjectKeyInvalidError'') \<or> (c = 0x21 \<and> n = ''ObjectNotFoundError'')
     \<or> (c = 0x22 \<and> n = ''UploadDoneError'') \<or> (c = 0x30 \<and> n = ''EdgeAuthDialFailedError'')
     \<or> (c = 0x31 \<and> n = ''EdgeRegisterAccessFailedError'')"
    unfolding static_pairs
    by (simp only: set_simps insert_iff empty_iff prod.inject simp_thms)
  then show ?thesis
    using assms(2)
    apply (elim disjE conjE)
    apply (simp_all only:)
    apply (simp_all add: factory_props error_subclasses_def error_class_def
             napi_get_named_property_def)
    done
qed

lemma static_codes:
  "map (\<lambda>e. (code e, name e)) xs = map (\<lambda>e. (code e, name e)) ys \<Longrightarrow> map code xs = map code ys"
  by (induction xs arbitrary: ys) auto


lemma find_null:
  "list_all (\<lambda>e. constructor_ref e = None) es \<Longrightarrow> find_error_constructor_ref es c = None"
  by (induction es) auto

lemma register_all_Cons:
  "snd (register_all env w obj k (a # es)) =
     snd (register_one_error_class env w obj a)
       # snd (register_all env w obj (k + fst (register_one_error_class env w obj a)) es)"
  by (simp split: prod.splits)

lemma register_one_static:
  "code (snd (register_one_error_class env w obj a)) = code a
   \<and> name (snd (register_one_error_class env w obj a)) = name a"
  by (simp add: register_one_error_class_def Let_def split: prod.splits)

lemma register_all_static:
  "map (\<lambda>e. (code e, name e)) (snd (register_all env w obj k es)) = map (\<lambda>e. (code e, name e)) es"
  by (induction es arbitrary: k)
     (simp_all add: register_all_Cons register_one_static del: register_all.simps(2))

lemma cleanup_entries_Cons:
  "snd (cleanup_entries (a # es)) = a\<lparr>constructor_ref := None\<rparr> # snd (cleanup_entries es)"
  by (cases "constructor_ref a") (simp_all split: prod.splits)

lemma cleanup_entries_static:
  "map (\<lambda>e. (code e, name e)) (snd (cleanup_entries es)) = map (\<lambda>e. (code e, name e)) es"
  by (induction es) (simp_all add: cleanup_entries_Cons del: cleanup_entries.simps(2))

lemma cleanup_entries_null:
  "list_all (\<lambda>e. constructor_ref e = None) (snd (cleanup_entries es))"
  by (induction es) (simp_all add: cleanup_entries_Cons del: cleanup_entries.simps(2))

lemma register_one_cases:
  "register_one_error_class env w obj a = (r, a') \<Longrightarrow>
     code a' = code a \<and> name a' = name a
     \<and> (constructor_ref a' = constructor_ref a
        \<or> constructor_ref a' = Some (Ref (snd (napi_get_named_property w obj (name a)))))"
  by (auto simp: register_one_error_class_def Let_def split: prod.splits if_splits)

lemma find_register_all:
  assumes "list_all (\<lambda>e. constructor_ref e = None) es"
    and "find_error_constructor_ref (snd (register_all env w obj k es)) c = Some r"
  shows "\<exists>e\<in>set es. code e = c \<and> r = Ref (snd (napi_get_named_property w obj (name e)))"
  using assms
proof (induction es arbitrary: k)
  case Nil
  then show ?case by simp
next
  case (Cons a es)
  obtain q a' where ra: "register_one_error_class env w obj a = (q, a')"
    by (cases "register_one_error_class env w obj a")
  note one = register_one_cases [OF ra]
  have null_a: "constructor_ref a = None" and null_es: "list_all (\<lambda>e. constructor_ref e = None) es"
    using Cons.prems(1) by simp_all
  have unfold: "snd (register_all env w obj k (a # es)) = a' # snd (register_all env w obj (k + q) es)"
    using ra by (simp split: prod.splits)
  show ?case
  proof (cases "code a' = c \<and> constructor_ref a' \<noteq> None")
    case True
    with Cons.prems(2) unfold have "constructor_ref a' = Some r" by simp
    with one null_a True show ?thesis by auto
  next
    case False
    with Cons.prems(2) unfold
    have "find_error_constructor_ref (snd (register_all env w obj (k + q) es)) c = Some r" by auto
    from Cons.IH [OF null_es this] show ?thesis by auto
  qed
qed

lemma register_all_find:
  assumes "distinct (map code es)" and "e \<in> set es"
    and "napi_get_named_property w obj (name e) = (napi_ok, ctor)"
    and "napi_typeof ctor = napi_function"
    and "create_reference_status env (name e) = napi_ok"
  shows "find_error_constructor_ref (snd (register_all env w obj k es)) (code e) = Some (Ref ctor)"
  using assms
proof (induction es arbitrary: k)
  case Nil
  then show ?case by simp
next
  case (Cons a es)
  show ?case
  proof (cases "a = e")
    case True
    with Cons.prems show ?thesis
      by (simp add: register_all_Cons register_one_error_class_def Let_def
            del: register_all.simps(2))
  next
    case False
    with Cons.prems have mem: "e \<in> set es" and ne: "code a \<noteq> code e" by auto
    have d: "distinct (map code es)" using Cons.prems(1) by simp
    from Cons.IH [OF d mem Cons.prems(3) Cons.prems(4) Cons.prems(5)]
    have "find_error_constructor_ref
            (snd (register_all env w obj (k + fst (register_one_error_class env w obj a)) es)) (code e)
          = Some (Ref ctor)" .
    with ne show ?thesis
      by (simp add: register_all_Cons register_one_static del: register_all.simps(2))
  qed
qed

lemma init_registry:
  assumes "registry_wf w" and "napi_init_error_classes env argv w = (Some obj, w')"
  shows "\<exists>base w3 es0. obj = error_classes_factory base
           \<and> error_registry w' = snd (register_all env w3 obj 0 es0)
           \<and> pending_exception w3 = None
           \<and> list_all (\<lambda>e. constructor_ref e = None) es0
           \<and> map (\<lambda>e. (code e, name e)) es0 = map (\<lambda>e. (code e, name e)) initial_error_registry
           \<and> g_registered w' \<and> registry_wf w' \<and> pending_exception w' = None"
proof -
  define w1 where "w1 = (if g_registered w then error_registry_cleanup w else w)"
  have n1: "list_all (\<lambda>e. constructor_ref e = None) (error_registry w1)"
    using assms(1) cleanup_entries_null [of "error_registry w"]
    by (auto simp: w1_def registry_wf_def error_registry_cleanup_def split: prod.splits)
  have s1: "map (\<lambda>e. (code e, name e)) (error_registry w1)
              = map (\<lambda>e. (code e, name e)) initial_error_registry"
    using assms(1) cleanup_entries_static [of "error_registry w"]
    by (auto simp: w1_def registry_wf_def error_registry_cleanup_def split: prod.splits)
  have "\<exists>base. obj = error_classes_factory base
           \<and> error_registry w' = snd (register_all env w1 obj 0 (error_registry w1))
           \<and> pending_exception w1 = None \<and> pending_exception w' = None \<and> g_registered w'"
    using assms(2)
    by (auto simp: napi_init_error_classes_def Let_def w1_def napi_throw_error_def
          napi_run_script_def napi_call_function_def
          split: prod.splits option.splits if_splits)
  then obtain base where
    obj: "obj = error_classes_factory base"
    and reg: "error_registry w' = snd (register_all env w1 obj 0 (error_registry w1))"
    and quiet3: "pending_exception w1 = None"
    and quiet: "pending_exception w' = None"
    and g: "g_registered w'"
    by blast
  have wf: "registry_wf w'"
    using g reg s1 register_all_static [of env w1 obj 0 "error_registry w1"]
    by (simp add: registry_wf_def)
  from obj reg n1 s1 g wf quiet quiet3 show ?thesis by blast
qed


lemma error_class_function: "napi_typeof (error_class base n) = napi_function"
  by (simp add: error_class_def StorjError_class_def)



lemma plain_error_pending:
  "pending_exception w \<noteq> None \<Longrightarrow>
   plain_error w c msg = JsObject (JsFunction ''Error'')
      [(''message'', JsString (case msg of Some m \<Rightarrow> m | None \<Rightarrow> ''Unknown error''))]"
  by (auto simp add: plain_error_def uplink_error_to_js_obj_def napi_create_error_def
        napi_set_named_property_def Let_def)


lemma details_arg_eq:
  "(case msg of Some m \<Rightarrow> napi_create_string_utf8 m | None \<Rightarrow> JsUndefined) = details_arg msg"
  by (cases msg) (simp_all add: details_arg_def napi_create_string_utf8_def)

text \<open>What \<open>create_typed_error\<close> does with the constructor it finds for a code.\<close>

lemma create_typed_error_found:
  assumes "g_registered w" and "find_error_constructor_ref (error_registry w) c = Some (Ref ctor)"
    and "get_reference_value_status env = napi_ok" and "pending_exception w = None"
  shows "create_typed_error env c msg w =
           (case js_new env ctor [details_arg msg] of
              Constructed v \<Rightarrow> (v, w)
            | Thrown exc \<Rightarrow> (plain_error (w\<lparr>pending_exception := Some exc\<rparr>) c msg,
                              w\<lparr>pending_exception := Some exc\<rparr>)
            | Not_a_function \<Rightarrow> (plain_error w c msg, w))"
  using assms
  by (simp add: create_typed_error_def napi_new_instance_def details_arg_eq
        Let_def split: construction.splits)


lemma js_new_error_class:
  assumes "(c, n) \<in> set (map (\<lambda>entry. (code entry, name entry)) initial_error_registry)"
  shows "js_new env (error_class base n) [details_arg msg]
           = (if n = ''StorjError''
              then StorjError_constructor env (error_class base n) n base (details_arg msg)
                     JsUndefined JsUndefined
              else StorjError_constructor env (error_class base n) n base
                     (JsString (fst (the (map_of error_subclasses n)))) (JsNumber (sint c))
                     (details_arg msg))"
proof (cases "n = ''StorjError''")
  case True
  then show ?thesis by (simp add: error_class_def StorjError_class_def numeral_2_eq_2)
next
  case False
  have "pending_exception initial_world = None" by (simp add: initial_world_def)
  with factory_lookup [OF assms, of initial_world base] False obtain title where
    "map_of error_subclasses n = Some (title, sint c)" by blast
  with False show ?thesis by (simp add: error_class_def StorjError_class_def)
qed

text \<open>After a successful registration, in any later world that holds the same registry:
  the constructor found for a code of the table is the class the script declares under
  the name of the code's entry.\<close>

lemma find_after_init:
  assumes wf: "registry_wf w" and init: "napi_init_error_classes env argv w = (Some obj, w')"
    and mem: "(c, n) \<in> set (map (\<lambda>entry. (code entry, name entry)) initial_error_registry)"
    and ok: "create_reference_status env n = napi_ok"
  shows "\<exists>base. obj = error_classes_factory base
           \<and> find_error_constructor_ref (error_registry w') c = Some (Ref (error_class base n))"
proof -
  from init_registry [OF wf init] obtain base w3 es0 where
    obj: "obj = error_classes_factory base"
    and reg: "error_registry w' = snd (register_all env w3 obj 0 es0)"
    and quiet3: "pending_exception w3 = None"
    and null: "list_all (\<lambda>e. constructor_ref e = None) es0"
    and static: "map (\<lambda>e. (code e, name e)) es0 = map (\<lambda>e. (code e, name e)) initial_error_registry"
    by blast
  from mem static have "(c, n) \<in> set (map (\<lambda>e. (code e, name e)) es0)" by simp
  then obtain e where e: "e \<in> set es0" "code e = c" "name e = n" by auto
  have "map code es0 = map code initial_error_registry"
    using static by (rule static_codes)
  then have d: "distinct (map code es0)" using static_codes_distinct by simp
  have look: "napi_get_named_property w3 obj (name e) = (napi_ok, error_class base n)"
    using factory_lookup [OF mem quiet3, of base] obj e(3) by simp
  from register_all_find [OF d e(1) look error_class_function] ok e
  have "find_error_constructor_ref (error_registry w') c = Some (Ref (error_class base n))"
    by (simp add: reg)
  with obj show ?thesis by blast
qed



lemma cleanup_registry:
  "error_registry (error_registry_cleanup w) = snd (cleanup_entries (error_registry w))"
  by (simp add: error_registry_cleanup_def split: prod.splits)

lemma cleanup_wf:
  assumes "registry_wf w"
  shows "registry_wf (error_registry_cleanup w)"
proof -
  have "map (\<lambda>e. (code e, name e)) (error_registry (error_registry_cleanup w))
          = map (\<lambda>e. (code e, name e)) initial_error_registry"
    using assms by (simp only: cleanup_registry cleanup_entries_static registry_wf_def)
  moreover have "list_all (\<lambda>e. constructor_ref e = None) (error_registry (error_registry_cleanup w))"
    by (simp only: cleanup_registry cleanup_entries_null)
  ultimately show ?thesis unfolding registry_wf_def by blast
qed

lemma initial_world_wf: "registry_wf initial_world"
  by (simp add: registry_wf_def initial_world_def initial_error_registry_def)


lemma bad_base_world_init:
  "napi_init_error_classes env_throwing_base [JsFunction ''Bad''] initial_world
     = (Some (error_classes_factory (JsFunction ''Bad'')), bad_base_world)"
  by (simp add: bad_base_world_def napi_init_error_classes_def get_error_base_constructor_def
        napi_run_script_def napi_call_function_def env_throwing_base_def
        env_ok_def initial_world_def Let_def split: prod.splits)

lemma factory_inject: "error_classes_factory base = error_classes_factory base' \<Longrightarrow> base = base'"
  by (simp add: error_classes_factory_def StorjError_class_def)

lemma bucket_not_found_entry:
  "(0x13, ''BucketNotFoundError'') \<in> set (map (\<lambda>entry. (code entry, name entry)) initial_error_registry)"
  unfolding static_pairs by simp



lemma bad_base_found:
  "find_error_constructor_ref (error_registry bad_base_world) 0x13
     = Some (Ref (error_class (JsFunction ''Bad'') ''BucketNotFoundError''))"
proof -
  have ok: "create_reference_status env_throwing_base ''BucketNotFoundError'' = napi_ok"
    by (simp add: env_throwing_base_def env_ok_def)
  from find_after_init [OF initial_world_wf bad_base_world_init bucket_not_found_entry ok]
  obtain base where
    "error_classes_factory (JsFunction ''Bad'') = error_classes_factory base"
    "find_error_constructor_ref (error_registry bad_base_world) 0x13
       = Some (Ref (error_class base ''BucketNotFoundError''))"
    by blast
  with factory_inject [of "JsFunction ''Bad''" base] show ?thesis by simp
qed

lemma bad_base_registered: "g_registered bad_base_world \<and> pending_exception bad_base_world = None"
  using init_registry [OF initial_world_wf bad_base_world_init] by blast

lemma bad_base_construction:
  "js_new env_throwing_base (error_class (JsFunction ''Bad'') ''BucketNotFoundError'')
      [details_arg (Some ''bucket missing'')]
     = Thrown (ThrownValue (JsString ''boom''))"
  unfolding js_new_error_class [OF bucket_not_found_entry]
  by (simp add: StorjError_constructor_def
        super_message_def js_to_string_def details_arg_def ErrorBase_constructor_def
        env_throwing_base_def)

text \<open>
  C2. The claim is what the code documents: the fallback at the end of
  \<open>create_typed_error\<close> is a plain \<^verbatim>\<open>Error\<close> with \<^verbatim>\<open>code\<close> and \<^verbatim>\<open>name\<close> properties, reached
  when the classes are not initialised or the lookup or the construction fails. On
  one path the code does not do that. After \<^verbatim>\<open>initErrorClasses\<close> was given a base
  constructor that throws when called, the registry is registered and no exception is
  pending; \<open>create_typed_error\<close> for the code \<^verbatim>\<open>0x13\<close> of the table then finds the class,
  the construction throws, and the function returns an \<^verbatim>\<open>Error\<close> that carries the
  message only, neither code nor name, with the constructor's exception left pending.
  A completion routine that rejects with the returned object is refused by the
  runtime: the promise of the failed \<^verbatim>\<open>createBucket\<close> below is never settled.
\<close>

theorem construction_failure_leaves_exception_pending:
  "g_registered bad_base_world
   \<and> pending_exception bad_base_world = None
   \<and> create_typed_error env_throwing_base 0x13 (Some ''bucket missing'') bad_base_world
       = (JsObject (JsFunction ''Error'') [(''message'', JsString ''bucket missing'')],
          bad_base_world\<lparr>pending_exception := Some (ThrownValue (JsString ''boom''))\<rparr>)
   \<and> effects_of bad_base_world
        (create_bucket_complete env_throwing_base napi_ok 0x3000
           (example_bucket_data\<lparr>BucketOpData.result :=
              \<lparr>UplinkBucketResult.bucket = None,
               UplinkBucketResult.error =
                 Some \<lparr>UplinkError.code = 0x13, UplinkError.message = Some ''bucket missing''\<rparr>\<rparr>\<rparr>)
           bad_base_world)
       = [Uplink_free_error \<lparr>UplinkError.code = 0x13, UplinkError.message = Some ''bucket missing''\<rparr>,
          Free 0x6000, Napi_delete_async_work 0x5000, Free 0x3000]"
proof -
  have ok: "get_reference_value_status env_throwing_base = napi_ok"
    by (simp add: env_throwing_base_def env_ok_def)
  note reg = bad_base_registered
  have typed:
    "create_typed_error env_throwing_base 0x13 (Some ''bucket missing'') bad_base_world
       = (JsObject (JsFunction ''Error'') [(''message'', JsString ''bucket missing'')],
          bad_base_world\<lparr>pending_exception := Some (ThrownValue (JsString ''boom''))\<rparr>)"
    using reg
    by (simp add: create_typed_error_found [OF _ bad_base_found ok] bad_base_construction
          plain_error_pending)
  have run: "effects_of bad_base_world
        (create_bucket_complete env_throwing_base napi_ok 0x3000
           (example_bucket_data\<lparr>BucketOpData.result :=
              \<lparr>UplinkBucketResult.bucket = None,
               UplinkBucketResult.error =
                 Some \<lparr>UplinkError.code = 0x13, UplinkError.message = Some ''bucket missing''\<rparr>\<rparr>\<rparr>)
           bad_base_world)
       = [Uplink_free_error \<lparr>UplinkError.code = 0x13, UplinkError.message = Some ''bucket missing''\<rparr>,
          Free 0x6000, Napi_delete_async_work 0x5000, Free 0x3000]"
    by (simp add: create_bucket_complete_def example_bucket_data_def typed Let_def
          napi_reject_deferred_def uplink_free_error_def napi_delete_async_work_def free_def
          emit_def effects_of_def)
  from reg typed run show ?thesis by blast
qed









section \<open>Errors delivered by completion routines\<close>


















end
